theory Spec2Isabelle
  imports Main
begin

section \<open>Python values, tensors and distributed arrays\<close>

text \<open>
  The development embeds parts of \<^verbatim>\<open>heat/core/linalg.py\<close>: the argument validation of
  \<^verbatim>\<open>qr\<close>, \<^verbatim>\<open>transpose\<close>, and the shape, partition-axis and block-map logic of
  \<^verbatim>\<open>matmul\<close>. Exceptions are values of type \<open>error\<close>; a function that can raise returns
  \<open>error + 'r\<close> with \<open>Inl\<close> for the exception.
\<close>

datatype error =
    TypeError string
  | ValueError string
  | NotImplementedError string
  | RuntimeError string
  | ZeroDivisionError
  | IndexError

fun is_TypeError :: "error \<Rightarrow> bool" where
  "is_TypeError (TypeError m) = True"
| "is_TypeError e = False"

fun is_ValueError :: "error \<Rightarrow> bool" where
  "is_ValueError (ValueError m) = True"
| "is_ValueError e = False"

text \<open>Decimal rendering of a natural number, as \<^verbatim>\<open>str.format\<close> prints a non-negative int.\<close>

definition digit_char :: "nat \<Rightarrow> char" where
  "digit_char d = ''0123456789'' ! d"

function str_nat :: "nat \<Rightarrow> string" where
  "str_nat n = (if n < 10 then [digit_char n] else str_nat (n div 10) @ [digit_char (n mod 10)])"
  by pat_completeness auto
termination
  by (relation "measure id") auto

declare str_nat.simps [simp del]

text \<open>
  A local torch tensor: its shape and its elements in row-major order. The element type
  is a parameter; arithmetic on elements is that of a semiring, so floating-point rounding
  is outside the embedding.
\<close>

record 'a tensor =
  tshape :: "nat list"
  telems :: "'a list"

definition numel :: "'a tensor \<Rightarrow> nat" where
  "numel t = prod_list (tshape t)"

text \<open>Element types of heat arrays, narrowest first.\<close>

datatype htype = HBool | HUInt8 | HInt8 | HInt16 | HInt32 | HInt64 | HFloat32 | HFloat64

text \<open>
  A DNDarray as one process sees it: the local torch tensor (\<^verbatim>\<open>_DNDarray__array\<close>), the
  global shape, the element type, the split axis, and the size and rank of its
  communicator. \<^verbatim>\<open>a.shape\<close> is \<open>gshape\<close>, \<^verbatim>\<open>a.lshape\<close> is the shape of the local tensor.
\<close>

record 'a dndarray =
  array :: "'a tensor"
  gshape :: "nat list"
  dtype :: htype
  split :: "nat option"
  comm_size :: nat
  comm_rank :: nat

definition lshape :: "'a dndarray \<Rightarrow> nat list" where
  "lshape a = tshape (array a)"

text \<open>
  Objects live in a store: a name is an address, the store maps every address to an
  object, and \<open>next_ref\<close> is the first address not yet handed out. The state of a process
  is the store together with the log of the communication calls it has issued.
\<close>

type_synonym ref = nat

datatype comm_event = Allreduce | Iallreduce | Ibcast nat | Wait

record 'a world =
  heap :: "ref \<Rightarrow> 'a dndarray"
  next_ref :: ref
  comm_log :: "comm_event list"

definition alloc :: "'a dndarray \<Rightarrow> 'a world \<Rightarrow> ref \<times> 'a world" where
  "alloc obj st =
     (next_ref st, st\<lparr>heap := (heap st)(next_ref st := obj), next_ref := Suc (next_ref st)\<rparr>)"

definition emit :: "comm_event \<Rightarrow> 'a world \<Rightarrow> 'a world" where
  "emit ev st = st\<lparr>comm_log := comm_log st @ [ev]\<rparr>"

text \<open>
  Python values as far as the \<^verbatim>\<open>isinstance\<close> checks of this module tell them apart.
  A float, a list or any other object answers every check below as \<open>PyStr\<close> does.
\<close>

datatype 'a pyval =
    PyNone
  | PyBool bool
  | PyInt int
  | PyStr string
  | PyTensor "'a tensor"
  | PyDNDarray ref

fun isinstance_DNDarray :: "'a pyval \<Rightarrow> bool" where
  "isinstance_DNDarray (PyDNDarray r) = True"
| "isinstance_DNDarray v = False"

text \<open>\<^verbatim>\<open>bool\<close> is a subclass of \<^verbatim>\<open>int\<close>: \<^verbatim>\<open>isinstance(True, int)\<close> holds.\<close>

fun isinstance_int :: "'a pyval \<Rightarrow> bool" where
  "isinstance_int (PyInt i) = True"
| "isinstance_int (PyBool b) = True"
| "isinstance_int v = False"

fun isinstance_bool :: "'a pyval \<Rightarrow> bool" where
  "isinstance_bool (PyBool b) = True"
| "isinstance_bool v = False"

fun isinstance_Tensor :: "'a pyval \<Rightarrow> bool" where
  "isinstance_Tensor (PyTensor t) = True"
| "isinstance_Tensor v = False"

fun type_repr :: "'a pyval \<Rightarrow> string" where
  "type_repr PyNone = ''<class 'NoneType'>''"
| "type_repr (PyBool b) = ''<class 'bool'>''"
| "type_repr (PyInt i) = ''<class 'int'>''"
| "type_repr (PyStr s) = ''<class 'str'>''"
| "type_repr (PyTensor t) = ''<class 'torch.Tensor'>''"
| "type_repr (PyDNDarray r) = ''<class 'heat.core.dndarray.DNDarray'>''"

fun tensor_numel :: "'a pyval \<Rightarrow> nat" where
  "tensor_numel (PyTensor t) = numel t"
| "tensor_numel v = 0"

fun ndim_of :: "'a world \<Rightarrow> 'a pyval \<Rightarrow> nat" where
  "ndim_of st (PyDNDarray r) = length (gshape (heap st r))"
| "ndim_of st v = 0"

section \<open>qr: argument validation\<close>

text \<open>
  Lines 892 to 909 of \<^verbatim>\<open>qr\<close>: six checks in the order of the source, each raising before
  anything else runs. \<open>tiles_per_proc_kind_ok\<close> is the \<^verbatim>\<open>isinstance\<close> test of line 894.
\<close>

definition tiles_per_proc_kind_ok :: "'a pyval \<Rightarrow> bool" where
  "tiles_per_proc_kind_ok tiles_per_proc \<longleftrightarrow>
     isinstance_int tiles_per_proc \<or> isinstance_Tensor tiles_per_proc"

definition qr_check ::
  "'a world \<Rightarrow> 'a pyval \<Rightarrow> 'a pyval \<Rightarrow> 'a pyval \<Rightarrow> 'a pyval \<Rightarrow> error option" where
  "qr_check st a tiles_per_proc calc_q overwrite_a =
     (if \<not> isinstance_DNDarray a then Some (TypeError (CHR 0x27 # ''a' must be a DNDarray''))
      else if \<not> tiles_per_proc_kind_ok tiles_per_proc then
        Some (TypeError (''tiles_per_proc must be an int or a torch.Tensor, currently ''
                         @ type_repr tiles_per_proc))
      else if \<not> isinstance_bool calc_q then
        Some (TypeError (''calc_q must be a bool, currently '' @ type_repr calc_q))
      else if \<not> isinstance_bool overwrite_a then
        Some (TypeError (''overwrite_a must be a bool, currently '' @ type_repr overwrite_a))
      else if isinstance_Tensor tiles_per_proc then
        Some (ValueError (''tiles_per_proc must be a single element torch.Tenor or int, currently has ''
                          @ str_nat (tensor_numel tiles_per_proc) @ '' entries''))
      else if ndim_of st a \<noteq> 2 then Some (ValueError ''Array 'a' must be 2 dimensional'')
      else None)"

text \<open>
  The whole of \<^verbatim>\<open>qr\<close>: the checks, then the factorisation of lines 911 to 989, which is
  a parameter here (\<open>factorise\<close>): it runs torch's floating-point QR kernel and the tiling
  module, neither of which this development embeds.
\<close>

definition qr ::
  "('a world \<Rightarrow> 'a pyval \<Rightarrow> 'a pyval \<Rightarrow> 'a pyval \<Rightarrow> 'a pyval \<Rightarrow> (error + 'r) \<times> 'a world) \<Rightarrow>
   'a world \<Rightarrow> 'a pyval \<Rightarrow> 'a pyval \<Rightarrow> 'a pyval \<Rightarrow> 'a pyval \<Rightarrow> (error + 'r) \<times> 'a world" where
  "qr factorise st a tiles_per_proc calc_q overwrite_a =
     (case qr_check st a tiles_per_proc calc_q overwrite_a of
        Some e \<Rightarrow> (Inl e, st)
      | None \<Rightarrow> factorise st a tiles_per_proc calc_q overwrite_a)"

section \<open>transpose\<close>

text \<open>
  The \<^verbatim>\<open>axes\<close> argument of \<^verbatim>\<open>transpose\<close>: \<^verbatim>\<open>None\<close>, an iterable, or an object that
  \<^verbatim>\<open>list()\<close> rejects. An element of the iterable is an int or some other object, of which
  only the printed type matters. Elements of type bool are left out: they pass
  \<^verbatim>\<open>isinstance(axis, int)\<close>, and what happens to them is decided inside torch.
\<close>

datatype axis_val = AxInt int | AxOther string

datatype axes_arg = AxesNone | AxesIterable "axis_val list" | AxesNotIterable

definition str_int :: "int \<Rightarrow> string" where
  "str_int i = (if i < 0 then ''-'' @ str_nat (nat (- i)) else str_nat (nat i))"

text \<open>
  The loop of lines 1866 to 1870: the first element that is not an int raises, a negative
  int is replaced by itself plus the number of dimensions.
\<close>

fun sanitize_axes :: "nat \<Rightarrow> axis_val list \<Rightarrow> error + int list" where
  "sanitize_axes dimensions [] = Inr []"
| "sanitize_axes dimensions (AxOther ty # rest) =
     Inl (TypeError (''axis must be an integer, but was '' @ ty))"
| "sanitize_axes dimensions (AxInt axis # rest) =
     (case sanitize_axes dimensions rest of
        Inl e \<Rightarrow> Inl e
      | Inr rest' \<Rightarrow> Inr ((if axis < 0 then axis + int dimensions else axis) # rest'))"

text \<open>\<^verbatim>\<open>axes.index(x)\<close>: the first position holding \<open>x\<close>, or no position (ValueError).\<close>

fun index_of :: "int \<Rightarrow> int list \<Rightarrow> nat option" where
  "index_of x [] = None"
| "index_of x (y # ys) = (if y = x then Some 0 else map_option Suc (index_of x ys))"

text \<open>
  \<^verbatim>\<open>Tensor.permute\<close> of torch. Its two exceptions are the ones \<^verbatim>\<open>transpose\<close> catches; the
  message texts are torch's. The dimensions are checked in order: each is wrapped (a
  negative one counts from the end) and must be in range, then must not have occurred.
\<close>

datatype torch_error = TorchRuntimeError string | TorchIndexError string

fun torch_error_str :: "torch_error \<Rightarrow> string" where
  "torch_error_str (TorchRuntimeError m) = m"
| "torch_error_str (TorchIndexError m) = m"

fun wrap_dims :: "nat \<Rightarrow> nat list \<Rightarrow> int list \<Rightarrow> torch_error + nat list" where
  "wrap_dims n seen [] = Inr []"
| "wrap_dims n seen (d # ds) =
     (if d < - int n \<or> int n \<le> d then
        Inl (TorchIndexError (''Dimension out of range (expected to be in range of [''
               @ str_int (- int n) @ '', '' @ str_int (int n - 1) @ ''], but got ''
               @ str_int d @ '')''))
      else
        let w = nat (if d < 0 then d + int n else d) in
        if w \<in> set seen then Inl (TorchRuntimeError ''repeated dim in permute'')
        else (case wrap_dims n (w # seen) ds of
                Inl e \<Rightarrow> Inl e
              | Inr ws \<Rightarrow> Inr (w # ws)))"

text \<open>All index tuples of a shape in row-major order, and the flat position of one.\<close>

fun multi_indices :: "nat list \<Rightarrow> nat list list" where
  "multi_indices [] = [[]]"
| "multi_indices (d # ds) = concat (map (\<lambda>i. map ((#) i) (multi_indices ds)) [0..<d])"

fun flat_index :: "nat list \<Rightarrow> nat list \<Rightarrow> nat" where
  "flat_index (d # ds) (i # is) = i * prod_list ds + flat_index ds is"
| "flat_index ds is = 0"

fun position :: "nat \<Rightarrow> nat list \<Rightarrow> nat" where
  "position x [] = 0"
| "position x (y # ys) = (if y = x then 0 else Suc (position x ys))"

definition permute_data :: "'a tensor \<Rightarrow> nat list \<Rightarrow> 'a tensor" where
  "permute_data t dims =
     (let new_shape = map (\<lambda>d. tshape t ! d) dims;
          source = (\<lambda>idx. map (\<lambda>d. idx ! position d dims) [0..<length dims])
      in \<lparr>tshape = new_shape,
          telems = map (\<lambda>idx. telems t ! flat_index (tshape t) (source idx))
                       (multi_indices new_shape)\<rparr>)"

definition torch_permute :: "'a tensor \<Rightarrow> int list \<Rightarrow> torch_error + 'a tensor" where
  "torch_permute t dims =
     (if length dims \<noteq> length (tshape t) then
        Inl (TorchRuntimeError ''number of dims don't match in permute'')
      else (case wrap_dims (length (tshape t)) [] dims of
              Inl e \<Rightarrow> Inl e
            | Inr ws \<Rightarrow> Inr (permute_data t ws)))"

text \<open>Indexing a tuple as Python does: a negative index counts from the end.\<close>

definition py_index :: "'b list \<Rightarrow> int \<Rightarrow> 'b option" where
  "py_index xs i =
     (if 0 \<le> i \<and> i < int (length xs) then Some (xs ! nat i)
      else if - int (length xs) \<le> i \<and> i < 0 then Some (xs ! nat (int (length xs) + i))
      else None)"

fun shape_at_axes :: "nat list \<Rightarrow> int list \<Rightarrow> nat list option" where
  "shape_at_axes shape [] = Some []"
| "shape_at_axes shape (axis # rest) =
     (case py_index shape axis of
        None \<Rightarrow> None
      | Some d \<Rightarrow> map_option ((#) d) (shape_at_axes shape rest))"

text \<open>
  Lines 1853 to 1870: the axes in use. With \<^verbatim>\<open>axes=None\<close> they are the dimensions
  reversed.
\<close>

definition transpose_axes :: "nat \<Rightarrow> axes_arg \<Rightarrow> error + int list" where
  "transpose_axes dimensions axes =
     (case axes of
        AxesNone \<Rightarrow> Inr (rev (map int [0..<dimensions]))
      | AxesNotIterable \<Rightarrow> Inl (ValueError ''axes must be an iterable containing ints'')
      | AxesIterable l \<Rightarrow>
          if length l \<noteq> dimensions then Inl (ValueError ''axes do not match tensor shape'')
          else sanitize_axes dimensions l)"

text \<open>
  \<^verbatim>\<open>transpose\<close>, lines 1849 to 1888. It builds a new DNDarray and changes no existing
  one, so it is a function of the store.
\<close>

definition transpose_dndarray :: "'a world \<Rightarrow> 'a pyval \<Rightarrow> axes_arg \<Rightarrow> error + 'a dndarray" where
  "transpose_dndarray st a axes =
     (case a of
        PyDNDarray r \<Rightarrow>
          (let obj = heap st r; dimensions = length (gshape obj) in
           case transpose_axes dimensions axes of
             Inl e \<Rightarrow> Inl e
           | Inr axes' \<Rightarrow>
               (case (case split obj of
                        None \<Rightarrow> Inr None
                      | Some s \<Rightarrow> (case index_of (int s) axes' of
                                     None \<Rightarrow> Inl (ValueError ''axes do not match tensor shape'')
                                   | Some i \<Rightarrow> Inr (Some i))) of
                  Inl e \<Rightarrow> Inl e
                | Inr transposed_split \<Rightarrow>
                    (case torch_permute (array obj) axes' of
                       Inl te \<Rightarrow> Inl (ValueError (torch_error_str te))
                     | Inr transposed_data \<Rightarrow>
                         (case shape_at_axes (gshape obj) axes' of
                            None \<Rightarrow> Inl (ValueError ''tuple index out of range'')
                          | Some transposed_shape \<Rightarrow>
                              Inr \<lparr>array = transposed_data, gshape = transposed_shape,
                                   dtype = dtype obj, split = transposed_split,
                                   comm_size = comm_size obj, comm_rank = comm_rank obj\<rparr>))))
      | _ \<Rightarrow> Inl (TypeError (''a must be of type ht.DNDarray, but was '' @ type_repr a)))"

text \<open>
  What an entry of \<^verbatim>\<open>axes\<close> denotes among \<open>n\<close> dimensions: a negative entry counts from the
  end. The statements about \<^verbatim>\<open>transpose\<close> read the given axes through it.
\<close>

definition wrap_axis :: "nat \<Rightarrow> int \<Rightarrow> int" where
  "wrap_axis n x = (if x < 0 then x + int n else x)"

section \<open>matmul: local tensor operations and collaborators\<close>

text \<open>
  The torch operations \<^verbatim>\<open>matmul\<close> applies to local tensors, for 2-dimensional tensors.
  \<^verbatim>\<open>matmul\<close> below applies them to 2-dimensional tensors only; on others they do not follow
  torch. A shape that torch rejects gives the RuntimeError torch raises, which
  \<^verbatim>\<open>matmul\<close> does not catch.
\<close>

definition nrows :: "'a tensor \<Rightarrow> nat" where
  "nrows t = (case tshape t of r # _ \<Rightarrow> r | [] \<Rightarrow> 0)"

definition ncols :: "'a tensor \<Rightarrow> nat" where
  "ncols t = (case tshape t of _ # c # _ \<Rightarrow> c | _ \<Rightarrow> 0)"

definition elem :: "'a tensor \<Rightarrow> nat \<Rightarrow> nat \<Rightarrow> 'a" where
  "elem t i j = telems t ! (i * ncols t + j)"

definition build2 :: "nat \<Rightarrow> nat \<Rightarrow> (nat \<Rightarrow> nat \<Rightarrow> 'a) \<Rightarrow> 'a tensor" where
  "build2 r c f = \<lparr>tshape = [r, c], telems = concat (map (\<lambda>i. map (f i) [0..<c]) [0..<r])\<rparr>"

definition torch_zeros :: "nat \<Rightarrow> nat \<Rightarrow> ('a::zero) tensor" where
  "torch_zeros r c = build2 r c (\<lambda>i j. 0)"

definition torch_matmul :: "('a::semiring_0) tensor \<Rightarrow> 'a tensor \<Rightarrow> error + 'a tensor" where
  "torch_matmul x y =
     (if ncols x \<noteq> nrows y then Inl (RuntimeError ''size mismatch'')
      else Inr (build2 (nrows x) (ncols y)
                  (\<lambda>i j. sum_list (map (\<lambda>l. elem x i l * elem y l j) [0..<ncols x]))))"

text \<open>A slice \<^verbatim>\<open>t[r0:r1, c0:c1]\<close> with non-negative bounds, which Python clamps to the extent.\<close>

definition slice2 :: "'a tensor \<Rightarrow> nat \<Rightarrow> nat \<Rightarrow> nat \<Rightarrow> nat \<Rightarrow> 'a tensor" where
  "slice2 t r0 r1 c0 c1 =
     (let r0' = min r0 (nrows t); r1' = min r1 (nrows t);
          c0' = min c0 (ncols t); c1' = min c1 (ncols t)
      in build2 (r1' - r0') (c1' - c0') (\<lambda>i j. elem t (r0' + i) (c0' + j)))"

text \<open>
  \<^verbatim>\<open>x[r0:r1, :] += y\<close>: the addend must have the shape of the slice, or an extent of 1
  where it differs (it is then repeated); otherwise torch raises.
\<close>

definition iadd_rows :: "('a::semiring_0) tensor \<Rightarrow> nat \<Rightarrow> nat \<Rightarrow> 'a tensor \<Rightarrow> error + 'a tensor" where
  "iadd_rows x r0 r1 y =
     (let r0' = min r0 (nrows x); r1' = min r1 (nrows x); h = r1' - r0' in
      if (nrows y \<noteq> h \<and> nrows y \<noteq> 1) \<or> (ncols y \<noteq> ncols x \<and> ncols y \<noteq> 1)
      then Inl (RuntimeError ''The size of tensor a must match the size of tensor b'')
      else Inr (build2 (nrows x) (ncols x)
                  (\<lambda>i j. if r0' \<le> i \<and> i < r1'
                          then elem x i j + elem y (if nrows y = h then i - r0' else 0)
                                                   (if ncols y = ncols x then j else 0)
                          else elem x i j)))"

definition iadd :: "('a::semiring_0) tensor \<Rightarrow> 'a tensor \<Rightarrow> error + 'a tensor" where
  "iadd x y = iadd_rows x 0 (nrows x) y"

text \<open>
  Modelled from the spec: \<^verbatim>\<open>comm.chunk\<close> of the communication layer, which is not part of
  this module. The spec's ChunkDescriptor gives every rank an extent \<open>(start, stop)\<close> of
  the split dimension, the extents covering it without gaps or overlaps and their sizes
  differing by at most one (standard block distribution); here the first ranks hold the
  larger extents. \<open>chunk_extent n p r\<close> is the extent of rank \<open>r\<close> of \<open>p\<close> for a dimension of
  size \<open>n\<close>.
\<close>

definition chunk_extent :: "nat \<Rightarrow> nat \<Rightarrow> nat \<Rightarrow> nat \<times> nat" where
  "chunk_extent n p r =
     (let q = n div p; m = n mod p; start = r * q + min r m
      in (start, start + q + (if r < m then 1 else 0)))"

text \<open>
  \<^verbatim>\<open>comm.chunk(shape, split)[2]\<close> for a 2-dimensional shape: the row extent and the column
  extent of a rank. The dimension that is not split is held whole.
\<close>

definition chunk :: "nat \<times> nat \<Rightarrow> nat option \<Rightarrow> nat \<Rightarrow> nat \<Rightarrow> (nat \<times> nat) \<times> (nat \<times> nat)" where
  "chunk shape split_axis p r =
     (case shape of (n0, n1) \<Rightarrow>
        (if split_axis = Some 0 then (chunk_extent n0 p r, (0, n1))
         else if split_axis = Some 1 then ((0, n0), chunk_extent n1 p r)
         else ((0, n0), (0, n1))))"

definition extent_len :: "nat \<times> nat \<Rightarrow> nat" where
  "extent_len e = snd e - fst e"

text \<open>The global shape of a 2-dimensional array as a pair.\<close>

definition shape2 :: "'a dndarray \<Rightarrow> nat \<times> nat" where
  "shape2 a = (gshape a ! 0, gshape a ! 1)"

definition lshape2 :: "'a dndarray \<Rightarrow> nat \<times> nat" where
  "lshape2 a = (nrows (array a), ncols (array a))"

text \<open>
  What \<^verbatim>\<open>matmul\<close> takes from outside this module and from the other processes:
  \<^item> \<open>promote_types\<close>: the common element type of two element types (module \<^verbatim>\<open>types\<close>);
  \<^item> \<open>allreduce_sum\<close>: the tensor every process holds after
    \<^verbatim>\<open>Allreduce(MPI.IN_PLACE, x, MPI.SUM)\<close>, given what this process contributes;
  \<^item> \<open>peer_lshapes\<close>: the local shapes of the two operands on each other rank, which the
    all-reduce of \<^verbatim>\<open>lshape_map\<close> gathers;
  \<^item> \<open>non_2d\<close>: the course of \<^verbatim>\<open>matmul\<close> after the check of line 156 when an operand is not
    2-dimensional (it goes through \<^verbatim>\<open>manipulations.expand_dims\<close>);
  \<^item> \<open>block_loops\<close>: the loops of lines 468 to 779, which exchange the shards with the
    other processes and accumulate the block products; they yield the local tensor of the
    result or raise, and the communication calls they issue. They write to no array but
    the local tensor of the result. What the loops compute from the shards the other
    processes send is \<open>mm_block_loops\<close> below.
\<close>

record 'a collaborators =
  promote_types :: "htype \<Rightarrow> htype \<Rightarrow> htype"
  allreduce_sum :: "'a tensor \<Rightarrow> 'a tensor"
  peer_lshapes :: "nat \<Rightarrow> (nat \<times> nat) \<times> (nat \<times> nat)"
  non_2d :: "'a world \<Rightarrow> ref \<Rightarrow> ref \<Rightarrow> bool \<Rightarrow> (error + ref) \<times> 'a world"
  block_loops :: "'a world \<Rightarrow> ref \<Rightarrow> ref \<Rightarrow> ref \<Rightarrow> (error + 'a tensor) \<times> comm_event list"

text \<open>
  Modelled from the spec: the conversion \<^verbatim>\<open>c_type(a, device=a.device)\<close> of module \<^verbatim>\<open>types\<close>
  (the narrower operand is upcast): a new array of the common type with the same numbers,
  split as the original.
\<close>

definition cast :: "htype \<Rightarrow> 'a dndarray \<Rightarrow> 'a dndarray" where
  "cast c_type a = a\<lparr>dtype := c_type\<rparr>"

text \<open>
  Modelled from the spec: \<^verbatim>\<open>factories.zeros(shape, split, dtype)\<close> and
  \<^verbatim>\<open>factories.array(tensor, split)\<close> of module \<^verbatim>\<open>factories\<close>. Each builds a new array on the
  communicator of the operands; with a split axis the local tensor is the part of the
  whole that \<^verbatim>\<open>comm.chunk\<close> gives this rank, without one it is the whole.
\<close>

definition factories_zeros ::
  "nat \<times> nat \<Rightarrow> nat option \<Rightarrow> htype \<Rightarrow> nat \<Rightarrow> nat \<Rightarrow> ('a::zero) dndarray" where
  "factories_zeros shape split_axis c_type p r =
     (case chunk shape split_axis p r of (e0, e1) \<Rightarrow>
        \<lparr>array = torch_zeros (extent_len e0) (extent_len e1),
         gshape = [fst shape, snd shape], dtype = c_type, split = split_axis,
         comm_size = p, comm_rank = r\<rparr>)"

definition factories_array ::
  "'a tensor \<Rightarrow> nat option \<Rightarrow> htype \<Rightarrow> nat \<Rightarrow> nat \<Rightarrow> 'a dndarray" where
  "factories_array t split_axis c_type p r =
     (case chunk (nrows t, ncols t) split_axis p r of (e0, e1) \<Rightarrow>
        \<lparr>array = (if split_axis = None then t
                  else slice2 t (fst e0) (snd e0) (fst e1) (snd e1)),
         gshape = [nrows t, ncols t], dtype = c_type, split = split_axis,
         comm_size = p, comm_rank = r\<rparr>)"

text \<open>
  Modelled from the spec: \<^verbatim>\<open>DNDarray.resplit_\<close>, which is not part of this module, called as
  \<^verbatim>\<open>a.resplit_(0)\<close> on an array that is not split. The spec has \<open>A\<close> partitioned along
  axis 0 first; the docstring of \<^verbatim>\<open>matmul\<close> says that the split axis of \<^verbatim>\<open>a\<close> becomes 0 and
  that the array is distributed in the standard fashion, in place. The local tensor becomes
  the rows that the standard distribution gives this rank.
\<close>

definition resplit_0 :: "'a dndarray \<Rightarrow> 'a dndarray" where
  "resplit_0 a =
     (case chunk (shape2 a) (Some 0) (comm_size a) (comm_rank a) of (e0, e1) \<Rightarrow>
        a\<lparr>split := Some 0,
          array := slice2 (array a) (fst e0) (snd e0) 0 (ncols (array a))\<rparr>)"

definition update_obj :: "ref \<Rightarrow> 'a dndarray \<Rightarrow> 'a world \<Rightarrow> 'a world" where
  "update_obj r obj st = st\<lparr>heap := (heap st)(r := obj)\<rparr>"

section \<open>matmul: block sizes and block maps\<close>

text \<open>Python's \<^verbatim>\<open>//\<close> and \<^verbatim>\<open>%\<close> on non-negative ints raise on a zero divisor.\<close>

definition floordiv :: "nat \<Rightarrow> nat \<Rightarrow> error + nat" where
  "floordiv x y = (if y = 0 then Inl ZeroDivisionError else Inr (x div y))"

definition pymod :: "nat \<Rightarrow> nat \<Rightarrow> error + nat" where
  "pymod x y = (if y = 0 then Inl ZeroDivisionError else Inr (x mod y))"

definition bind_err :: "error + 'b \<Rightarrow> ('b \<Rightarrow> error + 'c) \<Rightarrow> error + 'c" where
  "bind_err x f = (case x of Inl e \<Rightarrow> Inl e | Inr v \<Rightarrow> f v)"

text \<open>A \<^verbatim>\<open>for\<close> loop over a list that stops at the first exception.\<close>

fun for_each :: "'i list \<Rightarrow> ('i \<Rightarrow> 's \<Rightarrow> error + 's) \<Rightarrow> 's \<Rightarrow> error + 's" where
  "for_each [] body s = Inr s"
| "for_each (i # rest) body s =
     (case body i s of Inl e \<Rightarrow> Inl e | Inr s' \<Rightarrow> for_each rest body s')"

text \<open>
  The table \<^verbatim>\<open>lshape_map\<close> after its all-reduce (line 311): for every rank the local shape
  of \<^verbatim>\<open>a\<close> and the local shape of \<^verbatim>\<open>b\<close>.
\<close>

type_synonym lshape_table = "((nat \<times> nat) \<times> (nat \<times> nat)) list"

text \<open>Lines 283 to 297: the inner block size \<^verbatim>\<open>kB\<close>, for 2-dimensional operands.\<close>

definition mm_kB :: "'a dndarray \<Rightarrow> 'a dndarray \<Rightarrow> error + nat" where
  "mm_kB a b =
     (if split a = Some 1 \<and> split b = Some 0 then
        bind_err (floordiv (snd (shape2 a)) (comm_size a)) (\<lambda>x.
        bind_err (floordiv (fst (shape2 b)) (comm_size b)) (\<lambda>y. Inr (min x y)))
      else if split a = Some 0 \<and> split b = Some 1 then Inr (snd (shape2 a))
      else if split a = Some 1 then floordiv (snd (shape2 a)) (comm_size a)
      else if split b = Some 0 then
        bind_err (floordiv (fst (shape2 b)) (comm_size b)) (\<lambda>kB.
        Inr (if kB < snd (shape2 a) then kB else snd (shape2 a)))
      else Inr 0)"

text \<open>
  A remainder flag (lines 299 to 302 and 319 to 322): the extent is not a multiple of the
  block size, or \<^verbatim>\<open>kB\<close> is 1 and the extent is not.
\<close>

definition mm_rem :: "nat \<Rightarrow> nat \<Rightarrow> nat \<Rightarrow> error + bool" where
  "mm_rem extent blk kB =
     bind_err (pymod extent blk) (\<lambda>m. Inr (m \<noteq> 0 \<or> (kB = 1 \<and> extent \<noteq> 1)))"

text \<open>\<^verbatim>\<open>.min()\<close> of a column of the table; torch raises on a tensor without elements.\<close>

fun list_min :: "nat list \<Rightarrow> error + nat" where
  "list_min [] = Inl (RuntimeError ''min(): cannot perform reduction on an empty tensor'')"
| "list_min (x # xs) = Inr (fold min xs x)"

definition mm_mB :: "lshape_table \<Rightarrow> error + nat" where
  "mm_mB lshape_map = list_min (map (\<lambda>row. fst (fst row)) lshape_map)"

definition mm_nB :: "lshape_table \<Rightarrow> error + nat" where
  "mm_nB lshape_map = list_min (map (\<lambda>row. snd (snd row)) lshape_map)"

text \<open>
  Lines 283 to 302: \<^verbatim>\<open>kB\<close> and the two inner remainder flags, the first place that divides
  by \<^verbatim>\<open>kB\<close>. Nothing has been communicated yet.
\<close>

definition mm_inner_size :: "'a dndarray \<Rightarrow> 'a dndarray \<Rightarrow> error + nat" where
  "mm_inner_size a b =
     bind_err (mm_kB a b) (\<lambda>kB.
     bind_err (mm_rem (snd (lshape2 a)) kB kB) (\<lambda>rem_a.
     bind_err (mm_rem (fst (lshape2 b)) kB kB) (\<lambda>rem_b.
     Inr kB)))"

text \<open>
  Lines 304 to 322: \<^verbatim>\<open>mB\<close> and \<^verbatim>\<open>nB\<close> from the gathered table, and the two outer remainder
  flags.
\<close>

definition mm_outer_sizes ::
  "'a dndarray \<Rightarrow> 'a dndarray \<Rightarrow> lshape_table \<Rightarrow> nat \<Rightarrow> error + (nat \<times> nat)" where
  "mm_outer_sizes a b lshape_map kB =
     bind_err (mm_mB lshape_map) (\<lambda>mB.
     bind_err (mm_nB lshape_map) (\<lambda>nB.
     bind_err (mm_rem (fst (lshape2 a)) mB kB) (\<lambda>rem_a_out.
     bind_err (mm_rem (snd (lshape2 b)) nB kB) (\<lambda>rem_b_out.
     Inr (mB, nB)))))"

text \<open>Lines 283 to 322 together: the block sizes \<open>(kB, mB, nB)\<close>.\<close>

definition mm_block_sizes ::
  "'a dndarray \<Rightarrow> 'a dndarray \<Rightarrow> lshape_table \<Rightarrow> error + (nat \<times> nat \<times> nat)" where
  "mm_block_sizes a b lshape_map =
     bind_err (mm_inner_size a b) (\<lambda>kB.
     bind_err (mm_outer_sizes a b lshape_map kB) (\<lambda>(mB, nB).
     Inr (kB, mB, nB)))"

text \<open>
  The table \<^verbatim>\<open>rem_map\<close> after its all-reduce: every rank runs the same statements with the
  same block sizes, so the flags of a rank are those of its row of \<^verbatim>\<open>lshape_map\<close>. A row
  is \<open>((rem_a_out, rem_a), (rem_b, rem_b_out))\<close>.
\<close>

definition rem_flag :: "nat \<Rightarrow> nat \<Rightarrow> nat \<Rightarrow> bool" where
  "rem_flag extent blk kB \<longleftrightarrow> extent mod blk \<noteq> 0 \<or> (kB = 1 \<and> extent \<noteq> 1)"

definition mm_rem_map ::
  "nat \<Rightarrow> nat \<Rightarrow> nat \<Rightarrow> lshape_table \<Rightarrow> ((bool \<times> bool) \<times> (bool \<times> bool)) list" where
  "mm_rem_map kB mB nB lshape_map =
     map (\<lambda>row. case row of ((a0, a1), (b0, b1)) \<Rightarrow>
            ((rem_flag a0 mB kB, rem_flag a1 kB kB), (rem_flag b0 kB kB, rem_flag b1 nB kB)))
         lshape_map"

text \<open>
  A block map: \<open>m ! pr ! dim0 ! dim1\<close> is the pair of local start coordinates of a block,
  the tensor of shape \<^verbatim>\<open>(size, blocks0, blocks1, 2)\<close> of the source.
\<close>

type_synonym block_map = "(nat \<times> nat) list list list"

definition block_map_zeros :: "nat \<Rightarrow> nat \<Rightarrow> nat \<Rightarrow> block_map" where
  "block_map_zeros p d0 d1 = replicate p (replicate d0 (replicate d1 (0, 0)))"

text \<open>An assignment \<^verbatim>\<open>block_map[pr, dim0, dim1] = v\<close>; torch raises on an index out of range.\<close>

definition set_block :: "block_map \<Rightarrow> nat \<Rightarrow> nat \<Rightarrow> nat \<Rightarrow> nat \<times> nat \<Rightarrow> error + block_map" where
  "set_block m pr dim0 dim1 v =
     (if pr < length m \<and> dim0 < length (m ! pr) \<and> dim1 < length (m ! pr ! dim0)
      then Inr (m[pr := (m ! pr)[dim0 := (m ! pr ! dim0)[dim1 := v]]])
      else Inl IndexError)"

text \<open>
  The number of blocks of a rank in one dimension (the arguments of \<^verbatim>\<open>range\<close> in lines 393
  to 401 and 444 to 452): with the flag of the one-element edge case the quotient is
  divided by the number of processes as well.
\<close>

definition block_count :: "bool \<Rightarrow> nat \<Rightarrow> nat \<Rightarrow> nat \<Rightarrow> error + nat" where
  "block_count ones_flag extent blk p =
     (if ones_flag then bind_err (floordiv extent blk) (\<lambda>x. floordiv x p)
      else floordiv extent blk)"

text \<open>
  The loops of lines 387 to 405 (for \<^verbatim>\<open>a\<close>, with block sizes \<^verbatim>\<open>mB\<close> and \<^verbatim>\<open>kB\<close>) and of lines
  437 to 455 (for \<^verbatim>\<open>b\<close>, with \<^verbatim>\<open>kB\<close> and \<^verbatim>\<open>nB\<close>), which differ in these names only. \<open>extents pr\<close>
  is the pair of extents of rank \<open>pr\<close> in \<^verbatim>\<open>index_map\<close>. The number of blocks in dimension 1
  is evaluated anew in every round of the loop over dimension 0, as in the source.
\<close>

definition fill_block_map ::
  "nat \<Rightarrow> (nat \<Rightarrow> (nat \<times> nat) \<times> (nat \<times> nat)) \<Rightarrow> bool \<Rightarrow> bool \<Rightarrow> nat \<Rightarrow> nat \<Rightarrow>
   block_map \<Rightarrow> error + block_map" where
  "fill_block_map p extents d0_1s_flag d1_1s_flag blk0 blk1 m0 =
     for_each [0..<p] (\<lambda>pr m.
       bind_err (block_count d0_1s_flag (extent_len (fst (extents pr))) blk0 p) (\<lambda>n0.
       for_each [0..<n0] (\<lambda>dim0 m.
         bind_err (block_count d1_1s_flag (extent_len (snd (extents pr))) blk1 p) (\<lambda>n1.
         for_each [0..<n1] (\<lambda>dim1 m. set_block m pr dim0 dim1 (dim0 * blk0, dim1 * blk1)) m))
       m)) m0"

text \<open>
  Lines 410 to 414: for every remainder flag set, \<^verbatim>\<open>a_block_map[:, :, cnt:, 1] += 1\<close>; and
  lines 458 to 463: \<^verbatim>\<open>b_block_map[:, cnt:, :, 0] += 1\<close>.
\<close>

definition bump_dim1 :: "nat \<Rightarrow> block_map \<Rightarrow> block_map" where
  "bump_dim1 cnt m =
     map (map (\<lambda>row. map (\<lambda>(j, v). if cnt \<le> j then (fst v, snd v + 1) else v)
                          (enumerate 0 row))) m"

definition bump_dim0 :: "nat \<Rightarrow> block_map \<Rightarrow> block_map" where
  "bump_dim0 cnt m =
     map (\<lambda>plane. map (\<lambda>(i, row). if cnt \<le> i then map (\<lambda>v. (fst v + 1, snd v)) row else row)
                       (enumerate 0 plane)) m"

fun shift_blocks :: "(nat \<Rightarrow> block_map \<Rightarrow> block_map) \<Rightarrow> bool list \<Rightarrow> nat \<Rightarrow> block_map \<Rightarrow> block_map" where
  "shift_blocks bump [] cnt m = m"
| "shift_blocks bump (r # rest) cnt m =
     (if r then shift_blocks bump rest (Suc cnt) (bump (Suc cnt) m)
      else shift_blocks bump rest cnt m)"

definition any_eq_1 :: "nat list \<Rightarrow> bool" where
  "any_eq_1 xs \<longleftrightarrow> (\<exists>x \<in> set xs. x = 1)"

text \<open>
  The table \<^verbatim>\<open>index_map\<close> after its all-reduce: the extents \<^verbatim>\<open>comm.chunk\<close> gives every rank
  for \<^verbatim>\<open>a\<close> and for \<^verbatim>\<open>b\<close>.
\<close>

definition a_extents :: "'a dndarray \<Rightarrow> nat \<Rightarrow> (nat \<times> nat) \<times> (nat \<times> nat)" where
  "a_extents a pr = chunk (shape2 a) (split a) (comm_size a) pr"

text \<open>
  Lines 365 to 414: the block map of \<^verbatim>\<open>a\<close>. Its shape depends on the split axis of \<^verbatim>\<open>a\<close>,
  which is 0 or 1 wherever this code is reached.
\<close>

definition a_block_map_shape :: "'a dndarray \<Rightarrow> nat \<Rightarrow> nat \<Rightarrow> error + (nat \<times> nat)" where
  "a_block_map_shape a mB kB =
     (if split a = Some 0 then
        bind_err (floordiv (fst (shape2 a)) mB) (\<lambda>x.
        bind_err (floordiv x (comm_size a)) (\<lambda>d0.
        bind_err (floordiv (snd (shape2 a)) kB) (\<lambda>d1. Inr (d0, d1))))
      else
        bind_err (floordiv (fst (shape2 a)) mB) (\<lambda>d0.
        bind_err (floordiv (snd (shape2 a)) kB) (\<lambda>x.
        bind_err (floordiv x (comm_size a)) (\<lambda>d1. Inr (d0, d1)))))"

definition mm_a_block_map ::
  "'a dndarray \<Rightarrow> 'a dndarray \<Rightarrow> lshape_table \<Rightarrow> nat \<Rightarrow> nat \<Rightarrow> nat \<Rightarrow> error + block_map" where
  "mm_a_block_map a b lshape_map kB mB nB =
     bind_err (a_block_map_shape a mB kB) (\<lambda>(d0, d1).
     let a_d0_1s_flag = any_eq_1 (map (\<lambda>row. fst (fst row)) lshape_map);
         a_d1_1s_flag = any_eq_1 (map (\<lambda>row. snd (fst row)) lshape_map)
     in bind_err (fill_block_map (comm_size a) (a_extents a) a_d0_1s_flag a_d1_1s_flag mB kB
                    (block_map_zeros (comm_size a) d0 d1)) (\<lambda>m.
        Inr (if split b = Some 0
             then shift_blocks bump_dim1
                    (map (\<lambda>row. fst (snd row)) (mm_rem_map kB mB nB lshape_map)) 0 m
             else m)))"

text \<open>Lines 416 to 463: the block map of \<^verbatim>\<open>b\<close>.\<close>

definition b_block_map_shape :: "'a dndarray \<Rightarrow> nat \<Rightarrow> nat \<Rightarrow> error + (nat \<times> nat)" where
  "b_block_map_shape b kB nB =
     (if split b = Some 0 then
        bind_err (floordiv (fst (shape2 b)) kB) (\<lambda>x.
        bind_err (floordiv x (comm_size b)) (\<lambda>d0.
        bind_err (floordiv (snd (shape2 b)) nB) (\<lambda>d1. Inr (d0, d1))))
      else
        bind_err (floordiv (fst (shape2 b)) kB) (\<lambda>d0.
        bind_err (floordiv (snd (shape2 b)) nB) (\<lambda>x.
        bind_err (floordiv x (comm_size b)) (\<lambda>d1. Inr (d0, d1)))))"

definition mm_b_block_map ::
  "'a dndarray \<Rightarrow> 'a dndarray \<Rightarrow> lshape_table \<Rightarrow> nat \<Rightarrow> nat \<Rightarrow> nat \<Rightarrow> error + block_map" where
  "mm_b_block_map a b lshape_map kB mB nB =
     bind_err (b_block_map_shape b kB nB) (\<lambda>(d0, d1).
     let b_d0_1s_flag = any_eq_1 (map (\<lambda>row. fst (snd row)) lshape_map);
         b_d1_1s_flag = any_eq_1 (map (\<lambda>row. snd (snd row)) lshape_map)
     in bind_err (fill_block_map (comm_size b) (a_extents b) b_d0_1s_flag b_d1_1s_flag kB nB
                    (block_map_zeros (comm_size b) d0 d1)) (\<lambda>m.
        Inr (if split a = Some 1
             then shift_blocks bump_dim0
                    (map (\<lambda>row. snd (fst row)) (mm_rem_map kB mB nB lshape_map)) 0 m
             else m)))"

text \<open>
  Lines 283 to 463 together: the block sizes, then the two block maps. This is all that
  precedes the loops over the processes in the strategies for two split operands.
\<close>

definition mm_block_maps ::
  "'a dndarray \<Rightarrow> 'a dndarray \<Rightarrow> lshape_table \<Rightarrow> error + (block_map \<times> block_map)" where
  "mm_block_maps a b lshape_map =
     bind_err (mm_block_sizes a b lshape_map) (\<lambda>(kB, mB, nB).
     bind_err (mm_a_block_map a b lshape_map kB mB nB) (\<lambda>a_block_map.
     bind_err (mm_b_block_map a b lshape_map kB mB nB) (\<lambda>b_block_map.
     Inr (a_block_map, b_block_map))))"

text \<open>
  The local shape of rank \<open>pr\<close> for an array distributed in the standard way (the sizes of
  the extents \<^verbatim>\<open>comm.chunk\<close> gives the rank), and the table a process gathers when both
  operands are distributed so.
\<close>

definition standard_lshape :: "'a dndarray \<Rightarrow> nat \<Rightarrow> nat \<times> nat" where
  "standard_lshape a pr = (case a_extents a pr of (e0, e1) \<Rightarrow> (extent_len e0, extent_len e1))"

definition standard_lshapes :: "'a dndarray \<Rightarrow> 'a dndarray \<Rightarrow> lshape_table" where
  "standard_lshapes a b =
     map (\<lambda>pr. (standard_lshape a pr, standard_lshape b pr)) [0..<comm_size a]"

section \<open>matmul\<close>

text \<open>
  Lines 156 to 160. The test reads \<^verbatim>\<open>a.gshape[-1]\<close> and \<^verbatim>\<open>b.gshape[0]\<close>; the message of the
  ValueError reads \<^verbatim>\<open>b.gshape[-2]\<close>. Each read of a tuple raises IndexError out of range.
\<close>

definition dims_message :: "nat \<Rightarrow> nat \<Rightarrow> string" where
  "dims_message p p' =
     ''If the last dimension of a ('' @ str_nat p @ '') is not the same size ''
     @ ''as the second-to-last dimension of b. ('' @ str_nat p' @ '')''"

definition matmul_shape_check :: "'a dndarray \<Rightarrow> 'a dndarray \<Rightarrow> error option" where
  "matmul_shape_check a b =
     (case py_index (gshape a) (- 1) of
        None \<Rightarrow> Some IndexError
      | Some p \<Rightarrow>
          (case py_index (gshape b) 0 of
             None \<Rightarrow> Some IndexError
           | Some p' \<Rightarrow>
               if p \<noteq> p' then
                 (case py_index (gshape b) (- 2) of
                    None \<Rightarrow> Some IndexError
                  | Some p'' \<Rightarrow> Some (ValueError (dims_message p p'')))
               else None))"

text \<open>
  Lines 163 to 167: an operand whose element type is not the common one is replaced by a
  converted copy, a new object; the name \<^verbatim>\<open>a\<close> (or \<^verbatim>\<open>b\<close>) is bound to the copy from then on.
\<close>

definition promote_operand :: "htype \<Rightarrow> ref \<Rightarrow> 'a world \<Rightarrow> ref \<times> 'a world" where
  "promote_operand c_type x st =
     (if dtype (heap st x) \<noteq> c_type then alloc (cast c_type (heap st x)) st else (x, st))"

text \<open>
  The operands the rest of the embedding covers: the global shape and the local tensor
  are both 2-dimensional.
\<close>

definition is_2d :: "'a dndarray \<Rightarrow> bool" where
  "is_2d a \<longleftrightarrow> length (gshape a) = 2 \<and> length (lshape a) = 2"

text \<open>
  Lines 169 to 184 for 2-dimensional operands, neither of them split. Without
  \<^verbatim>\<open>allow_resplit\<close> the result is the array made of the local product. With it, \<^verbatim>\<open>a\<close> is
  split in place, the product of its shard with \<^verbatim>\<open>b\<close> is added to the rows of a zero matrix
  that belong to this rank, and the matrix is all-reduced.
\<close>

definition matmul_unsplit ::
  "('a::semiring_0) collaborators \<Rightarrow> 'a world \<Rightarrow> ref \<Rightarrow> ref \<Rightarrow> htype \<Rightarrow> bool \<Rightarrow>
   (error + ref) \<times> 'a world" where
  "matmul_unsplit env st a b c_type allow_resplit =
     (if \<not> allow_resplit then
        (case torch_matmul (array (heap st a)) (array (heap st b)) of
           Inl e \<Rightarrow> (Inl e, st)
         | Inr t \<Rightarrow>
             (case alloc (factories_array t None c_type
                            (comm_size (heap st a)) (comm_rank (heap st a))) st of
                (c, st') \<Rightarrow> (Inr c, st')))
      else
        (let st1 = update_obj a (resplit_0 (heap st a)) st;
             a1 = heap st1 a;
             slice_0 = fst (chunk (shape2 a1) (split a1) (comm_size a1) (comm_rank a1))
         in case torch_matmul (array a1) (array (heap st1 b)) of
              Inl e \<Rightarrow> (Inl e, st1)
            | Inr hold \<Rightarrow>
                (case alloc (factories_zeros (fst (shape2 a1), snd (shape2 (heap st1 b))) None
                               c_type (comm_size a1) (comm_rank a1)) st1 of
                   (c, st2) \<Rightarrow>
                     (case iadd_rows (array (heap st2 c)) (fst slice_0) (snd slice_0) hold of
                        Inl e \<Rightarrow> (Inl e, st2)
                      | Inr t \<Rightarrow>
                          (Inr c,
                           emit Allreduce
                             (update_obj c ((heap st2 c)\<lparr>array := allreduce_sum env t\<rparr>) st2))))))"

text \<open>
  The split axis of the result where one operand is split along the dimension that is
  summed over and the other is not split (lines 228 and 242), and where both are (line
  780): \<^verbatim>\<open>x.split if n > 1 else 0\<close>.
\<close>

definition split_unless_thin :: "nat option \<Rightarrow> nat \<Rightarrow> nat option" where
  "split_unless_thin s n = (if n > 1 then s else Some 0)"

text \<open>
  Lines 204 to 243 for 2-dimensional operands (\<^verbatim>\<open>vector_flag\<close> is false): exactly one
  operand is split. The two branches of lines 245 to 269 are reached with a vector operand
  only.
\<close>

definition matmul_one_split ::
  "('a::semiring_0) collaborators \<Rightarrow> 'a world \<Rightarrow> ref \<Rightarrow> ref \<Rightarrow> htype \<Rightarrow> (error + ref) \<times> 'a world" where
  "matmul_one_split env st a b c_type =
     (let A = heap st a; B = heap st b; p = comm_size A; r = comm_rank A in
      if (split A = Some 0 \<and> split B = None) \<or> (split A = None \<and> split B = Some 1) then
        (let split_c = (if split A \<noteq> None then split A else split B) in
         case alloc (factories_zeros (fst (shape2 A), snd (shape2 B)) split_c c_type p r) st of
           (c, st1) \<Rightarrow>
             (case torch_matmul (array A) (array B) of
                Inl e \<Rightarrow> (Inl e, st1)
              | Inr ab \<Rightarrow>
                  (case iadd (array (heap st1 c)) ab of
                     Inl e \<Rightarrow> (Inl e, st1)
                   | Inr t \<Rightarrow> (Inr c, update_obj c ((heap st1 c)\<lparr>array := t\<rparr>) st1))))
      else if split A = Some 1 \<and> split B = None then
        (let a_idx = chunk (shape2 A) (split A) p r;
             start = fst (snd a_idx)
         in case torch_matmul (array A)
                   (slice2 (array B) start (start + snd (lshape2 A)) 0 (ncols (array B))) of
              Inl e \<Rightarrow> (Inl e, st)
            | Inr ab \<Rightarrow>
                (case iadd (torch_zeros (fst (shape2 A)) (snd (shape2 B))) ab of
                   Inl e \<Rightarrow> (Inl e, st)
                 | Inr t \<Rightarrow>
                     (case alloc (factories_array (allreduce_sum env t)
                                    (split_unless_thin (split A) (snd (shape2 B))) c_type p r)
                                 (emit Allreduce st) of
                        (c, st1) \<Rightarrow> (Inr c, st1))))
      else
        (let b_idx = chunk (shape2 B) (split B) (comm_size B) (comm_rank B);
             start = fst (fst b_idx)
         in case torch_matmul
                   (slice2 (array A) 0 (nrows (array A)) start (start + fst (lshape2 B)))
                   (array B) of
              Inl e \<Rightarrow> (Inl e, st)
            | Inr ab \<Rightarrow>
                (case iadd (torch_zeros (fst (shape2 A)) (snd (shape2 B))) ab of
                   Inl e \<Rightarrow> (Inl e, st)
                 | Inr t \<Rightarrow>
                     (case alloc (factories_array (allreduce_sum env t)
                                    (split_unless_thin (split B) (fst (shape2 A))) c_type p r)
                                 (emit Allreduce st) of
                        (c, st1) \<Rightarrow> (Inr c, st1)))))"

text \<open>
  The table \<^verbatim>\<open>lshape_map\<close> as this process gathers it: its own row from its own arrays, the
  other rows from the other ranks.
\<close>

definition gather_lshapes :: "'a collaborators \<Rightarrow> 'a dndarray \<Rightarrow> 'a dndarray \<Rightarrow> lshape_table" where
  "gather_lshapes env a b =
     map (\<lambda>pr. if pr = comm_rank a then (lshape2 a, lshape2 b) else peer_lshapes env pr)
         [0..<comm_size a]"

text \<open>
  Lines 271 to 784 for 2-dimensional operands, both split: the block sizes and block maps
  (which can raise), the result array \<^verbatim>\<open>c\<close> created with the split axis of \<^verbatim>\<open>a\<close>, then the
  loops. In the strategies 0/0, 1/1 and 0/1 the loops fill \<^verbatim>\<open>c\<close>, which is returned. In the
  strategy 1/0 they fill a tensor that is all-reduced and made into a new array. Every
  request started without blocking is logged, with its wait, at the place where it starts.
\<close>

definition matmul_both_split ::
  "('a::semiring_0) collaborators \<Rightarrow> 'a world \<Rightarrow> ref \<Rightarrow> ref \<Rightarrow> htype \<Rightarrow> (error + ref) \<times> 'a world" where
  "matmul_both_split env st a b c_type =
     (let A = heap st a; B = heap st b; p = comm_size A; r = comm_rank A;
          lshape_map = gather_lshapes env A B
      in case mm_inner_size A B of
           Inl e \<Rightarrow> (Inl e, st)
         | Inr kB \<Rightarrow>
             (case mm_outer_sizes A B lshape_map kB of
                Inl e \<Rightarrow> (Inl e, emit Allreduce st)
              | Inr (mB, nB) \<Rightarrow>
                  (case alloc (factories_zeros (fst (shape2 A), snd (shape2 B)) (split A)
                                 c_type p r)
                              (emit Wait (emit Iallreduce (emit Wait (emit Iallreduce
                                 (emit Allreduce st))))) of
                     (c, st1) \<Rightarrow>
                       (let st2 = emit Wait (emit Iallreduce st1) in
                        case mm_a_block_map A B lshape_map kB mB nB of
                          Inl e \<Rightarrow> (Inl e, st2)
                        | Inr a_block_map \<Rightarrow>
                            (case mm_b_block_map A B lshape_map kB mB nB of
                               Inl e \<Rightarrow> (Inl e, st2)
                             | Inr b_block_map \<Rightarrow>
                                 (case block_loops env st2 a b c of
                                    (Inl e, evs) \<Rightarrow> (Inl e, st2\<lparr>comm_log := comm_log st2 @ evs\<rparr>)
                                  | (Inr t, evs) \<Rightarrow>
                                      (let st3 = st2\<lparr>comm_log := comm_log st2 @ evs\<rparr> in
                                       if split A = Some 1 \<and> split B = Some 0 then
                                         (case alloc (factories_array (allreduce_sum env t)
                                                        (split_unless_thin (split A) (snd (shape2 B)))
                                                        c_type p r)
                                                     (emit Allreduce st3) of
                                            (res, st4) \<Rightarrow> (Inr res, st4))
                                       else
                                         (Inr c, update_obj c ((heap st3 c)\<lparr>array := t\<rparr>) st3))))))))"

text \<open>
  The dispatch of lines 169 to 280 for 2-dimensional operands. A split axis other than 0
  or 1 reaches the final \<^verbatim>\<open>else\<close>.
\<close>

definition valid_split :: "nat option \<Rightarrow> bool" where
  "valid_split s \<longleftrightarrow> s = None \<or> s = Some 0 \<or> s = Some 1"

definition matmul_2d ::
  "('a::semiring_0) collaborators \<Rightarrow> 'a world \<Rightarrow> ref \<Rightarrow> ref \<Rightarrow> htype \<Rightarrow> bool \<Rightarrow>
   (error + ref) \<times> 'a world" where
  "matmul_2d env st a b c_type allow_resplit =
     (let sa = split (heap st a); sb = split (heap st b) in
      if sa = None \<and> sb = None then matmul_unsplit env st a b c_type allow_resplit
      else if (sa = Some 0 \<and> sb = None) \<or> (sa = None \<and> sb = Some 1)
              \<or> (sa = Some 1 \<and> sb = None) \<or> (sa = None \<and> sb = Some 0)
           then matmul_one_split env st a b c_type
      else if (sa = Some 0 \<or> sa = Some 1) \<and> (sb = Some 0 \<or> sb = Some 1)
           then matmul_both_split env st a b c_type
      else (Inl (NotImplementedError ''splits > 1 not implemented''), st))"

text \<open>
  \<^verbatim>\<open>matmul(a, b, allow_resplit)\<close>: the arguments are the addresses of the two arrays. The
  result is the address of the new array, or the exception, and the state after the call.
\<close>

definition matmul ::
  "('a::semiring_0) collaborators \<Rightarrow> 'a world \<Rightarrow> ref \<Rightarrow> ref \<Rightarrow> bool \<Rightarrow> (error + ref) \<times> 'a world" where
  "matmul env st a b allow_resplit =
     (case matmul_shape_check (heap st a) (heap st b) of
        Some e \<Rightarrow> (Inl e, st)
      | None \<Rightarrow>
          (let c_type = promote_types env (dtype (heap st a)) (dtype (heap st b)) in
           case promote_operand c_type a st of
             (a', st1) \<Rightarrow>
               (case promote_operand c_type b st1 of
                  (b', st2) \<Rightarrow>
                    if is_2d (heap st2 a') \<and> is_2d (heap st2 b')
                    then matmul_2d env st2 a' b' c_type allow_resplit
                    else non_2d env st2 a' b' allow_resplit)))"

section \<open>The split axis of the result of matmul, as stated\<close>

text \<open>
  The policy in the words of the spec: the axis of \<open>A\<close> when \<open>A\<close> is split, else the axis of
  \<open>B\<close> (which is \<open>None\<close> when neither is split).
\<close>

definition stated_split_policy :: "nat option \<Rightarrow> nat option \<Rightarrow> nat option" where
  "stated_split_policy sa sb = (if sa \<noteq> None then sa else sb)"

text \<open>
  The policy with the exception the code makes: for \<open>A\<close> split along axis 1 and \<open>B\<close> not
  split along axis 1, a result with at most one column (\<open>q\<close> is the number of columns of
  \<open>B\<close>) is split along axis 0.
\<close>

definition thin_split_policy :: "nat option \<Rightarrow> nat option \<Rightarrow> nat \<Rightarrow> nat option" where
  "thin_split_policy sa sb q =
     (if sa = Some 1 \<and> sb \<noteq> Some 1 \<and> q \<le> 1 then Some 0 else stated_split_policy sa sb)"

section \<open>The block sizes of matmul, as stated\<close>

text \<open>
  The minimum extents in the words of the spec, over the rows of the gathered table of
  shard shapes: along the row dimension (the rows of the shards of \<open>A\<close>), along the
  contraction dimension (the columns of the shards of \<open>A\<close> and the rows of the shards of
  \<open>B\<close>), and along the column dimension (the columns of the shards of \<open>B\<close>).
\<close>

definition min_row_extent :: "lshape_table \<Rightarrow> nat" where
  "min_row_extent t = Min (set (map (\<lambda>row. fst (fst row)) t))"

definition min_inner_extent :: "lshape_table \<Rightarrow> nat" where
  "min_inner_extent t =
     Min (set (map (\<lambda>row. snd (fst row)) t) \<union> set (map (\<lambda>row. fst (snd row)) t))"

definition min_col_extent :: "lshape_table \<Rightarrow> nat" where
  "min_col_extent t = Min (set (map (\<lambda>row. snd (snd row)) t))"

text \<open>
  Two operands as the data model of the spec has them on one process of a group: the
  same communicator for both, the inner dimensions equal, every shard the extent of the
  standard distribution, and the table holding the shard shapes of all ranks.
\<close>

definition standard_operands :: "'a dndarray \<Rightarrow> 'a dndarray \<Rightarrow> lshape_table \<Rightarrow> bool" where
  "standard_operands a b t \<longleftrightarrow>
     0 < comm_size a \<and> comm_size b = comm_size a
     \<and> comm_rank a < comm_size a \<and> comm_rank b = comm_rank a
     \<and> snd (shape2 a) = fst (shape2 b)
     \<and> lshape2 a = standard_lshape a (comm_rank a)
     \<and> lshape2 b = standard_lshape b (comm_rank b)
     \<and> t = standard_lshapes a b"

definition both_split :: "'a dndarray \<Rightarrow> 'a dndarray \<Rightarrow> bool" where
  "both_split a b \<longleftrightarrow>
     (split a = Some 0 \<or> split a = Some 1) \<and> (split b = Some 0 \<or> split b = Some 1)"

section \<open>The shape of a block map\<close>

text \<open>
  A block map is a grid of \<open>p\<close> planes of \<open>d0\<close> rows of \<open>d1\<close> blocks each, the shape
  \<^verbatim>\<open>(p, d0, d1, 2)\<close> of the tensor in the source.
\<close>

definition grid :: "block_map \<Rightarrow> nat \<Rightarrow> nat \<Rightarrow> nat \<Rightarrow> bool" where
  "grid m p d0 d1 \<longleftrightarrow>
     length m = p \<and> (\<forall>plane \<in> set m. length plane = d0 \<and> (\<forall>row \<in> set plane. length row = d1))"

section \<open>matmul: the loops over the processes\<close>

text \<open>
  The torch operations of lines 468 to 827 on the local tensors. A one-dimensional tensor
  (a row or a column taken out of a local tensor) is a list here. The messages of the
  errors torch raises are shortened.
\<close>

definition row_of :: "'a tensor \<Rightarrow> nat \<Rightarrow> 'a list" where
  "row_of t i = map (elem t i) [0..<ncols t]"

definition col_of :: "'a tensor \<Rightarrow> nat \<Rightarrow> 'a list" where
  "col_of t j = map (\<lambda>i. elem t i j) [0..<nrows t]"

text \<open>\<^verbatim>\<open>t[-1]\<close> and \<^verbatim>\<open>t[:, -1]\<close>: torch raises IndexError on an extent of zero.\<close>

definition last_row :: "'a tensor \<Rightarrow> error + 'a list" where
  "last_row t = (if nrows t = 0 then Inl IndexError else Inr (row_of t (nrows t - 1)))"

definition last_col :: "'a tensor \<Rightarrow> error + 'a list" where
  "last_col t = (if ncols t = 0 then Inl IndexError else Inr (col_of t (ncols t - 1)))"

text \<open>\<^verbatim>\<open>r[st:sp]\<close> on a one-dimensional tensor, with non-negative bounds.\<close>

definition vec_slice :: "'a list \<Rightarrow> nat \<Rightarrow> nat \<Rightarrow> 'a list" where
  "vec_slice v st sp = take (sp - st) (drop st v)"

text \<open>
  \<^verbatim>\<open>v @ m\<close> for a one-dimensional \<open>v\<close>, and \<^verbatim>\<open>(m @ v[:, None]).flatten()\<close>.
\<close>

definition vec_matmul :: "('a::semiring_0) list \<Rightarrow> 'a tensor \<Rightarrow> error + 'a list" where
  "vec_matmul v m =
     (if length v \<noteq> nrows m then Inl (RuntimeError ''size mismatch'')
      else Inr (map (\<lambda>j. sum_list (map (\<lambda>l. v ! l * elem m l j) [0..<length v])) [0..<ncols m]))"

definition matmul_vec :: "('a::semiring_0) tensor \<Rightarrow> 'a list \<Rightarrow> error + 'a list" where
  "matmul_vec m v =
     (if ncols m \<noteq> length v then Inl (RuntimeError ''size mismatch'')
      else Inr (map (\<lambda>i. sum_list (map (\<lambda>l. elem m i l * v ! l) [0..<length v])) [0..<nrows m]))"

text \<open>An index into an extent of \<open>n\<close> as Python reads it: a negative one counts from the end.\<close>

definition wrap_index :: "nat \<Rightarrow> int \<Rightarrow> error + nat" where
  "wrap_index n i =
     (if 0 \<le> i \<and> i < int n then Inr (nat i)
      else if - int n \<le> i \<and> i < 0 then Inr (nat (i + int n))
      else Inl IndexError)"

text \<open>
  \<^verbatim>\<open>c[i, :] += rhs\<close> and \<^verbatim>\<open>c[:, j] += rhs\<close>. Python reads \<^verbatim>\<open>c[i, :]\<close> first, then evaluates the
  right-hand side, then adds in place; the addend has the length of the row (column) or
  length 1.
\<close>

definition iadd_row ::
  "('a::semiring_0) tensor \<Rightarrow> int \<Rightarrow> error + 'a list \<Rightarrow> error + 'a tensor" where
  "iadd_row c i rhs =
     bind_err (wrap_index (nrows c) i) (\<lambda>i'.
     bind_err rhs (\<lambda>v.
       if length v \<noteq> ncols c \<and> length v \<noteq> 1
       then Inl (RuntimeError ''The size of tensor a must match the size of tensor b'')
       else Inr (build2 (nrows c) (ncols c)
                   (\<lambda>k j. if k = i' then elem c k j + v ! (if length v = ncols c then j else 0)
                           else elem c k j))))"

definition iadd_col ::
  "('a::semiring_0) tensor \<Rightarrow> int \<Rightarrow> error + 'a list \<Rightarrow> error + 'a tensor" where
  "iadd_col c j rhs =
     bind_err (wrap_index (ncols c) j) (\<lambda>j'.
     bind_err rhs (\<lambda>v.
       if length v \<noteq> nrows c \<and> length v \<noteq> 1
       then Inl (RuntimeError ''The size of tensor a must match the size of tensor b'')
       else Inr (build2 (nrows c) (ncols c)
                   (\<lambda>k l. if l = j' then elem c k l + v ! (if length v = nrows c then k else 0)
                           else elem c k l))))"

text \<open>\<^verbatim>\<open>t[i] = v\<close> and \<^verbatim>\<open>t[:, j] = v\<close> with a non-negative index.\<close>

definition set_row :: "'a tensor \<Rightarrow> nat \<Rightarrow> 'a list \<Rightarrow> error + 'a tensor" where
  "set_row t i v =
     (if nrows t \<le> i then Inl IndexError
      else if length v \<noteq> ncols t \<and> length v \<noteq> 1
      then Inl (RuntimeError ''The expanded size of the tensor must match the existing size'')
      else Inr (build2 (nrows t) (ncols t)
                  (\<lambda>k j. if k = i then v ! (if length v = ncols t then j else 0) else elem t k j)))"

definition set_col :: "'a tensor \<Rightarrow> nat \<Rightarrow> 'a list \<Rightarrow> error + 'a tensor" where
  "set_col t j v =
     (if ncols t \<le> j then Inl IndexError
      else if length v \<noteq> nrows t \<and> length v \<noteq> 1
      then Inl (RuntimeError ''The expanded size of the tensor must match the existing size'')
      else Inr (build2 (nrows t) (ncols t)
                  (\<lambda>k l. if l = j then v ! (if length v = nrows t then k else 0) else elem t k l)))"

text \<open>
  \<^verbatim>\<open>c[r0:r1, c0:c1] += y\<close>: the addend must have the shape of the slice, or an extent of 1
  where it differs.
\<close>

definition iadd_block ::
  "('a::semiring_0) tensor \<Rightarrow> nat \<Rightarrow> nat \<Rightarrow> nat \<Rightarrow> nat \<Rightarrow> 'a tensor \<Rightarrow> error + 'a tensor" where
  "iadd_block x r0 r1 c0 c1 y =
     (let r0' = min r0 (nrows x); r1' = min r1 (nrows x); h = r1' - r0';
          c0' = min c0 (ncols x); c1' = min c1 (ncols x); w = c1' - c0' in
      if (nrows y \<noteq> h \<and> nrows y \<noteq> 1) \<or> (ncols y \<noteq> w \<and> ncols y \<noteq> 1)
      then Inl (RuntimeError ''The size of tensor a must match the size of tensor b'')
      else Inr (build2 (nrows x) (ncols x)
                  (\<lambda>i j. if r0' \<le> i \<and> i < r1' \<and> c0' \<le> j \<and> j < c1'
                          then elem x i j + elem y (if nrows y = h then i - r0' else 0)
                                                   (if ncols y = w then j - c0' else 0)
                          else elem x i j)))"

text \<open>
  The indices a slice \<^verbatim>\<open>start:stop:step\<close> selects in an extent of \<open>n\<close> (\<open>step\<close> is positive
  wherever the source uses one), and the tensor made of the selected rows and columns.
\<close>

definition strided :: "nat \<Rightarrow> nat \<Rightarrow> nat \<Rightarrow> nat \<Rightarrow> nat list" where
  "strided n start stop step =
     (let s = min start n; e = min stop n
      in map (\<lambda>k. s + k * step) [0..<(e - s + step - 1) div step])"

definition take2 :: "'a tensor \<Rightarrow> nat list \<Rightarrow> nat list \<Rightarrow> 'a tensor" where
  "take2 t rows cols = build2 (length rows) (length cols) (\<lambda>i j. elem t (rows ! i) (cols ! j))"

text \<open>\<^verbatim>\<open>x[:, -1, None] @ y[None, -1, :]\<close>: the last column of \<open>x\<close> times the last row of \<open>y\<close>.\<close>

definition outer_last :: "('a::semiring_0) tensor \<Rightarrow> 'a tensor \<Rightarrow> error + 'a tensor" where
  "outer_last x y =
     bind_err (last_col x) (\<lambda>u.
     bind_err (last_row y) (\<lambda>v.
     Inr (build2 (length u) (length v) (\<lambda>i j. u ! i * v ! j))))"

text \<open>
  A read \<^verbatim>\<open>block_map[pr, i, j]\<close> inside \<^verbatim>\<open>__mm_c_block_setter\<close>, which is compiled by
  \<^verbatim>\<open>torch.jit.script\<close>: an index out of range ends the call with a RuntimeError.
\<close>

definition block_at :: "block_map \<Rightarrow> nat \<Rightarrow> nat \<Rightarrow> nat \<Rightarrow> error + (nat \<times> nat)" where
  "block_at m pr i j =
     (if pr < length m \<and> i < length (m ! pr) \<and> j < length (m ! pr ! i)
      then Inr (m ! pr ! i ! j)
      else Inl (RuntimeError ''index out of range''))"

text \<open>
  \<^verbatim>\<open>__mm_c_block_setter\<close>, lines 787 to 827. \<open>shp_a\<close> and \<open>shp_b\<close> are the numbers of blocks
  \<open>(shape[1], shape[2])\<close> of the two block maps. The four loops run over block numbers;
  every round reads the start coordinates of a block of \<^verbatim>\<open>a\<close> and of a block of \<^verbatim>\<open>b\<close>, and
  adds the product of the two blocks to the block of \<^verbatim>\<open>c\<close> that starts at the row of the
  first and the column of the second. The function returns nothing: the result here is
  the tensor \<^verbatim>\<open>c\<close> after the call.
\<close>

definition mm_c_block_setter ::
  "nat \<Rightarrow> nat \<Rightarrow> ('a::semiring_0) tensor \<Rightarrow> 'a tensor \<Rightarrow> block_map \<Rightarrow> block_map \<Rightarrow>
   nat \<times> nat \<Rightarrow> nat \<times> nat \<Rightarrow> nat option \<Rightarrow> nat option \<Rightarrow> nat \<Rightarrow> nat \<Rightarrow> nat \<Rightarrow>
   'a tensor \<Rightarrow> error + 'a tensor" where
  "mm_c_block_setter b_proc a_proc a_data b_data b_block_map a_block_map shp_b shp_a
                     b_split a_split mB kB nB c =
     (let offset_a = (if b_proc \<noteq> 0 then b_proc * fst shp_b else 0);
          offset_b = (if a_proc \<noteq> 0 then a_proc * snd shp_a else 0)
      in for_each (if b_split = Some 0 then [offset_a..<offset_a + fst shp_b]
                   else [0..<fst shp_a]) (\<lambda>bl_1_a c.
           for_each [0..<fst shp_a] (\<lambda>bl_0_a c.
             for_each [0..<snd shp_b] (\<lambda>bl_1_b c.
               for_each (if a_split = Some 1 then [offset_b..<offset_b + fst shp_a]
                         else [0..<fst shp_b]) (\<lambda>bl_0_b c.
                 bind_err (block_at a_block_map a_proc bl_0_a bl_1_a) (\<lambda>(a_start0, a_start1).
                 let a_block = slice2 a_data a_start0 (a_start0 + mB) a_start1 (a_start1 + kB) in
                 bind_err (block_at b_block_map b_proc bl_0_b bl_1_b) (\<lambda>(b_start0, b_start1).
                 let b_block = slice2 b_data b_start0 (b_start0 + kB) b_start1 (b_start1 + nB);
                     c_start0 = a_start0;
                     c_start1 = b_start1
                 in bind_err (torch_matmul a_block b_block)
                      (iadd_block c c_start0 (c_start0 + mB) c_start1 (c_start1 + nB)))))
               c) c) c) c)"

text \<open>\<^verbatim>\<open>(flags == 1).nonzero()\<close>: the ranks whose remainder flag is set.\<close>

definition rem_locs :: "bool list \<Rightarrow> nat list" where
  "rem_locs flags = filter (\<lambda>pr. flags ! pr) [0..<length flags]"

text \<open>
  The frame the loops of lines 492 to 583, 618 to 704 and 716 to 753 share. In round \<open>pr\<close>
  the broadcast rooted at \<open>pr\<close> is started; if \<open>pr\<close> is not 0, the broadcast of round
  \<open>pr - 1\<close> is waited for and its data worked on (\<open>earlier\<close>); if \<open>pr\<close> is the last rank, its
  own broadcast is waited for and worked on (\<open>final\<close>). An exception ends the loop; the log
  holds the calls made before it.
\<close>

fun ring_rounds ::
  "nat \<Rightarrow> (nat \<Rightarrow> 's \<Rightarrow> error + 's) \<Rightarrow> (nat \<Rightarrow> 's \<Rightarrow> error + 's) \<Rightarrow> nat list \<Rightarrow> 's \<Rightarrow>
   comm_event list \<Rightarrow> (error + 's) \<times> comm_event list" where
  "ring_rounds last_pr earlier final [] s evs = (Inr s, evs)"
| "ring_rounds last_pr earlier final (pr # rest) s evs =
     (let evs1 = evs @ [Ibcast pr] @ (if pr \<noteq> 0 then [Wait] else []) in
      case (if pr \<noteq> 0 then earlier (pr - 1) s else Inr s) of
        Inl e \<Rightarrow> (Inl e, evs1)
      | Inr s1 \<Rightarrow>
          if pr = last_pr then
            (case final pr s1 of
               Inl e \<Rightarrow> (Inl e, evs1 @ [Wait])
             | Inr s2 \<Rightarrow> ring_rounds last_pr earlier final rest s2 (evs1 @ [Wait]))
          else ring_rounds last_pr earlier final rest s1 evs1)"

text \<open>
  Lines 468 to 591, both operands split along axis 0: the shards of \<^verbatim>\<open>b\<close> go round. The state
  of the loop is the local tensor of \<^verbatim>\<open>c\<close> and the tensor \<^verbatim>\<open>b_rem\<close>. \<open>b_lp_data pr\<close> is what the
  broadcast rooted at \<open>pr\<close> delivers. \<^verbatim>\<open>b_rem\<close> comes from \<^verbatim>\<open>torch.empty\<close>; it holds zeros here.
  The test of \<^verbatim>\<open>split_01_flag\<close> on line 568 is false in this branch.
\<close>

definition split_0_round ::
  "(nat \<Rightarrow> ('a::semiring_0) tensor) \<Rightarrow> 'a dndarray \<Rightarrow> 'a dndarray \<Rightarrow> nat list \<Rightarrow> nat list \<Rightarrow>
   ('a list \<times> int) option \<Rightarrow> block_map \<Rightarrow> block_map \<Rightarrow> nat \<times> nat \<Rightarrow> nat \<times> nat \<Rightarrow>
   nat \<Rightarrow> nat \<Rightarrow> nat \<Rightarrow> nat \<Rightarrow> 'a tensor \<times> 'a tensor \<Rightarrow> error + 'a tensor \<times> 'a tensor" where
  "split_0_round b_lp_data a b b_rem_locs0 a_rem_locs0 r_and_loc a_block_map b_block_map
                 shp_a shp_b mB kB nB pr state =
     (case state of (c, b_rem) \<Rightarrow>
        bind_err (mm_c_block_setter pr (comm_rank a) (array a) (b_lp_data pr)
                    b_block_map a_block_map shp_b shp_a (split b) (split a) mB kB nB c) (\<lambda>c1.
        bind_err (if pr \<in> set b_rem_locs0
                  then bind_err (last_row (b_lp_data pr)) (set_row b_rem pr)
                  else Inr b_rem) (\<lambda>b_rem1.
        bind_err (if a_rem_locs0 \<noteq> [] then
                    (case r_and_loc of
                       None \<Rightarrow> Inr c1
                     | Some (r, r_loc) \<Rightarrow>
                         (case fst (a_extents b pr) of (st, sp) \<Rightarrow>
                            iadd_row c1 r_loc (vec_matmul (vec_slice r st sp) (b_lp_data pr))))
                  else Inr c1) (\<lambda>c2.
        Inr (c2, b_rem1)))))"

definition split_0_loops ::
  "(nat \<Rightarrow> ('a::semiring_0) tensor) \<Rightarrow> 'a dndarray \<Rightarrow> 'a dndarray \<Rightarrow>
   ((bool \<times> bool) \<times> (bool \<times> bool)) list \<Rightarrow> block_map \<Rightarrow> block_map \<Rightarrow> nat \<times> nat \<Rightarrow> nat \<times> nat \<Rightarrow>
   nat \<Rightarrow> nat \<Rightarrow> nat \<Rightarrow> 'a tensor \<Rightarrow> (error + 'a tensor) \<times> comm_event list" where
  "split_0_loops b_lp_data a b rem_map a_block_map b_block_map shp_a shp_b mB kB nB c =
     (let b_rem_locs0 = rem_locs (map (\<lambda>row. fst (snd row)) rem_map);
          a_rem_locs0 = rem_locs (map (\<lambda>row. fst (fst row)) rem_map);
          a_node_rem_s0 = take2 (array a) [0..<min mB (nrows (array a))]
                            (strided (ncols (array a)) kB ((kB + 1) * length b_rem_locs0) (kB + 1));
          b_rem = torch_zeros (length b_rem_locs0) (snd (lshape2 b))
      in case (if comm_rank a \<in> set a_rem_locs0 then
                 bind_err (last_row (array a)) (\<lambda>r.
                 case fst (a_extents a (comm_rank a)) of (start, stop) \<Rightarrow>
                   Inr (Some (r, int stop - int start - 1)))
               else Inr None) of
           Inl e \<Rightarrow> (Inl e, [])
         | Inr r_and_loc \<Rightarrow>
             (let round = split_0_round b_lp_data a b b_rem_locs0 a_rem_locs0 r_and_loc
                            a_block_map b_block_map shp_a shp_b mB kB nB
              in case ring_rounds (comm_size b - 1) round
                        (\<lambda>pr state.
                           bind_err (round pr state) (\<lambda>(c1, b_rem1).
                           if b_rem_locs0 \<noteq> [] then
                             bind_err (torch_matmul a_node_rem_s0 b_rem1) (\<lambda>y.
                             bind_err (iadd_rows c1 0 (nrows a_node_rem_s0) y) (\<lambda>c2.
                             Inr (c2, b_rem1)))
                           else Inr (c1, b_rem1)))
                        [0..<comm_size b] (c, b_rem) [] of
                   (Inl e, evs) \<Rightarrow> (Inl e, evs)
                 | (Inr (c', b_rem'), evs) \<Rightarrow> (Inr c', evs)))"

text \<open>
  Lines 593 to 711, both operands split along axis 1: the shards of \<^verbatim>\<open>a\<close> go round. The state
  of the loop is the local tensor of \<^verbatim>\<open>c\<close> and the tensor \<^verbatim>\<open>a_rem\<close>.
\<close>

definition split_1_round ::
  "(nat \<Rightarrow> ('a::semiring_0) tensor) \<Rightarrow> 'a dndarray \<Rightarrow> 'a dndarray \<Rightarrow> nat \<Rightarrow> nat list \<Rightarrow> nat list \<Rightarrow>
   ('a list \<times> int) option \<Rightarrow> block_map \<Rightarrow> block_map \<Rightarrow> nat \<times> nat \<Rightarrow> nat \<times> nat \<Rightarrow>
   nat \<Rightarrow> nat \<Rightarrow> nat \<Rightarrow> nat \<Rightarrow> 'a tensor \<times> 'a tensor \<Rightarrow> error + 'a tensor \<times> 'a tensor" where
  "split_1_round a_lp_data a b b_proc a_rem_locs1 b_rem_locs1 r_and_loc a_block_map b_block_map
                 shp_a shp_b mB kB nB pr state =
     (case state of (c, a_rem) \<Rightarrow>
        bind_err (mm_c_block_setter b_proc pr (a_lp_data pr) (array b)
                    b_block_map a_block_map shp_b shp_a (split b) (split a) mB kB nB c) (\<lambda>c1.
        bind_err (if pr \<in> set a_rem_locs1
                  then bind_err (last_col (a_lp_data pr)) (set_col a_rem pr)
                  else Inr a_rem) (\<lambda>a_rem1.
        bind_err (if b_rem_locs1 \<noteq> [] then
                    (case r_and_loc of
                       None \<Rightarrow> Inr c1
                     | Some (r, r_loc) \<Rightarrow>
                         (case snd (a_extents a pr) of (st, sp) \<Rightarrow>
                            iadd_col c1 r_loc (matmul_vec (a_lp_data pr) (vec_slice r st sp))))
                  else Inr c1) (\<lambda>c2.
        Inr (c2, a_rem1)))))"

definition split_1_loops ::
  "(nat \<Rightarrow> ('a::semiring_0) tensor) \<Rightarrow> 'a dndarray \<Rightarrow> 'a dndarray \<Rightarrow>
   ((bool \<times> bool) \<times> (bool \<times> bool)) list \<Rightarrow> block_map \<Rightarrow> block_map \<Rightarrow> nat \<times> nat \<Rightarrow> nat \<times> nat \<Rightarrow>
   nat \<Rightarrow> nat \<Rightarrow> nat \<Rightarrow> 'a tensor \<Rightarrow> (error + 'a tensor) \<times> comm_event list" where
  "split_1_loops a_lp_data a b rem_map a_block_map b_block_map shp_a shp_b mB kB nB c =
     (let b_rem_locs1 = rem_locs (map (\<lambda>row. snd (snd row)) rem_map);
          a_rem_locs1 = rem_locs (map (\<lambda>row. snd (fst row)) rem_map);
          b_node_rem_s1 = take2 (array b)
                            (strided (nrows (array b)) kB ((kB + 1) * length a_rem_locs1) (kB + 1))
                            [0..<min nB (ncols (array b))];
          a_rem = torch_zeros (fst (lshape2 a)) (length a_rem_locs1)
      in case (if comm_rank b \<in> set b_rem_locs1 then
                 bind_err (last_col (array b)) (\<lambda>r.
                 case snd (a_extents b (comm_rank a)) of (start, stop) \<Rightarrow>
                   Inr (Some (r, int stop - int start - 1)))
               else Inr None) of
           Inl e \<Rightarrow> (Inl e, [])
         | Inr r_and_loc \<Rightarrow>
             (case ring_rounds (comm_size b - 1)
                     (split_1_round a_lp_data a b (comm_rank b) a_rem_locs1 b_rem_locs1 r_and_loc
                        a_block_map b_block_map shp_a shp_b mB kB nB)
                     (\<lambda>pr state.
                        bind_err (split_1_round a_lp_data a b (comm_rank a) a_rem_locs1 b_rem_locs1
                                    r_and_loc a_block_map b_block_map shp_a shp_b mB kB nB pr state)
                          (\<lambda>(c1, a_rem1).
                        if a_rem_locs1 \<noteq> [] then
                          bind_err (torch_matmul a_rem1 b_node_rem_s1) (\<lambda>y.
                          bind_err (iadd_block c1 0 (nrows c1) 0 (ncols b_node_rem_s1) y) (\<lambda>c2.
                          Inr (c2, a_rem1)))
                        else Inr (c1, a_rem1)))
                     [0..<comm_size a] (c, a_rem) [] of
                (Inl e, evs) \<Rightarrow> (Inl e, evs)
              | (Inr (c', a_rem'), evs) \<Rightarrow> (Inr c', evs)))"

text \<open>
  Lines 713 to 760, \<^verbatim>\<open>a\<close> split along axis 0 and \<^verbatim>\<open>b\<close> along axis 1: the shards of \<^verbatim>\<open>b\<close> go
  round, and the product of the shard of \<^verbatim>\<open>a\<close> with each is added to \<^verbatim>\<open>c[: sp0 - st0, st1:sp1]\<close>,
  where \<^verbatim>\<open>sp0\<close> is the stop of the row extent of the sending rank plus one.
\<close>

definition split_01_round ::
  "(nat \<Rightarrow> ('a::semiring_0) tensor) \<Rightarrow> 'a dndarray \<Rightarrow> 'a dndarray \<Rightarrow> nat \<Rightarrow> 'a tensor \<Rightarrow>
   error + 'a tensor" where
  "split_01_round b_lp_data a b pr c =
     (case fst (a_extents a pr) of (st0, stop0) \<Rightarrow>
      case snd (a_extents b pr) of (st1, sp1) \<Rightarrow>
        let sp0 = stop0 + 1 in
        bind_err (torch_matmul (array a) (b_lp_data pr)) (iadd_block c 0 (sp0 - st0) st1 sp1))"

definition split_01_loops ::
  "(nat \<Rightarrow> ('a::semiring_0) tensor) \<Rightarrow> 'a dndarray \<Rightarrow> 'a dndarray \<Rightarrow> 'a tensor \<Rightarrow>
   (error + 'a tensor) \<times> comm_event list" where
  "split_01_loops b_lp_data a b c =
     ring_rounds (comm_size b - 1) (split_01_round b_lp_data a b) (split_01_round b_lp_data a b)
       [0..<comm_size a] c []"

text \<open>
  Lines 762 to 776, \<^verbatim>\<open>a\<close> split along axis 1 and \<^verbatim>\<open>b\<close> along axis 0: nothing goes round. The
  products of the blocks this process holds are added up in \<^verbatim>\<open>res\<close>, which \<^verbatim>\<open>matmul\<close> then
  all-reduces.
\<close>

definition split_10_sum ::
  "('a::semiring_0) dndarray \<Rightarrow> 'a dndarray \<Rightarrow> ((bool \<times> bool) \<times> (bool \<times> bool)) list \<Rightarrow>
   nat \<Rightarrow> nat \<Rightarrow> nat \<Rightarrow> error + 'a tensor" where
  "split_10_sum a b rem_map mB kB nB =
     (let a_rem_locs1 = rem_locs (map (\<lambda>row. snd (fst row)) rem_map);
          b_rem_locs0 = rem_locs (map (\<lambda>row. fst (snd row)) rem_map);
          res = torch_zeros (fst (shape2 a)) (snd (shape2 b))
      in bind_err (floordiv (snd (lshape2 a)) kB) (\<lambda>n.
         bind_err (for_each [0..<n] (\<lambda>i res.
                     bind_err (torch_matmul (slice2 (array a) 0 mB (i * kB) (i * kB + kB))
                                            (slice2 (array b) (i * kB) (i * kB + kB) 0 nB))
                              (iadd res)) res) (\<lambda>res1.
         if comm_rank a \<in> set a_rem_locs1 \<and> comm_rank b \<in> set b_rem_locs0
         then bind_err (outer_last (array a) (array b)) (iadd res1)
         else Inr res1)))"

text \<open>
  Lines 468 to 779 as a whole, in the form of the collaborator \<open>block_loops\<close>: given the
  shards of the two operands on the other ranks (\<open>peer_arrays\<close>, which the broadcasts
  deliver), the loops of the strategy the two split axes select, with the block sizes and
  block maps of lines 283 to 463. The buffer a broadcast is received in has the shape the
  table \<^verbatim>\<open>lshape_map\<close> holds for the sending rank, which is the shape of what that rank
  sends.
\<close>

definition mm_block_loops ::
  "('a::semiring_0) collaborators \<Rightarrow> (nat \<Rightarrow> 'a tensor \<times> 'a tensor) \<Rightarrow>
   'a world \<Rightarrow> ref \<Rightarrow> ref \<Rightarrow> ref \<Rightarrow> (error + 'a tensor) \<times> comm_event list" where
  "mm_block_loops env peer_arrays st a b c =
     (let A = heap st a; B = heap st b;
          lshape_map = gather_lshapes env A B;
          a_lp_data = (\<lambda>pr. if pr = comm_rank A then array A else fst (peer_arrays pr));
          b_lp_data = (\<lambda>pr. if pr = comm_rank B then array B else snd (peer_arrays pr))
      in case bind_err (mm_block_sizes A B lshape_map) (\<lambda>(kB, mB, nB).
              bind_err (mm_a_block_map A B lshape_map kB mB nB) (\<lambda>a_block_map.
              bind_err (mm_b_block_map A B lshape_map kB mB nB) (\<lambda>b_block_map.
              bind_err (a_block_map_shape A mB kB) (\<lambda>shp_a.
              bind_err (b_block_map_shape B kB nB) (\<lambda>shp_b.
              Inr ((kB, mB, nB), (a_block_map, b_block_map), (shp_a, shp_b))))))) of
           Inl e \<Rightarrow> (Inl e, [])
         | Inr ((kB, mB, nB), (a_block_map, b_block_map), (shp_a, shp_b)) \<Rightarrow>
             (let rem_map = mm_rem_map kB mB nB lshape_map in
              if split A = Some 0 \<and> split B = Some 0 then
                split_0_loops b_lp_data A B rem_map a_block_map b_block_map shp_a shp_b
                  mB kB nB (array (heap st c))
              else if split A = Some 1 \<and> split B = Some 1 then
                split_1_loops a_lp_data A B rem_map a_block_map b_block_map shp_a shp_b
                  mB kB nB (array (heap st c))
              else if split A = Some 0 \<and> split B = Some 1 then
                split_01_loops b_lp_data A B (array (heap st c))
              else (split_10_sum A B rem_map mB kB nB, [])))"

section \<open>Concrete arrays and states\<close>

text \<open>
  Small arrays over the integers, each at a fixed address of a store, at which the
  definitions above are evaluated: a vector of three elements and a 2 by 2 matrix, both
  unsplit on a single process.
\<close>

definition vec3 :: "int dndarray" where
  "vec3 = \<lparr>array = \<lparr>tshape = [3], telems = [1, 2, 3]\<rparr>, gshape = [3], dtype = HInt64,
           split = None, comm_size = 1, comm_rank = 0\<rparr>"

definition mat22 :: "int dndarray" where
  "mat22 = \<lparr>array = \<lparr>tshape = [2, 2], telems = [1, 2, 3, 4]\<rparr>, gshape = [2, 2],
            dtype = HInt64, split = None, comm_size = 1, comm_rank = 0\<rparr>"

definition world0 :: "int world" where
  "world0 = \<lparr>heap = (\<lambda>r. if r = 0 then vec3 else mat22), next_ref = 2, comm_log = []\<rparr>"


definition no_factorise ::
  "int world \<Rightarrow> int pyval \<Rightarrow> int pyval \<Rightarrow> int pyval \<Rightarrow> int pyval \<Rightarrow> (error + unit) \<times> int world" where
  "no_factorise st a t c ow = (Inr (), st)"

text \<open>A 2 by 3 matrix split along axis 1, as rank 0 of two processes holds it.\<close>

definition mat23_split1 :: "int dndarray" where
  "mat23_split1 = \<lparr>array = \<lparr>tshape = [2, 2], telems = [1, 2, 4, 5]\<rparr>, gshape = [2, 3],
                   dtype = HInt64, split = Some 1, comm_size = 2, comm_rank = 0\<rparr>"

definition world1 :: "int world" where
  "world1 = \<lparr>heap = (\<lambda>r. mat23_split1), next_ref = 1, comm_log = []\<rparr>"

text \<open>
  A 2 by 3 by 4 array split along its last axis, as rank 0 of two processes holds it.
\<close>

definition cube234_split2 :: "int dndarray" where
  "cube234_split2 = \<lparr>array = \<lparr>tshape = [2, 3, 2],
                                telems = [0, 1, 4, 5, 8, 9, 12, 13, 16, 17, 20, 21]\<rparr>,
                      gshape = [2, 3, 4], dtype = HInt64, split = Some 2,
                      comm_size = 2, comm_rank = 0\<rparr>"

definition world_cube :: "int world" where
  "world_cube = \<lparr>heap = (\<lambda>r. cube234_split2), next_ref = 1, comm_log = []\<rparr>"

text \<open>
  Modelled from the spec: \<^verbatim>\<open>types.promote_types\<close>, which is not part of this module. The
  spec says that element types are promoted to a common type and the narrower operand is
  upcast: the common type is the wider of the two, in the order in which \<open>htype\<close> lists
  them.
\<close>

fun width_rank :: "htype \<Rightarrow> nat" where
  "width_rank HBool = 0"
| "width_rank HUInt8 = 1"
| "width_rank HInt8 = 2"
| "width_rank HInt16 = 3"
| "width_rank HInt32 = 4"
| "width_rank HInt64 = 5"
| "width_rank HFloat32 = 6"
| "width_rank HFloat64 = 7"

definition promote_wider :: "htype \<Rightarrow> htype \<Rightarrow> htype" where
  "promote_wider s t = (if width_rank s < width_rank t then t else s)"

text \<open>
  Collaborators for evaluation on one process among several: the all-reduce hands back
  the contribution of this process (the others contribute zeros), the other ranks report
  the given local shapes, and the parts that are parameters raise.
\<close>

definition lone_env :: "(nat \<Rightarrow> (nat \<times> nat) \<times> (nat \<times> nat)) \<Rightarrow> int collaborators" where
  "lone_env peers =
     \<lparr>promote_types = promote_wider, allreduce_sum = (\<lambda>t. t), peer_lshapes = peers,
      non_2d = (\<lambda>st a b r. (Inl (NotImplementedError ''vector operand''), st)),
      block_loops = (\<lambda>st a b c. (Inr (array (heap st c)), []))\<rparr>"

text \<open>
  Scenario 4 of the spec on rank 0 of two processes: \<open>A\<close> is 5 by 3 and not split, \<open>B\<close> is
  3 by 4 and split along axis 0, so that rank 0 holds its first two rows.
\<close>

definition a53 :: "int dndarray" where
  "a53 = \<lparr>array = \<lparr>tshape = [5, 3], telems = [1, 0, 0, 0, 1, 0, 0, 0, 1, 1, 1, 1, 2, 2, 2]\<rparr>,
          gshape = [5, 3], dtype = HInt64, split = None, comm_size = 2, comm_rank = 0\<rparr>"

definition b34_split0 :: "int dndarray" where
  "b34_split0 = \<lparr>array = \<lparr>tshape = [2, 4], telems = [1, 2, 3, 4, 5, 6, 7, 8]\<rparr>,
                 gshape = [3, 4], dtype = HInt64, split = Some 0, comm_size = 2, comm_rank = 0\<rparr>"

definition world_s4 :: "int world" where
  "world_s4 = \<lparr>heap = (\<lambda>r. if r = 0 then a53 else b34_split0), next_ref = 2, comm_log = []\<rparr>"

text \<open>
  On rank 0 of two processes: \<open>A\<close> is 2 by 2 and split along axis 1, \<open>B\<close> is 2 by 1 and not
  split.
\<close>

definition a22_split1 :: "int dndarray" where
  "a22_split1 = \<lparr>array = \<lparr>tshape = [2, 1], telems = [1, 3]\<rparr>,
                 gshape = [2, 2], dtype = HInt64, split = Some 1, comm_size = 2, comm_rank = 0\<rparr>"

definition b21 :: "int dndarray" where
  "b21 = \<lparr>array = \<lparr>tshape = [2, 1], telems = [5, 6]\<rparr>,
          gshape = [2, 1], dtype = HInt64, split = None, comm_size = 2, comm_rank = 0\<rparr>"

definition world_thin :: "int world" where
  "world_thin = \<lparr>heap = (\<lambda>r. if r = 0 then a22_split1 else b21), next_ref = 2, comm_log = []\<rparr>"

text \<open>
  On rank 0 of two processes: two 2 by 2 matrices, neither split, \<open>A\<close> of 32-bit integers
  and \<open>B\<close> of 32-bit floats; and the same with \<open>A\<close> of 32-bit floats as well.
\<close>

definition a22_int :: "int dndarray" where
  "a22_int = \<lparr>array = \<lparr>tshape = [2, 2], telems = [1, 2, 3, 4]\<rparr>,
              gshape = [2, 2], dtype = HInt32, split = None, comm_size = 2, comm_rank = 0\<rparr>"

definition b22_float :: "int dndarray" where
  "b22_float = \<lparr>array = \<lparr>tshape = [2, 2], telems = [1, 0, 0, 1]\<rparr>,
                gshape = [2, 2], dtype = HFloat32, split = None, comm_size = 2, comm_rank = 0\<rparr>"

definition world_mixed :: "int world" where
  "world_mixed = \<lparr>heap = (\<lambda>r. if r = 0 then a22_int else b22_float), next_ref = 2, comm_log = []\<rparr>"

definition world_same :: "int world" where
  "world_same = \<lparr>heap = (\<lambda>r. if r = 0 then a22_int\<lparr>dtype := HFloat32\<rparr> else b22_float),
                 next_ref = 2, comm_log = []\<rparr>"

definition no_peers :: "nat \<Rightarrow> (nat \<times> nat) \<times> (nat \<times> nat)" where
  "no_peers pr = ((0, 0), (0, 0))"

text \<open>
  On rank 0 of two processes: \<open>A\<close> is 5 by 3 and \<open>B\<close> is 3 by 4, both split along axis 1 in
  the standard way, so that rank 0 holds two columns of each.
\<close>

definition a53_split1 :: "int dndarray" where
  "a53_split1 = \<lparr>array = \<lparr>tshape = [5, 2], telems = [1, 2, 3, 4, 5, 6, 7, 8, 9, 10]\<rparr>,
                 gshape = [5, 3], dtype = HInt64, split = Some 1, comm_size = 2, comm_rank = 0\<rparr>"

definition b34_split1 :: "int dndarray" where
  "b34_split1 = \<lparr>array = \<lparr>tshape = [3, 2], telems = [1, 0, 0, 1, 1, 1]\<rparr>,
                 gshape = [3, 4], dtype = HInt64, split = Some 1, comm_size = 2, comm_rank = 0\<rparr>"

text \<open>
  On rank 0 of two processes: \<open>A\<close> is 1 by 2 and \<open>B\<close> is 2 by 2, both split along axis 0 in
  the standard way. Rank 0 holds the only row of \<open>A\<close> and the first row of \<open>B\<close>; rank 1
  holds no row of \<open>A\<close> and the second row of \<open>B\<close>.
\<close>

definition a12_split0 :: "int dndarray" where
  "a12_split0 = \<lparr>array = \<lparr>tshape = [1, 2], telems = [1, 2]\<rparr>,
                 gshape = [1, 2], dtype = HInt64, split = Some 0, comm_size = 2, comm_rank = 0\<rparr>"

definition b22_split0 :: "int dndarray" where
  "b22_split0 = \<lparr>array = \<lparr>tshape = [1, 2], telems = [1, 0]\<rparr>,
                 gshape = [2, 2], dtype = HInt64, split = Some 0, comm_size = 2, comm_rank = 0\<rparr>"

definition world_row :: "int world" where
  "world_row = \<lparr>heap = (\<lambda>r. if r = 0 then a12_split0 else b22_split0), next_ref = 2,
                comm_log = []\<rparr>"

definition peers_row :: "nat \<Rightarrow> (nat \<times> nat) \<times> (nat \<times> nat)" where
  "peers_row pr = ((0, 2), (1, 2))"

text \<open>
  Two split operands on \<open>p\<close> processes, of 64-bit integers, so that every sum and product
  is exact. \<open>shard t s p pr\<close> is what \<^verbatim>\<open>factories.array(t, split=s)\<close> gives rank \<open>pr\<close> for the
  whole matrix \<open>t\<close>; \<open>ring_world ta tb sa sb p pr\<close> is the store of rank \<open>pr\<close>, with the shard
  of \<open>ta\<close> at address 0 and the shard of \<open>tb\<close> at address 1. The collaborators
  \<open>ring_env ta tb sa sb p\<close>: the other ranks report the shapes of their shards, the
  broadcasts of the loops deliver their shards, and the loops are those of the source.
\<close>

definition shard :: "int tensor \<Rightarrow> nat \<Rightarrow> nat \<Rightarrow> nat \<Rightarrow> int dndarray" where
  "shard t s p pr = factories_array t (Some s) HInt64 p pr"

definition ring_world :: "int tensor \<Rightarrow> int tensor \<Rightarrow> nat \<Rightarrow> nat \<Rightarrow> nat \<Rightarrow> nat \<Rightarrow> int world" where
  "ring_world ta tb sa sb p pr =
     \<lparr>heap = (\<lambda>r. if r = 0 then shard ta sa p pr else shard tb sb p pr),
      next_ref = 2, comm_log = []\<rparr>"

definition ring_lshapes ::
  "int tensor \<Rightarrow> int tensor \<Rightarrow> nat \<Rightarrow> nat \<Rightarrow> nat \<Rightarrow> nat \<Rightarrow> (nat \<times> nat) \<times> (nat \<times> nat)" where
  "ring_lshapes ta tb sa sb p pr = (lshape2 (shard ta sa p pr), lshape2 (shard tb sb p pr))"

definition ring_shards ::
  "int tensor \<Rightarrow> int tensor \<Rightarrow> nat \<Rightarrow> nat \<Rightarrow> nat \<Rightarrow> nat \<Rightarrow> int tensor \<times> int tensor" where
  "ring_shards ta tb sa sb p pr = (array (shard ta sa p pr), array (shard tb sb p pr))"

definition ring_env :: "int tensor \<Rightarrow> int tensor \<Rightarrow> nat \<Rightarrow> nat \<Rightarrow> nat \<Rightarrow> int collaborators" where
  "ring_env ta tb sa sb p =
     (lone_env (ring_lshapes ta tb sa sb p))
       \<lparr>block_loops := mm_block_loops (lone_env (ring_lshapes ta tb sa sb p))
                         (ring_shards ta tb sa sb p)\<rparr>"

text \<open>
  The local tensor of the result of \<^verbatim>\<open>matmul\<close> on rank \<open>pr\<close>, or the exception.
\<close>

definition ring_matmul ::
  "int tensor \<Rightarrow> int tensor \<Rightarrow> nat \<Rightarrow> nat \<Rightarrow> nat \<Rightarrow> nat \<Rightarrow> error + int tensor" where
  "ring_matmul ta tb sa sb p pr =
     (case matmul (ring_env ta tb sa sb p) (ring_world ta tb sa sb p pr) 0 1 False of
        (Inl e, st) \<Rightarrow> Inl e
      | (Inr c, st) \<Rightarrow> Inr (array (heap st c)))"

text \<open>
  The 2 by 2 matrix with rows \<open>(1, 2)\<close> and \<open>(3, 4)\<close> and the 2 by 2 identity; a 4 by 4
  matrix and a 4 by 4 matrix of zeros, ones, twos and threes.
\<close>

definition ring_a :: "int tensor" where
  "ring_a = \<lparr>tshape = [2, 2], telems = [1, 2, 3, 4]\<rparr>"

definition ring_b :: "int tensor" where
  "ring_b = \<lparr>tshape = [2, 2], telems = [1, 0, 0, 1]\<rparr>"

definition a44 :: "int tensor" where
  "a44 = \<lparr>tshape = [4, 4], telems = [1, 2, 3, 4, 5, 6, 7, 8, 9, 10, 11, 12, 13, 14, 15, 16]\<rparr>"

definition b44 :: "int tensor" where
  "b44 = \<lparr>tshape = [4, 4], telems = [1, 0, 2, 0, 0, 1, 0, 2, 3, 0, 1, 0, 0, 3, 0, 1]\<rparr>"

section \<open>Properties of the validation of qr\<close>

lemma qr_check_kinds:
  "qr_check st a t c ow = Some e \<Longrightarrow> is_TypeError e \<or> is_ValueError e"
  by (auto simp: qr_check_def split: if_splits)

text \<open>
  C7. When \<^verbatim>\<open>a\<close> is not a DNDarray, or is a DNDarray that is not 2-dimensional, or
  \<^verbatim>\<open>calc_q\<close> or \<^verbatim>\<open>overwrite_a\<close> is not a bool, \<^verbatim>\<open>qr\<close> raises a TypeError or a ValueError,
  and the state of the process (the store of arrays and the log of communication calls)
  is the one it was called in: nothing was sent and nothing was modified.
\<close>

theorem qr_rejects_invalid_input:
  assumes "\<not> isinstance_DNDarray a \<or> ndim_of st a \<noteq> 2
           \<or> \<not> isinstance_bool calc_q \<or> \<not> isinstance_bool overwrite_a"
  shows "\<exists>e. qr factorise st a tiles_per_proc calc_q overwrite_a = (Inl e, st)
             \<and> (is_TypeError e \<or> is_ValueError e)"
proof -
  from assms have "qr_check st a tiles_per_proc calc_q overwrite_a \<noteq> None"
    by (auto simp: qr_check_def)
  then obtain e where e: "qr_check st a tiles_per_proc calc_q overwrite_a = Some e"
    by blast
  from qr_check_kinds [OF e] e show ?thesis
    by (auto simp: qr_def)
qed


theorem qr_rejects_invalid_input_witness:
  "ndim_of world0 (PyDNDarray 0) \<noteq> 2
   \<and> (\<exists>e. qr no_factorise world0 (PyDNDarray 0) (PyInt 1) (PyBool True) (PyBool False)
              = (Inl e, world0) \<and> (is_TypeError e \<or> is_ValueError e))"
proof -
  have h: "ndim_of world0 (PyDNDarray 0) \<noteq> 2"
    by (simp add: world0_def vec3_def)
  then have "\<not> isinstance_DNDarray (PyDNDarray 0 :: int pyval) \<or> ndim_of world0 (PyDNDarray 0) \<noteq> 2
      \<or> \<not> isinstance_bool (PyBool True :: int pyval) \<or> \<not> isinstance_bool (PyBool False :: int pyval)"
    by simp
  from qr_rejects_invalid_input [OF this, of no_factorise "PyInt 1"] h show ?thesis
    by simp
qed




section \<open>Properties of transpose\<close>

lemma index_of_Some:
  "index_of x ys = Some i \<Longrightarrow> i < length ys \<and> ys ! i = x"
  by (induction ys arbitrary: i) (auto split: if_splits)

lemma index_of_None: "index_of x ys = None \<longleftrightarrow> x \<notin> set ys"
  by (induction ys) auto

lemma wrap_dims_in_range:
  "\<forall>d \<in> set ds. 0 \<le> d \<and> d < int n \<Longrightarrow> distinct ds \<Longrightarrow> nat ` set ds \<inter> set seen = {}
   \<Longrightarrow> wrap_dims n seen ds = Inr (map nat ds)"
proof (induction ds arbitrary: seen)
  case Nil
  then show ?case by simp
next
  case (Cons d ds)
  have d: "0 \<le> d" "d < int n" "nat d \<notin> set seen"
    using Cons.prems by auto
  have "nat ` set ds \<inter> set (nat d # seen) = {}"
  proof -
    have "nat d \<notin> nat ` set ds"
    proof
      assume "nat d \<in> nat ` set ds"
      then obtain e where e: "e \<in> set ds" "nat e = nat d" by auto
      with Cons.prems(1) d have "e = d" by auto
      with e Cons.prems(2) show False by simp
    qed
    with Cons.prems(3) show ?thesis by auto
  qed
  with Cons.IH [of "nat d # seen"] Cons.prems
  have "wrap_dims n (nat d # seen) ds = Inr (map nat ds)" by simp
  with d show ?case by simp
qed

lemma shape_at_axes_in_range:
  "\<forall>d \<in> set ds. 0 \<le> d \<and> d < int (length shape)
   \<Longrightarrow> shape_at_axes shape ds = Some (map (\<lambda>d. shape ! nat d) ds)"
  by (induction ds) (auto simp: py_index_def)

lemma transpose_returns_split:
  assumes "transpose_dndarray st (PyDNDarray r) axes = Inr res"
      and "transpose_axes (length (gshape (heap st r))) axes = Inr axes'"
  shows "split res = (case split (heap st r) of None \<Rightarrow> None | Some s \<Rightarrow> index_of (int s) axes')"
  using assms
  by (auto simp: transpose_dndarray_def Let_def split: option.splits sum.splits)

lemma transpose_returns_gshape:
  assumes "transpose_dndarray st (PyDNDarray r) axes = Inr res"
      and "transpose_axes (length (gshape (heap st r))) axes = Inr axes'"
  shows "shape_at_axes (gshape (heap st r)) axes' = Some (gshape res)"
  using assms
  by (auto simp: transpose_dndarray_def Let_def split: option.splits sum.splits)

lemma sanitize_axes_ints: "sanitize_axes n (map AxInt p) = Inr (map (wrap_axis n) p)"
  by (induction p) (simp_all add: wrap_axis_def)

lemma transpose_axes_ints:
  "length p = n \<Longrightarrow> transpose_axes n (AxesIterable (map AxInt p)) = Inr (map (wrap_axis n) p)"
  by (simp add: transpose_axes_def sanitize_axes_ints)

lemma index_of_rev_range:
  assumes "s < n"
  shows "index_of (int s) (rev (map int [0..<n])) = Some (n - 1 - s)"
proof -
  let ?l = "rev (map int [0..<n])"
  from assms have "int s \<in> set ?l" by simp
  then have "index_of (int s) ?l \<noteq> None"
    by (simp only: index_of_None not_not)
  then obtain i where i: "index_of (int s) ?l = Some i" by blast
  from index_of_Some [OF i] have il: "i < n" and v: "?l ! i = int s" by simp_all
  from il have "?l ! i = int (n - Suc i)"
    by (simp add: rev_nth)
  with v have "s = n - Suc i" by simp
  with il have "i = n - 1 - s" by simp
  with i show ?thesis by simp
qed

lemma shape_at_reversed:
  "map (\<lambda>d. shape ! nat d) (rev (map int [0..<length shape])) = rev shape"
proof -
  have "map (\<lambda>d. shape ! nat d) (rev (map int [0..<length shape]))
        = rev (map (\<lambda>i. shape ! i) [0..<length shape])"
    by (simp add: rev_map comp_def)
  then show ?thesis by (simp add: map_nth)
qed

lemma transpose_on_working_axes:
  assumes axes: "transpose_axes (length (gshape (heap st r))) axes = Inr axes'"
  shows "(\<forall>res. transpose_dndarray st (PyDNDarray r) axes = Inr res \<longrightarrow>
            (case split (heap st r) of
               None \<Rightarrow> split res = None
             | Some s \<Rightarrow> \<exists>i < length axes'. axes' ! i = int s \<and> split res = Some i))
       \<and> (\<forall>s. split (heap st r) = Some s \<and> int s \<notin> set axes' \<longrightarrow>
            transpose_dndarray st (PyDNDarray r) axes
              = Inl (ValueError ''axes do not match tensor shape''))
       \<and> (distinct axes' \<and> set axes' = int ` {0..<length (gshape (heap st r))}
            \<and> length (tshape (array (heap st r))) = length (gshape (heap st r))
            \<and> (\<forall>s. split (heap st r) = Some s \<longrightarrow> s < length (gshape (heap st r)))
          \<longrightarrow> (\<exists>res. transpose_dndarray st (PyDNDarray r) axes = Inr res))"
proof (intro conjI allI impI)
  fix res
  assume res: "transpose_dndarray st (PyDNDarray r) axes = Inr res"
  show "case split (heap st r) of
          None \<Rightarrow> split res = None
        | Some s \<Rightarrow> \<exists>i < length axes'. axes' ! i = int s \<and> split res = Some i"
  proof (cases "split (heap st r)")
    case None
    with transpose_returns_split [OF res axes] show ?thesis by simp
  next
    case (Some s)
    with transpose_returns_split [OF res axes]
    have sr: "split res = index_of (int s) axes'" by simp
    from res axes Some obtain i where i: "index_of (int s) axes' = Some i"
      by (auto simp: transpose_dndarray_def Let_def split: option.splits sum.splits)
    with index_of_Some [OF i] sr Some show ?thesis by auto
  qed
next
  fix s
  assume "split (heap st r) = Some s \<and> int s \<notin> set axes'"
  then have "split (heap st r) = Some s" "index_of (int s) axes' = None"
    by (simp_all add: index_of_None)
  with axes show "transpose_dndarray st (PyDNDarray r) axes
                   = Inl (ValueError ''axes do not match tensor shape'')"
    by (simp add: transpose_dndarray_def Let_def)
next
  let ?obj = "heap st r"
  let ?n = "length (gshape ?obj)"
  assume perm: "distinct axes' \<and> set axes' = int ` {0..<?n}
            \<and> length (tshape (array ?obj)) = ?n
            \<and> (\<forall>s. split ?obj = Some s \<longrightarrow> s < ?n)"
  then have rng: "\<forall>d \<in> set axes'. 0 \<le> d \<and> d < int ?n" by auto
  have len: "length axes' = ?n"
  proof -
    from perm have d: "distinct axes'" and s: "set axes' = int ` {0..<?n}"
      by blast+
    from d have "length axes' = card (set axes')"
      by (rule distinct_card [symmetric])
    also have "\<dots> = card (int ` {0..<?n})"
      by (simp only: s)
    also have "\<dots> = ?n"
      by (simp add: card_image)
    finally show ?thesis .
  qed
  from rng perm have w: "wrap_dims ?n [] axes' = Inr (map nat axes')"
    by (intro wrap_dims_in_range) auto
  from rng have sh: "shape_at_axes (gshape ?obj) axes' = Some (map (\<lambda>d. gshape ?obj ! nat d) axes')"
    by (rule shape_at_axes_in_range)
  have sp: "split ?obj = Some s \<Longrightarrow> index_of (int s) axes' \<noteq> None" for s
    using perm by (auto simp: index_of_None)
  show "\<exists>res. transpose_dndarray st (PyDNDarray r) axes = Inr res"
  proof (cases "split ?obj")
    case None
    with axes w sh len perm show ?thesis
      by (simp add: transpose_dndarray_def Let_def torch_permute_def)
  next
    case (Some s)
    with sp obtain i where "index_of (int s) axes' = Some i" by blast
    with Some axes w sh len perm show ?thesis
      by (simp add: transpose_dndarray_def Let_def torch_permute_def)
  qed
qed

text \<open>
  C8. Take a well-formed array of \<open>n\<close> dimensions (local tensor and global shape of the same
  rank, split axis one of the dimensions). With no axes given, \<^verbatim>\<open>transpose\<close> returns the
  array with its shape reversed, and a split axis \<open>s\<close> becomes \<open>n - 1 - s\<close>. With a list of
  ints \<open>p\<close> that is a permutation of the dimensions (negative entries counting from the
  end), it returns the array whose dimension \<open>i\<close> is the input's dimension \<open>p ! i\<close>, and a
  split axis \<open>s\<close> becomes the position \<open>i\<close> at which \<open>p\<close> holds \<open>s\<close>; an unsplit input stays
  unsplit. For any list of ints of the right length: if the call returns, the split is
  the first position of the input's split axis in the list, and if the split axis does
  not occur in the list the call raises a ValueError.
\<close>

theorem transpose_split_is_position_in_axes:
  assumes wf: "length (tshape (array (heap st r))) = length (gshape (heap st r))"
      and sp: "\<forall>s. split (heap st r) = Some s \<longrightarrow> s < length (gshape (heap st r))"
      and n: "n = length (gshape (heap st r))"
  shows "(\<exists>res. transpose_dndarray st (PyDNDarray r) AxesNone = Inr res
            \<and> gshape res = rev (gshape (heap st r))
            \<and> split res = map_option (\<lambda>s. n - 1 - s) (split (heap st r)))
       \<and> (\<forall>p. distinct (map (wrap_axis n) p) \<and> set (map (wrap_axis n) p) = int ` {0..<n} \<longrightarrow>
            (\<exists>res. transpose_dndarray st (PyDNDarray r) (AxesIterable (map AxInt p)) = Inr res
               \<and> gshape res = map (\<lambda>x. gshape (heap st r) ! nat (wrap_axis n x)) p
               \<and> (case split (heap st r) of
                     None \<Rightarrow> split res = None
                   | Some s \<Rightarrow> \<exists>i < n. wrap_axis n (p ! i) = int s \<and> split res = Some i)))
       \<and> (\<forall>p res. length p = n
              \<and> transpose_dndarray st (PyDNDarray r) (AxesIterable (map AxInt p)) = Inr res \<longrightarrow>
            split res = (case split (heap st r) of
                           None \<Rightarrow> None
                         | Some s \<Rightarrow> index_of (int s) (map (wrap_axis n) p)))
       \<and> (\<forall>p s. length p = n \<and> split (heap st r) = Some s
              \<and> int s \<notin> set (map (wrap_axis n) p) \<longrightarrow>
            transpose_dndarray st (PyDNDarray r) (AxesIterable (map AxInt p))
              = Inl (ValueError ''axes do not match tensor shape''))"
proof (intro conjI allI impI)
  let ?obj = "heap st r"
  let ?axes = "rev (map int [0..<n])"
  have ax: "transpose_axes (length (gshape ?obj)) AxesNone = Inr ?axes"
    by (simp add: transpose_axes_def n)
  have perm: "distinct ?axes \<and> set ?axes = int ` {0..<length (gshape ?obj)}
            \<and> length (tshape (array ?obj)) = length (gshape ?obj)
            \<and> (\<forall>s. split ?obj = Some s \<longrightarrow> s < length (gshape ?obj))"
    using wf sp by (simp add: n distinct_map)
  with transpose_on_working_axes [OF ax]
  obtain res where res: "transpose_dndarray st (PyDNDarray r) AxesNone = Inr res"
    by blast
  have "shape_at_axes (gshape ?obj) ?axes = Some (map (\<lambda>d. gshape ?obj ! nat d) ?axes)"
    by (rule shape_at_axes_in_range) (simp add: n)
  with transpose_returns_gshape [OF res ax]
  have "gshape res = map (\<lambda>d. gshape ?obj ! nat d) ?axes" by simp
  then have g: "gshape res = rev (gshape ?obj)"
    by (simp only: n shape_at_reversed)
  have s: "split res = map_option (\<lambda>s. n - 1 - s) (split ?obj)"
  proof (cases "split ?obj")
    case None
    with transpose_returns_split [OF res ax] show ?thesis by simp
  next
    case (Some s)
    with sp have "s < n" by (simp add: n)
    then have "index_of (int s) ?axes = Some (n - 1 - s)"
      by (rule index_of_rev_range)
    with transpose_returns_split [OF res ax] Some show ?thesis by simp
  qed
  from res g s
  show "\<exists>res. transpose_dndarray st (PyDNDarray r) AxesNone = Inr res
            \<and> gshape res = rev (gshape (heap st r))
            \<and> split res = map_option (\<lambda>s. n - 1 - s) (split (heap st r))"
    by blast
next
  fix p
  let ?obj = "heap st r"
  let ?axes = "map (wrap_axis n) p"
  assume p: "distinct ?axes \<and> set ?axes = int ` {0..<n}"
  have len: "length p = n"
  proof -
    from p have d: "distinct ?axes" and s: "set ?axes = int ` {0..<n}"
      by blast+
    from d have "length ?axes = card (set ?axes)"
      by (rule distinct_card [symmetric])
    also have "\<dots> = card (int ` {0..<n})"
      by (simp only: s)
    also have "\<dots> = n"
      by (simp add: card_image)
    finally show ?thesis by simp
  qed
  then have ax: "transpose_axes (length (gshape ?obj)) (AxesIterable (map AxInt p)) = Inr ?axes"
    by (simp only: n [symmetric] transpose_axes_ints)
  from p wf sp
  have perm: "distinct ?axes \<and> set ?axes = int ` {0..<length (gshape ?obj)}
            \<and> length (tshape (array ?obj)) = length (gshape ?obj)
            \<and> (\<forall>s. split ?obj = Some s \<longrightarrow> s < length (gshape ?obj))"
    by (simp only: n [symmetric] simp_thms)
  with transpose_on_working_axes [OF ax]
  obtain res where res: "transpose_dndarray st (PyDNDarray r) (AxesIterable (map AxInt p)) = Inr res"
    by blast
  from p have "\<forall>d \<in> set ?axes. 0 \<le> d \<and> d < int (length (gshape ?obj))"
    by (auto simp: n)
  then have "shape_at_axes (gshape ?obj) ?axes = Some (map (\<lambda>d. gshape ?obj ! nat d) ?axes)"
    by (rule shape_at_axes_in_range)
  with transpose_returns_gshape [OF res ax]
  have g: "gshape res = map (\<lambda>x. gshape ?obj ! nat (wrap_axis n x)) p"
    by (simp add: comp_def)
  have s: "case split ?obj of
             None \<Rightarrow> split res = None
           | Some s \<Rightarrow> \<exists>i < n. wrap_axis n (p ! i) = int s \<and> split res = Some i"
  proof (cases "split ?obj")
    case None
    with transpose_returns_split [OF res ax] show ?thesis by simp
  next
    case (Some s)
    with transpose_on_working_axes [OF ax] res
    obtain i where "i < length ?axes" "?axes ! i = int s" "split res = Some i"
      by auto
    with len Some show ?thesis by auto
  qed
  from res g s
  show "\<exists>res. transpose_dndarray st (PyDNDarray r) (AxesIterable (map AxInt p)) = Inr res
               \<and> gshape res = map (\<lambda>x. gshape (heap st r) ! nat (wrap_axis n x)) p
               \<and> (case split (heap st r) of
                     None \<Rightarrow> split res = None
                   | Some s \<Rightarrow> \<exists>i < n. wrap_axis n (p ! i) = int s \<and> split res = Some i)"
    by blast
next
  fix p res
  assume a: "length p = n
              \<and> transpose_dndarray st (PyDNDarray r) (AxesIterable (map AxInt p)) = Inr res"
  then have ax: "transpose_axes (length (gshape (heap st r))) (AxesIterable (map AxInt p))
                  = Inr (map (wrap_axis n) p)"
    by (simp only: n [symmetric] transpose_axes_ints)
  from a have res: "transpose_dndarray st (PyDNDarray r) (AxesIterable (map AxInt p)) = Inr res"
    by simp
  from transpose_returns_split [OF res ax]
  show "split res = (case split (heap st r) of
                           None \<Rightarrow> None
                         | Some s \<Rightarrow> index_of (int s) (map (wrap_axis n) p))" .
next
  fix p s
  assume a: "length p = n \<and> split (heap st r) = Some s
              \<and> int s \<notin> set (map (wrap_axis n) p)"
  then have ax: "transpose_axes (length (gshape (heap st r))) (AxesIterable (map AxInt p))
                  = Inr (map (wrap_axis n) p)"
    by (simp only: n [symmetric] transpose_axes_ints)
  from transpose_on_working_axes [OF ax] a
  show "transpose_dndarray st (PyDNDarray r) (AxesIterable (map AxInt p))
              = Inl (ValueError ''axes do not match tensor shape'')"
    by blast
qed

theorem transpose_split_is_position_in_axes_witness:
  "transpose_dndarray world_cube (PyDNDarray 0) (AxesIterable [AxInt 2, AxInt 0, AxInt 1])
     = Inr \<lparr>array = \<lparr>tshape = [2, 2, 3], telems = [0, 4, 8, 12, 16, 20, 1, 5, 9, 13, 17, 21]\<rparr>,
            gshape = [4, 2, 3], dtype = HInt64, split = Some 0, comm_size = 2, comm_rank = 0\<rparr>
   \<and> (\<exists>res. transpose_dndarray world_cube (PyDNDarray 0) (AxesIterable [AxInt (- 2), AxInt 2, AxInt 0])
                = Inr res
            \<and> gshape res = [3, 4, 2] \<and> split res = Some 1)
   \<and> (\<exists>res. transpose_dndarray world1 (PyDNDarray 0) AxesNone = Inr res
            \<and> gshape res = [3, 2] \<and> split res = Some 0)
   \<and> transpose_dndarray world_cube (PyDNDarray 0) (AxesIterable [AxInt 0, AxInt 0, AxInt 1])
       = Inl (ValueError ''axes do not match tensor shape'')"
proof -
  have cube: "length (tshape (array (heap world_cube 0))) = length (gshape (heap world_cube 0))"
             "\<forall>s. split (heap world_cube 0) = Some s \<longrightarrow> s < length (gshape (heap world_cube 0))"
             "3 = length (gshape (heap world_cube 0))"
    by (simp_all add: world_cube_def cube234_split2_def)
  have mat: "length (tshape (array (heap world1 0))) = length (gshape (heap world1 0))"
            "\<forall>s. split (heap world1 0) = Some s \<longrightarrow> s < length (gshape (heap world1 0))"
            "2 = length (gshape (heap world1 0))"
    by (simp_all add: world1_def mat23_split1_def)
  have sc: "split (heap world_cube 0) = Some 2" "gshape (heap world_cube 0) = [2, 3, 4]"
    by (simp_all add: world_cube_def cube234_split2_def)
  have sm: "split (heap world1 0) = Some 1" "gshape (heap world1 0) = [2, 3]"
    by (simp_all add: world1_def mat23_split1_def)
  have w: "map (wrap_axis 3) [- 2, 2, 0] = [1, 2, 0]" "map (wrap_axis 3) [0, 0, 1] = [0, 0, 1]"
    by (simp_all add: wrap_axis_def)
  have r3: "int ` {0..<3} = {0, 1, 2}"
  proof -
    have "{0..<3} = {0, 1, 2 :: nat}" by auto
    then show ?thesis by simp
  qed
  have perm: "distinct (map (wrap_axis 3) [- 2, 2, 0])
              \<and> set (map (wrap_axis 3) [- 2, 2, 0]) = int ` {0..<3}"
    unfolding w r3 by auto
  note cube_thm = transpose_split_is_position_in_axes [OF cube]
  from cube_thm have "distinct (map (wrap_axis 3) [- 2, 2, 0])
        \<and> set (map (wrap_axis 3) [- 2, 2, 0]) = int ` {0..<3} \<longrightarrow>
      (\<exists>res. transpose_dndarray world_cube (PyDNDarray 0) (AxesIterable (map AxInt [- 2, 2, 0])) = Inr res
         \<and> gshape res = map (\<lambda>x. gshape (heap world_cube 0) ! nat (wrap_axis 3 x)) [- 2, 2, 0]
         \<and> (case split (heap world_cube 0) of
               None \<Rightarrow> split res = None
             | Some s \<Rightarrow> \<exists>i < 3. wrap_axis 3 ([- 2, 2, 0] ! i) = int s \<and> split res = Some i))"
    by (elim conjE allE [of _ "[- 2, 2, 0]"])
  with perm obtain res where res:
      "transpose_dndarray world_cube (PyDNDarray 0) (AxesIterable (map AxInt [- 2, 2, 0])) = Inr res"
      "gshape res = map (\<lambda>x. gshape (heap world_cube 0) ! nat (wrap_axis 3 x)) [- 2, 2, 0]"
      "case split (heap world_cube 0) of
         None \<Rightarrow> split res = None
       | Some s \<Rightarrow> \<exists>i < 3. wrap_axis 3 ([- 2, 2, 0] ! i) = int s \<and> split res = Some i"
    by blast
  from res(3) obtain i where i: "i < 3" "wrap_axis 3 ([- 2, 2, 0] ! i) = 2" "split res = Some i"
    unfolding sc by auto
  from i(1) have "i = 0 \<or> i = 1 \<or> i = 2" by arith
  with i(2) have "i = 1" by (auto simp: wrap_axis_def)
  with i have s1: "split res = Some 1" by simp
  from res(2) have g1: "gshape res = [3, 4, 2]"
    unfolding sc by (simp add: wrap_axis_def)
  from res(1) s1 g1 have explicit:
      "\<exists>res. transpose_dndarray world_cube (PyDNDarray 0) (AxesIterable [AxInt (- 2), AxInt 2, AxInt 0])
                = Inr res
            \<and> gshape res = [3, 4, 2] \<and> split res = Some 1"
    by simp
  from transpose_split_is_position_in_axes [OF mat]
  have "\<exists>res. transpose_dndarray world1 (PyDNDarray 0) AxesNone = Inr res
            \<and> gshape res = rev (gshape (heap world1 0))
            \<and> split res = map_option (\<lambda>s. 2 - 1 - s) (split (heap world1 0))"
    by (rule conjunct1)
  then have default: "\<exists>res. transpose_dndarray world1 (PyDNDarray 0) AxesNone = Inr res
            \<and> gshape res = [3, 2] \<and> split res = Some 0"
    unfolding sm by simp
  have absent: "length [0, 0, 1 :: int] = 3 \<and> split (heap world_cube 0) = Some 2
        \<and> int 2 \<notin> set (map (wrap_axis 3) [0, 0, 1])"
    unfolding w sc by simp
  from cube_thm have "length [0, 0, 1 :: int] = 3 \<and> split (heap world_cube 0) = Some 2
        \<and> int 2 \<notin> set (map (wrap_axis 3) [0, 0, 1]) \<longrightarrow>
      transpose_dndarray world_cube (PyDNDarray 0) (AxesIterable (map AxInt [0, 0, 1]))
          = Inl (ValueError ''axes do not match tensor shape'')"
    by (elim conjE allE [of _ "[0, 0, 1]"] allE [of _ "2 :: nat"])
  with absent
  have failure: "transpose_dndarray world_cube (PyDNDarray 0) (AxesIterable [AxInt 0, AxInt 0, AxInt 1])
       = Inl (ValueError ''axes do not match tensor shape'')"
    by simp
  have ev: "transpose_dndarray world_cube (PyDNDarray 0) (AxesIterable [AxInt 2, AxInt 0, AxInt 1])
     = Inr \<lparr>array = \<lparr>tshape = [2, 2, 3], telems = [0, 4, 8, 12, 16, 20, 1, 5, 9, 13, 17, 21]\<rparr>,
            gshape = [4, 2, 3], dtype = HInt64, split = Some 0, comm_size = 2, comm_rank = 0\<rparr>"
    by code_simp
  from ev explicit default failure show ?thesis by (intro conjI)
qed

section \<open>Properties of matmul\<close>

lemma py_index_last2: "py_index [x, y] (- 1) = Some y"
  by (simp add: py_index_def)

lemma py_index_first2: "py_index [x, y] 0 = Some x"
  by (simp add: py_index_def)

lemma py_index_second_last2: "py_index [x, y] (- 2) = Some x"
  by (simp add: py_index_def)

lemma shape_check_2d:
  "gshape a = [l, p] \<Longrightarrow> gshape b = [p', q] \<Longrightarrow>
   matmul_shape_check a b = (if p \<noteq> p' then Some (ValueError (dims_message p p')) else None)"
  by (simp add: matmul_shape_check_def py_index_last2 py_index_first2 py_index_second_last2)

text \<open>
  C3. For \<open>A\<close> of shape \<open>L \<times> P\<close> and \<open>B\<close> of shape \<open>P' \<times> Q\<close> with \<open>P \<noteq> P'\<close>, \<^verbatim>\<open>matmul\<close> raises
  the ValueError of line 157 (the exception the spec files under ShapeError), whose message
  prints \<open>P\<close> and \<open>P'\<close>. This holds for every process (any rank, any collaborators) and for
  either value of \<^verbatim>\<open>allow_resplit\<close>, and the state after the call is the state before it: no
  communication call has been logged and no array has been changed or created.
\<close>

theorem matmul_mismatch_raises_first:
  assumes "gshape (heap st a) = [L, P]" and "gshape (heap st b) = [P', Q]" and "P \<noteq> P'"
  shows "matmul env st a b allow_resplit = (Inl (ValueError (dims_message P P')), st)
         \<and> dims_message P P' =
             ''If the last dimension of a ('' @ str_nat P @ '') is not the same size ''
             @ ''as the second-to-last dimension of b. ('' @ str_nat P' @ '')''"
  using assms shape_check_2d [of "heap st a" L P "heap st b" P' Q]
  by (simp add: matmul_def dims_message_def)

theorem matmul_mismatch_raises_first_witness:
  "matmul (lone_env no_peers) world_s4 1 0 False
     = (Inl (ValueError
         ''If the last dimension of a (4) is not the same size as the second-to-last dimension of b. (5)''),
        world_s4)"
proof -
  have g: "gshape (heap world_s4 1) = [3, 4]" "gshape (heap world_s4 0) = [5, 3]"
    by (simp_all add: world_s4_def a53_def b34_split0_def)
  have ne: "(4::nat) \<noteq> 5" by simp
  have s: "str_nat 4 = ''4''" "str_nat 5 = ''5''"
    by (subst str_nat.simps, simp add: digit_char_def)+
  from matmul_mismatch_raises_first [OF g ne, of "lone_env no_peers" False] s
  show ?thesis by simp
qed

lemma split_factories_zeros [simp]: "split (factories_zeros sh s t p r) = s"
  by (simp add: factories_zeros_def split: prod.splits)

lemma split_factories_array [simp]: "split (factories_array t s ct p r) = s"
  by (simp add: factories_array_def split: prod.splits)

lemma heap_alloc:
  "alloc obj st = (c, st') \<Longrightarrow>
     c = next_ref st \<and> heap st' c = obj \<and> next_ref st' = Suc (next_ref st)
     \<and> comm_log st' = comm_log st \<and> (\<forall>x. x \<noteq> c \<longrightarrow> heap st' x = heap st x)"
  by (auto simp: alloc_def)

lemma promote_operand_facts:
  assumes "promote_operand c_type x st = (x', st')" and "x < next_ref st"
  shows "split (heap st' x') = split (heap st x)"
    and "gshape (heap st' x') = gshape (heap st x)"
    and "array (heap st' x') = array (heap st x)"
    and "x' < next_ref st'"
    and "next_ref st \<le> next_ref st'"
    and "comm_log st' = comm_log st"
    and "\<forall>y. y < next_ref st \<longrightarrow> heap st' y = heap st y"
  using assms
  by (auto simp: promote_operand_def alloc_def cast_def split: if_splits)

lemma unsplit_result:
  assumes "matmul_unsplit env st a b c_type allow_resplit = (Inr c, st')"
  shows "split (heap st' c) = None"
  using assms
  by (auto simp: matmul_unsplit_def alloc_def update_obj_def emit_def Let_def
           split: if_splits sum.splits prod.splits)

lemma one_split_result:
  assumes "matmul_one_split env st a b c_type = (Inr c, st')"
      and "split (heap st a) = None \<or> split (heap st b) = None"
      and "valid_split (split (heap st a))" and "valid_split (split (heap st b))"
      and "\<not> (split (heap st a) = None \<and> split (heap st b) = None)"
  shows "split (heap st' c)
           = thin_split_policy (split (heap st a)) (split (heap st b)) (snd (shape2 (heap st b)))"
proof -
  let ?A = "heap st a" and ?B = "heap st b"
  consider (r0) "split ?A = Some 0" "split ?B = None"
    | (c1) "split ?A = None" "split ?B = Some 1"
    | (k1) "split ?A = Some 1" "split ?B = None"
    | (k0) "split ?A = None" "split ?B = Some 0"
    using assms(2-5) by (auto simp: valid_split_def)
  then show ?thesis
  proof cases
    case r0
    with assms(1) show ?thesis
      by (auto simp: matmul_one_split_def alloc_def update_obj_def Let_def
                     thin_split_policy_def stated_split_policy_def
               split: sum.splits prod.splits)
  next
    case c1
    with assms(1) show ?thesis
      by (auto simp: matmul_one_split_def alloc_def update_obj_def Let_def
                     thin_split_policy_def stated_split_policy_def
               split: sum.splits prod.splits)
  next
    case k1
    with assms(1) show ?thesis
      by (auto simp: matmul_one_split_def alloc_def emit_def Let_def split_unless_thin_def
                     thin_split_policy_def stated_split_policy_def
               split: sum.splits prod.splits)
  next
    case k0
    with assms(1) show ?thesis
      by (auto simp: matmul_one_split_def alloc_def emit_def Let_def split_unless_thin_def
                     thin_split_policy_def stated_split_policy_def
               split: sum.splits prod.splits)
  qed
qed

lemma both_split_result:
  assumes "matmul_both_split env st a b c_type = (Inr c, st')"
      and "split (heap st a) = Some 0 \<or> split (heap st a) = Some 1"
      and "split (heap st b) = Some 0 \<or> split (heap st b) = Some 1"
  shows "split (heap st' c)
           = thin_split_policy (split (heap st a)) (split (heap st b)) (snd (shape2 (heap st b)))"
proof -
  from assms(1) show ?thesis
    using assms(2,3)
    by (auto simp: matmul_both_split_def alloc_def emit_def update_obj_def Let_def
                   split_unless_thin_def thin_split_policy_def stated_split_policy_def
             split: sum.splits prod.splits if_splits)
qed

lemma matmul_2d_result:
  assumes "matmul_2d env st a b c_type allow_resplit = (Inr c, st')"
  shows "split (heap st' c)
           = thin_split_policy (split (heap st a)) (split (heap st b)) (snd (shape2 (heap st b)))"
proof -
  let ?sa = "split (heap st a)" and ?sb = "split (heap st b)"
  let ?one = "(?sa = Some 0 \<and> ?sb = None) \<or> (?sa = None \<and> ?sb = Some 1)
              \<or> (?sa = Some 1 \<and> ?sb = None) \<or> (?sa = None \<and> ?sb = Some 0)"
  let ?both = "(?sa = Some 0 \<or> ?sa = Some 1) \<and> (?sb = Some 0 \<or> ?sb = Some 1)"
  show ?thesis
  proof (cases "?sa = None \<and> ?sb = None")
    case True
    have "matmul_2d env st a b c_type allow_resplit
            = matmul_unsplit env st a b c_type allow_resplit"
      unfolding matmul_2d_def Let_def using True by simp
    with assms have "matmul_unsplit env st a b c_type allow_resplit = (Inr c, st')"
      by simp
    from unsplit_result [OF this] True show ?thesis
      by (simp add: thin_split_policy_def stated_split_policy_def)
  next
    case none: False
    show ?thesis
    proof (cases ?one)
      case True
      have "matmul_2d env st a b c_type allow_resplit = matmul_one_split env st a b c_type"
        unfolding matmul_2d_def Let_def by (simp only: none True if_False if_True simp_thms)
      with assms have m: "matmul_one_split env st a b c_type = (Inr c, st')"
        by simp
      from True show ?thesis
        by (intro one_split_result [OF m]) (auto simp: valid_split_def)
    next
      case one: False
      show ?thesis
      proof (cases ?both)
        case True
        have "matmul_2d env st a b c_type allow_resplit = matmul_both_split env st a b c_type"
          unfolding matmul_2d_def Let_def by (simp only: none one True if_False if_True simp_thms)
        with assms have m: "matmul_both_split env st a b c_type = (Inr c, st')"
          by simp
        from True have "?sa = Some 0 \<or> ?sa = Some 1" "?sb = Some 0 \<or> ?sb = Some 1"
          by blast+
        from both_split_result [OF m this] show ?thesis .
      next
        case False
        have "matmul_2d env st a b c_type allow_resplit
                = (Inl (NotImplementedError ''splits > 1 not implemented''), st)"
          unfolding matmul_2d_def Let_def by (simp only: none one False if_False simp_thms)
        with assms show ?thesis
          by simp
      qed
    qed
  qed
qed

text \<open>
  C4, as the code has it. For 2-dimensional operands held at allocated addresses, whenever
  \<^verbatim>\<open>matmul\<close> returns an array, its split axis is the axis of \<open>A\<close> when \<open>A\<close> is split, the axis
  of \<open>B\<close> when only \<open>B\<close> is split, and \<open>None\<close> when neither is, with one exception: for \<open>A\<close>
  split along axis 1 and \<open>B\<close> unsplit or split along axis 0, a result with at most one
  column is split along axis 0. The axis is a function of the split axes of the operands
  and the number of columns of \<open>B\<close>, so the same inputs give the same axis on every run.
\<close>

theorem matmul_result_split_policy:
  assumes ret: "matmul env st a b allow_resplit = (Inr c, st')"
      and two_d: "is_2d (heap st a)" "is_2d (heap st b)"
      and allocated: "a < next_ref st" "b < next_ref st"
  shows "split (heap st' c)
           = thin_split_policy (split (heap st a)) (split (heap st b)) (gshape (heap st b) ! 1)"
proof -
  let ?ct = "promote_types env (dtype (heap st a)) (dtype (heap st b))"
  obtain a' st1 where pa: "promote_operand ?ct a st = (a', st1)"
    by (cases "promote_operand ?ct a st")
  obtain b' st2 where pb: "promote_operand ?ct b st1 = (b', st2)"
    by (cases "promote_operand ?ct b st1")
  note fa = promote_operand_facts [OF pa allocated(1)]
  from fa(5) allocated(2) have b1: "b < next_ref st1" by simp
  note fb = promote_operand_facts [OF pb b1]
  from fa(4) fb(7) have a2: "heap st2 a' = heap st1 a'" by simp
  from fa(7) allocated(2) have b0: "heap st1 b = heap st b" by simp
  have sa: "split (heap st2 a') = split (heap st a)"
    using a2 fa(1) by simp
  have sb: "split (heap st2 b') = split (heap st b)"
    using fb(1) b0 by simp
  have gb: "gshape (heap st2 b') = gshape (heap st b)"
    using fb(2) b0 by simp
  have ga: "gshape (heap st2 a') = gshape (heap st a)"
    using a2 fa(2) by simp
  have la: "array (heap st2 a') = array (heap st a)"
    using a2 fa(3) by simp
  have lb: "array (heap st2 b') = array (heap st b)"
    using fb(3) b0 by simp
  from two_d ga gb la lb have "is_2d (heap st2 a')" "is_2d (heap st2 b')"
    by (simp_all add: is_2d_def lshape_def)
  with ret pa pb have "matmul_2d env st2 a' b' ?ct allow_resplit = (Inr c, st')"
    by (simp add: matmul_def Let_def split: option.splits)
  from matmul_2d_result [OF this] sa sb gb show ?thesis
    by (simp add: shape2_def)
qed

theorem matmul_result_split_policy_witness:
  "fst (matmul (lone_env no_peers) world_s4 0 1 False) = Inr 2
   \<and> split (heap (snd (matmul (lone_env no_peers) world_s4 0 1 False)) 2) = Some 0
   \<and> thin_split_policy (split (heap world_s4 0)) (split (heap world_s4 1))
        (gshape (heap world_s4 1) ! 1) = Some 0"
proof -
  let ?m = "matmul (lone_env no_peers) world_s4 0 1 False"
  have ev: "fst ?m = Inr 2"
    by code_simp
  then have ret: "?m = (Inr 2, snd ?m)"
    by (metis prod.collapse)
  have two_d: "is_2d (heap world_s4 0)" "is_2d (heap world_s4 1)"
    by (simp_all add: is_2d_def lshape_def world_s4_def a53_def b34_split0_def)
  have allocated: "0 < next_ref world_s4" "1 < next_ref world_s4"
    by (simp_all add: world_s4_def)
  have pol: "thin_split_policy (split (heap world_s4 0)) (split (heap world_s4 1))
        (gshape (heap world_s4 1) ! 1) = Some 0"
    by (simp add: thin_split_policy_def stated_split_policy_def world_s4_def a53_def b34_split0_def)
  from matmul_result_split_policy [OF ret two_d allocated] ev pol
  show ?thesis by simp
qed

theorem matmul_result_split_stated_counterexample:
  "fst (matmul (lone_env no_peers) world_thin 0 1 False) = Inr 2
   \<and> split (heap (snd (matmul (lone_env no_peers) world_thin 0 1 False)) 2) = Some 0
   \<and> split (heap world_thin 0) = Some 1
   \<and> split (heap (snd (matmul (lone_env no_peers) world_thin 0 1 False)) 2)
       \<noteq> stated_split_policy (split (heap world_thin 0)) (split (heap world_thin 1))"
proof -
  let ?m = "matmul (lone_env no_peers) world_thin 0 1 False"
  have "fst ?m = Inr 2"
    by code_simp
  moreover have "split (heap (snd ?m) 2) = Some 0"
    by code_simp
  moreover have "split (heap world_thin 0) = Some 1"
    by (simp add: world_thin_def a22_split1_def)
  moreover have "stated_split_policy (split (heap world_thin 0)) (split (heap world_thin 1)) = Some 1"
    by (simp add: stated_split_policy_def world_thin_def a22_split1_def b21_def)
  ultimately show ?thesis by simp
qed

lemma promote_operand_same:
  "promote_operand c_type x st = (x', st') \<Longrightarrow> x < next_ref st \<Longrightarrow>
     (x' = x) = (dtype (heap st x) = c_type)"
  by (auto simp: promote_operand_def alloc_def split: if_splits)

lemma matmul_unsplit_step:
  assumes chk: "matmul_shape_check (heap st a) (heap st b) = None"
      and two_d: "is_2d (heap st a)" "is_2d (heap st b)"
      and allocated: "a < next_ref st" "b < next_ref st"
      and unsplit: "split (heap st a) = None" "split (heap st b) = None"
      and pa: "promote_operand (promote_types env (dtype (heap st a)) (dtype (heap st b))) a st
                 = (a', st1)"
      and pb: "promote_operand (promote_types env (dtype (heap st a)) (dtype (heap st b))) b st1
                 = (b', st2)"
  shows "matmul env st a b allow_resplit
           = matmul_unsplit env st2 a' b'
               (promote_types env (dtype (heap st a)) (dtype (heap st b))) allow_resplit"
    and "array (heap st2 a') = array (heap st a)" and "array (heap st2 b') = array (heap st b)"
    and "heap st2 a = heap st a" and "heap st2 b = heap st b"
    and "a' < next_ref st2" and "next_ref st \<le> next_ref st2" and "comm_log st2 = comm_log st"
    and "heap st2 a' = (if a' = a then heap st a else cast (promote_types env (dtype (heap st a)) (dtype (heap st b))) (heap st a))"
proof -
  let ?ct = "promote_types env (dtype (heap st a)) (dtype (heap st b))"
  note fa = promote_operand_facts [OF pa allocated(1)]
  from fa(5) allocated(2) have b1: "b < next_ref st1" by simp
  note fb = promote_operand_facts [OF pb b1]
  from fa(4) fb(7) have a2: "heap st2 a' = heap st1 a'" by simp
  from fa(7) allocated(2) have b0: "heap st1 b = heap st b" by simp
  show la: "array (heap st2 a') = array (heap st a)" using a2 fa(3) by simp
  show lb: "array (heap st2 b') = array (heap st b)" using fb(3) b0 by simp
  from fa(5) allocated(1) have "a < next_ref st1" by simp
  with fb(7) fa(7) allocated(1) show "heap st2 a = heap st a" by simp
  from fb(7) b1 b0 show "heap st2 b = heap st b" by simp
  from fa(4) fb(5) show "a' < next_ref st2" by simp
  from fa(5) fb(5) show "next_ref st \<le> next_ref st2" by simp
  from fa(6) fb(6) show "comm_log st2 = comm_log st" by simp
  have "heap st1 a' = (if a' = a then heap st a else cast ?ct (heap st a))"
    using pa allocated(1) by (auto simp: promote_operand_def alloc_def split: if_splits)
  with a2 show "heap st2 a' = (if a' = a then heap st a else cast ?ct (heap st a))" by simp
  have sa: "split (heap st2 a') = None" using a2 fa(1) unsplit by simp
  have sb: "split (heap st2 b') = None" using fb(1) b0 unsplit by simp
  have "gshape (heap st2 a') = gshape (heap st a)" using a2 fa(2) by simp
  moreover have "gshape (heap st2 b') = gshape (heap st b)" using fb(2) b0 by simp
  ultimately have "is_2d (heap st2 a')" "is_2d (heap st2 b')"
    using two_d la lb by (simp_all add: is_2d_def lshape_def)
  with chk pa pb sa sb show "matmul env st a b allow_resplit
           = matmul_unsplit env st2 a' b' ?ct allow_resplit"
    by (simp add: matmul_def Let_def matmul_2d_def)
qed

text \<open>
  The default path. With \<^verbatim>\<open>allow_resplit=False\<close>, two 2-dimensional unsplit
  operands whose local tensors can be multiplied are left as they are, nothing is
  communicated, and the result is a new unsplit array whose local tensor is the local
  product.
\<close>

lemma matmul_default_leaves_inputs:
  assumes chk: "matmul_shape_check (heap st a) (heap st b) = None"
      and two_d: "is_2d (heap st a)" "is_2d (heap st b)"
      and allocated: "a < next_ref st" "b < next_ref st"
      and unsplit: "split (heap st a) = None" "split (heap st b) = None"
      and prod: "torch_matmul (array (heap st a)) (array (heap st b)) = Inr t"
  shows "\<exists>c st'. matmul env st a b False = (Inr c, st')
           \<and> heap st' a = heap st a \<and> heap st' b = heap st b
           \<and> comm_log st' = comm_log st
           \<and> split (heap st' c) = None \<and> array (heap st' c) = t"
proof -
  let ?ct = "promote_types env (dtype (heap st a)) (dtype (heap st b))"
  obtain a' st1 where pa: "promote_operand ?ct a st = (a', st1)"
    by (cases "promote_operand ?ct a st")
  obtain b' st2 where pb: "promote_operand ?ct b st1 = (b', st2)"
    by (cases "promote_operand ?ct b st1")
  note s = matmul_unsplit_step [OF chk two_d allocated unsplit pa pb]
  from allocated s(7) have fresh: "a \<noteq> next_ref st2" "b \<noteq> next_ref st2" by simp_all
  show ?thesis
    unfolding s(1)
    using prod s(2,3,4,5,8) fresh
    by (simp add: matmul_unsplit_def alloc_def factories_array_def split: prod.splits)
qed

text \<open>
  With \<^verbatim>\<open>allow_resplit=True\<close> the array at the address of \<open>A\<close> is split in place exactly
  when its element type is the common type of the two operands. Otherwise the array at
  that address is left as it was: the array that is split is the converted copy.
\<close>

lemma matmul_resplit_input_effect:
  assumes chk: "matmul_shape_check (heap st a) (heap st b) = None"
      and two_d: "is_2d (heap st a)" "is_2d (heap st b)"
      and allocated: "a < next_ref st" "b < next_ref st"
      and unsplit: "split (heap st a) = None" "split (heap st b) = None"
  shows "heap (snd (matmul env st a b True)) a
           = (if dtype (heap st a) = promote_types env (dtype (heap st a)) (dtype (heap st b))
              then resplit_0 (heap st a) else heap st a)"
proof -
  let ?ct = "promote_types env (dtype (heap st a)) (dtype (heap st b))"
  obtain a' st1 where pa: "promote_operand ?ct a st = (a', st1)"
    by (cases "promote_operand ?ct a st")
  obtain b' st2 where pb: "promote_operand ?ct b st1 = (b', st2)"
    by (cases "promote_operand ?ct b st1")
  note s = matmul_unsplit_step [OF chk two_d allocated unsplit pa pb]
  from allocated s(7) have fresh: "a \<noteq> next_ref st2" by simp
  note same = promote_operand_same [OF pa allocated(1)]
  have "heap (snd (matmul_unsplit env st2 a' b' ?ct True)) a
          = (if a' = a then resplit_0 (heap st2 a') else heap st2 a)"
    using fresh
    by (auto simp: matmul_unsplit_def alloc_def update_obj_def emit_def Let_def
             split: prod.splits sum.splits)
  then show ?thesis
    unfolding s(1) using s(4,9) same by auto
qed

text \<open>
  C10 at two 2 by 2 unsplit matrices, \<open>A\<close> of 32-bit integers at address 0 and \<open>B\<close> of 32-bit
  floats at address 1, with \<^verbatim>\<open>allow_resplit=True\<close>: the call returns, the array at address 0
  is what it was (not split, its whole buffer), and the array that was split in place and
  holds one row is the converted copy at address 2.
\<close>

theorem matmul_resplit_splits_converted_copy:
  "fst (matmul (lone_env no_peers) world_mixed 0 1 True) = Inr 3
   \<and> heap (snd (matmul (lone_env no_peers) world_mixed 0 1 True)) 0 = heap world_mixed 0
   \<and> split (heap world_mixed 0) = None
   \<and> array (heap world_mixed 0) = \<lparr>tshape = [2, 2], telems = [1, 2, 3, 4]\<rparr>
   \<and> split (heap (snd (matmul (lone_env no_peers) world_mixed 0 1 True)) 2) = Some 0
   \<and> array (heap (snd (matmul (lone_env no_peers) world_mixed 0 1 True)) 2)
       = \<lparr>tshape = [1, 2], telems = [1, 2]\<rparr>"
proof -
  let ?m = "matmul (lone_env no_peers) world_mixed 0 1 True"
  have "fst ?m = Inr 3"
    by code_simp
  moreover have "heap (snd ?m) 0 = heap world_mixed 0"
    by code_simp
  moreover have "split (heap world_mixed 0) = None"
    by (simp add: world_mixed_def a22_int_def)
  moreover have "array (heap world_mixed 0) = \<lparr>tshape = [2, 2], telems = [1, 2, 3, 4]\<rparr>"
    by (simp add: world_mixed_def a22_int_def)
  moreover have "split (heap (snd ?m) 2) = Some 0"
    by code_simp
  moreover have "array (heap (snd ?m) 2) = \<lparr>tshape = [1, 2], telems = [1, 2]\<rparr>"
    by code_simp
  ultimately show ?thesis by simp
qed

section \<open>Properties of the block sizes\<close>

lemma bind_err_Inr [simp]: "bind_err (Inr v) f = f v"
  by (simp add: bind_err_def)

lemma bind_err_Inl [simp]: "bind_err (Inl e) f = Inl e"
  by (simp add: bind_err_def)

lemma list_min_Min: "xs \<noteq> [] \<Longrightarrow> list_min xs = Inr (Min (set xs))"
proof (cases xs)
  case Nil
  assume "xs \<noteq> []"
  with Nil show ?thesis by simp
next
  case (Cons x ys)
  with Min.set_eq_fold [of x ys] show ?thesis by simp
qed

lemma chunk_extent_len:
  "extent_len (chunk_extent n p r) = n div p + (if r < n mod p then 1 else 0)"
  by (simp add: chunk_extent_def extent_len_def Let_def)

lemma Min_chunk_lens:
  assumes "0 < p"
  shows "Min ((\<lambda>r. extent_len (chunk_extent n p r)) ` {0..<p}) = n div p"
proof (rule Min_eqI)
  show "finite ((\<lambda>r. extent_len (chunk_extent n p r)) ` {0..<p})" by simp
next
  fix y assume "y \<in> (\<lambda>r. extent_len (chunk_extent n p r)) ` {0..<p}"
  then show "n div p \<le> y" by (auto simp: chunk_extent_len)
next
  from assms have "n mod p < p" by simp
  then have "\<not> (p - 1 < n mod p)" by simp
  then have "extent_len (chunk_extent n p (p - 1)) = n div p"
    by (simp add: chunk_extent_len)
  moreover from assms have "p - 1 \<in> {0..<p}" by simp
  ultimately show "n div p \<in> (\<lambda>r. extent_len (chunk_extent n p r)) ` {0..<p}"
    by (metis (mono_tags, lifting) image_eqI)
qed

lemma Min_const_image: "0 < p \<Longrightarrow> Min ((\<lambda>r. c) ` {0..<(p::nat)}) = (c::nat)"
proof -
  assume "0 < p"
  then have "(\<lambda>r. c) ` {0..<p} = {c}" by auto
  then show ?thesis by simp
qed

lemma standard_lshape_split0:
  "split a = Some 0 \<Longrightarrow>
   standard_lshape a pr = (extent_len (chunk_extent (fst (shape2 a)) (comm_size a) pr), snd (shape2 a))"
  by (simp add: standard_lshape_def a_extents_def chunk_def extent_len_def split: prod.splits)

lemma standard_lshape_split1:
  "split a = Some 1 \<Longrightarrow>
   standard_lshape a pr = (fst (shape2 a), extent_len (chunk_extent (snd (shape2 a)) (comm_size a) pr))"
  by (simp add: standard_lshape_def a_extents_def chunk_def extent_len_def split: prod.splits)

text \<open>The minimum of each column of the table of a standard distribution.\<close>

lemma min_rows_standard:
  assumes "0 < comm_size a" and "split a = Some 0 \<or> split a = Some 1"
  shows "Min (set (map (\<lambda>row. fst (fst row)) (standard_lshapes a b)))
           = (if split a = Some 0 then fst (shape2 a) div comm_size a else fst (shape2 a))"
  using assms
  by (auto simp: standard_lshapes_def standard_lshape_split0 standard_lshape_split1
                 image_image Min_chunk_lens Min_const_image)

lemma min_a_cols_standard:
  assumes "0 < comm_size a" and "split a = Some 0 \<or> split a = Some 1"
  shows "Min (set (map (\<lambda>row. snd (fst row)) (standard_lshapes a b)))
           = (if split a = Some 1 then snd (shape2 a) div comm_size a else snd (shape2 a))"
  using assms
  by (auto simp: standard_lshapes_def standard_lshape_split0 standard_lshape_split1
                 image_image Min_chunk_lens Min_const_image)

lemma min_b_rows_standard:
  assumes "0 < comm_size a" and "comm_size b = comm_size a"
      and "split b = Some 0 \<or> split b = Some 1"
  shows "Min (set (map (\<lambda>row. fst (snd row)) (standard_lshapes a b)))
           = (if split b = Some 0 then fst (shape2 b) div comm_size a else fst (shape2 b))"
  using assms
  by (auto simp: standard_lshapes_def standard_lshape_split0 standard_lshape_split1
                 image_image Min_chunk_lens Min_const_image)

lemma min_b_cols_standard:
  assumes "0 < comm_size a" and "comm_size b = comm_size a"
      and "split b = Some 0 \<or> split b = Some 1"
  shows "Min (set (map (\<lambda>row. snd (snd row)) (standard_lshapes a b)))
           = (if split b = Some 1 then snd (shape2 b) div comm_size a else snd (shape2 b))"
  using assms
  by (auto simp: standard_lshapes_def standard_lshape_split0 standard_lshape_split1
                 image_image Min_chunk_lens Min_const_image)

lemma standard_lshapes_nonempty: "0 < comm_size a \<Longrightarrow> standard_lshapes a b \<noteq> []"
  by (simp add: standard_lshapes_def)

lemma min_inner_standard:
  assumes "0 < comm_size a" and "comm_size b = comm_size a"
      and "split a = Some 0 \<or> split a = Some 1" and "split b = Some 0 \<or> split b = Some 1"
  shows "min_inner_extent (standard_lshapes a b)
           = min (if split a = Some 1 then snd (shape2 a) div comm_size a else snd (shape2 a))
                 (if split b = Some 0 then fst (shape2 b) div comm_size a else fst (shape2 b))"
proof -
  let ?A = "set (map (\<lambda>row. snd (fst row)) (standard_lshapes a b))"
  let ?B = "set (map (\<lambda>row. fst (snd row)) (standard_lshapes a b))"
  from standard_lshapes_nonempty [OF assms(1), of b]
  have ne: "?A \<noteq> {}" "?B \<noteq> {}" by simp_all
  have "Min (?A \<union> ?B) = min (Min ?A) (Min ?B)"
    using ne by (intro Min_Un) simp_all
  then show ?thesis
    unfolding min_inner_extent_def
    by (simp only: min_a_cols_standard [OF assms(1,3)] min_b_rows_standard [OF assms(1,2,4)])
qed

lemma mm_kB_standard:
  assumes "standard_operands a b t" and "both_split a b"
  shows "mm_kB a b = Inr (min_inner_extent t)"
proof -
  from assms(1) have p: "0 < comm_size a" "comm_size b = comm_size a"
      and eq: "snd (shape2 a) = fst (shape2 b)" and t: "t = standard_lshapes a b"
    by (simp_all add: standard_operands_def)
  from assms(2) have sa: "split a = Some 0 \<or> split a = Some 1"
      and sb: "split b = Some 0 \<or> split b = Some 1"
    by (simp_all add: both_split_def)
  have d: "fst (shape2 b) div comm_size a \<le> fst (shape2 b)"
    by (rule div_le_dividend)
  from sa sb p eq d show ?thesis
    unfolding t min_inner_standard [OF p sa sb]
    by (auto simp: mm_kB_def floordiv_def min_def)
qed

lemma mm_mB_standard:
  assumes "standard_operands a b t"
  shows "mm_mB t = Inr (min_row_extent t)"
  using assms standard_lshapes_nonempty [of a b]
  by (simp add: standard_operands_def mm_mB_def min_row_extent_def list_min_Min)

lemma mm_nB_standard:
  assumes "standard_operands a b t"
  shows "mm_nB t = Inr (min_col_extent t)"
  using assms standard_lshapes_nonempty [of a b]
  by (simp add: standard_operands_def mm_nB_def min_col_extent_def list_min_Min)

lemma mm_rem_cases:
  "mm_rem extent blk kB
     = (if blk = 0 then Inl ZeroDivisionError else Inr (rem_flag extent blk kB))"
  by (simp add: mm_rem_def pymod_def rem_flag_def)

lemma mm_block_sizes_standard:
  assumes std: "standard_operands a b t" and both: "both_split a b"
  shows "mm_block_sizes a b t =
           (if min_inner_extent t = 0 \<or> min_row_extent t = 0 \<or> min_col_extent t = 0
            then Inl ZeroDivisionError
            else Inr (min_inner_extent t, min_row_extent t, min_col_extent t))"
  by (simp add: mm_block_sizes_def mm_inner_size_def mm_outer_sizes_def mm_rem_cases
                mm_kB_standard [OF std both] mm_mB_standard [OF std] mm_nB_standard [OF std])

text \<open>
  C5. \<^verbatim>\<open>mB\<close> and \<^verbatim>\<open>nB\<close> are the minimum extents along the row and the column dimension
  over the gathered table of shard shapes, whatever the table holds. For two split
  operands distributed in the standard way (the strategies 0/0, 1/1 and 0/1, and 1/0 as
  well), \<^verbatim>\<open>kB\<close> is the minimum extent along the contraction dimension over that table, and
  the code goes on with these three sizes unless one of them is zero, in which case the
  first remainder test that divides by it raises.
\<close>

theorem mm_block_sizes_are_minimum_extents:
  "(t \<noteq> [] \<longrightarrow> mm_mB t = Inr (min_row_extent t) \<and> mm_nB t = Inr (min_col_extent t))
   \<and> (standard_operands a b t \<and> both_split a b \<longrightarrow>
        mm_kB a b = Inr (min_inner_extent t)
        \<and> mm_block_sizes a b t =
             (if min_inner_extent t = 0 \<or> min_row_extent t = 0 \<or> min_col_extent t = 0
              then Inl ZeroDivisionError
              else Inr (min_inner_extent t, min_row_extent t, min_col_extent t)))"
proof (intro conjI impI)
  assume "t \<noteq> []"
  then show "mm_mB t = Inr (min_row_extent t)"
    by (simp add: mm_mB_def min_row_extent_def list_min_Min)
next
  assume "t \<noteq> []"
  then show "mm_nB t = Inr (min_col_extent t)"
    by (simp add: mm_nB_def min_col_extent_def list_min_Min)
next
  assume "standard_operands a b t \<and> both_split a b"
  then show "mm_kB a b = Inr (min_inner_extent t)"
    by (simp add: mm_kB_standard)
next
  assume "standard_operands a b t \<and> both_split a b"
  then show "mm_block_sizes a b t =
             (if min_inner_extent t = 0 \<or> min_row_extent t = 0 \<or> min_col_extent t = 0
              then Inl ZeroDivisionError
              else Inr (min_inner_extent t, min_row_extent t, min_col_extent t))"
    by (simp add: mm_block_sizes_standard)
qed

theorem mm_block_sizes_are_minimum_extents_witness:
  "standard_lshapes a53_split1 b34_split1 = [((5, 2), (3, 2)), ((5, 1), (3, 2))]
   \<and> mm_kB a53_split1 b34_split1 = Inr 1
   \<and> mm_mB (standard_lshapes a53_split1 b34_split1) = Inr 5
   \<and> mm_nB (standard_lshapes a53_split1 b34_split1) = Inr 2
   \<and> mm_block_sizes a53_split1 b34_split1 (standard_lshapes a53_split1 b34_split1) = Inr (1, 5, 2)"
proof -
  let ?t = "standard_lshapes a53_split1 b34_split1"
  have t: "?t = [((5, 2), (3, 2)), ((5, 1), (3, 2))]"
    by code_simp
  then have ne: "?t \<noteq> []" by simp
  have std: "standard_operands a53_split1 b34_split1 ?t"
    by code_simp
  have both: "both_split a53_split1 b34_split1"
    by (simp add: both_split_def a53_split1_def b34_split1_def)
  have mins: "min_inner_extent ?t = 1" "min_row_extent ?t = 5" "min_col_extent ?t = 2"
    unfolding t by (simp_all add: min_inner_extent_def min_row_extent_def min_col_extent_def)
  from mm_block_sizes_are_minimum_extents [of ?t a53_split1 b34_split1] ne std both mins t
  show ?thesis by simp
qed

section \<open>Properties of the block maps\<close>

text \<open>
  The number of blocks of a rank in a dimension: with the flag of the one-element edge
  case the quotient by the block size is divided by the number of processes as well.
\<close>

lemma block_count_cases:
  "block_count True extent blk p
     = (if blk = 0 \<or> p = 0 then Inl ZeroDivisionError else Inr (extent div blk div p))"
  "block_count False extent blk p
     = (if blk = 0 then Inl ZeroDivisionError else Inr (extent div blk))"
  by (simp_all add: block_count_def floordiv_def bind_err_def)

text \<open>
  C6 at \<open>A\<close> of shape 1 by 2 and \<open>B\<close> of shape 2 by 2, both split along axis 0 over two
  processes. The shard of \<open>A\<close> on rank 0 has one row, its split axis; the table of shard
  shapes is that of the standard distribution; \<^verbatim>\<open>mB\<close> is 0, the computation of lines 283 to
  463 raises ZeroDivisionError, and so does \<^verbatim>\<open>matmul\<close>, after the first all-reduce.
\<close>

theorem matmul_one_row_on_two_processes_raises:
  "fst (lshape2 (heap world_row 0)) = 1
   \<and> split (heap world_row 0) = Some 0
   \<and> gather_lshapes (lone_env peers_row) (heap world_row 0) (heap world_row 1)
       = [((1, 2), (1, 2)), ((0, 2), (1, 2))]
   \<and> standard_lshapes (heap world_row 0) (heap world_row 1)
       = [((1, 2), (1, 2)), ((0, 2), (1, 2))]
   \<and> mm_mB [((1, 2), (1, 2)), ((0, 2), (1, 2))] = Inr 0
   \<and> mm_block_maps (heap world_row 0) (heap world_row 1) [((1, 2), (1, 2)), ((0, 2), (1, 2))]
       = Inl ZeroDivisionError
   \<and> fst (matmul (lone_env peers_row) world_row 0 1 False) = Inl ZeroDivisionError
   \<and> comm_log (snd (matmul (lone_env peers_row) world_row 0 1 False)) = [Allreduce]"
proof -
  have "fst (lshape2 (heap world_row 0)) = 1"
    by code_simp
  moreover have "split (heap world_row 0) = Some 0"
    by (simp add: world_row_def a12_split0_def)
  moreover have "gather_lshapes (lone_env peers_row) (heap world_row 0) (heap world_row 1)
       = [((1, 2), (1, 2)), ((0, 2), (1, 2))]"
    by code_simp
  moreover have "standard_lshapes (heap world_row 0) (heap world_row 1)
       = [((1, 2), (1, 2)), ((0, 2), (1, 2))]"
    by code_simp
  moreover have "mm_mB [((1, 2), (1, 2)), ((0, 2), (1, 2))] = Inr 0"
    by (simp add: mm_mB_def)
  moreover have "mm_block_maps (heap world_row 0) (heap world_row 1)
       [((1, 2), (1, 2)), ((0, 2), (1, 2))] = Inl ZeroDivisionError"
    by code_simp
  moreover have "fst (matmul (lone_env peers_row) world_row 0 1 False) = Inl ZeroDivisionError"
    by code_simp
  moreover have "comm_log (snd (matmul (lone_env peers_row) world_row 0 1 False)) = [Allreduce]"
    by code_simp
  ultimately show ?thesis
    by simp
qed

text \<open>A loop whose rounds all succeed and keep an invariant succeeds and keeps it.\<close>

lemma for_each_invariant:
  assumes "I s"
      and "\<And>i s. i \<in> set xs \<Longrightarrow> I s \<Longrightarrow> \<exists>s'. body i s = Inr s' \<and> I s'"
  shows "\<exists>s'. for_each xs body s = Inr s' \<and> I s'"
  using assms
proof (induction xs arbitrary: s)
  case Nil
  then show ?case by simp
next
  case (Cons i rest)
  from Cons.prems obtain s1 where s1: "body i s = Inr s1" "I s1"
    by (meson list.set_intros(1))
  have "\<exists>s'. for_each rest body s1 = Inr s' \<and> I s'"
    by (rule Cons.IH [OF s1(2)]) (simp add: Cons.prems(2))
  with s1 show ?case by simp
qed

lemma grid_zeros: "grid (block_map_zeros p d0 d1) p d0 d1"
  by (simp add: grid_def block_map_zeros_def)

lemma set_block_grid:
  assumes "grid m p d0 d1" and "pr < p" and "i < d0" and "j < d1"
  shows "\<exists>m'. set_block m pr i j v = Inr m' \<and> grid m' p d0 d1"
proof -
  from assms have l1: "pr < length m"
    by (simp add: grid_def)
  then have mem: "m ! pr \<in> set m" by simp
  from assms(1) have "\<forall>plane \<in> set m. length plane = d0 \<and> (\<forall>row \<in> set plane. length row = d1)"
    by (simp add: grid_def)
  with mem have "length (m ! pr) = d0" and rows: "\<forall>row \<in> set (m ! pr). length row = d1"
    by blast+
  with assms(3) have l2: "i < length (m ! pr)" by simp
  from l2 have "m ! pr ! i \<in> set (m ! pr)" by simp
  with rows assms(4) have l3: "j < length (m ! pr ! i)" by simp
  note len = l1 l2 l3
  let ?m' = "m[pr := (m ! pr)[i := (m ! pr ! i)[j := v]]]"
  have "grid ?m' p d0 d1"
    unfolding grid_def
  proof (intro conjI ballI)
    show "length ?m' = p" using assms(1) by (simp add: grid_def)
  next
    fix plane assume "plane \<in> set ?m'"
    then have "plane \<in> set m \<or> plane = (m ! pr)[i := (m ! pr ! i)[j := v]]"
      by (meson insertE set_update_subset_insert subsetD)
    with assms(1) len show "length plane = d0"
      by (auto simp: grid_def)
  next
    fix plane row assume pl: "plane \<in> set ?m'" and row: "row \<in> set plane"
    from pl have "plane \<in> set m \<or> plane = (m ! pr)[i := (m ! pr ! i)[j := v]]"
      by (meson insertE set_update_subset_insert subsetD)
    then show "length row = d1"
    proof
      assume "plane \<in> set m"
      with assms(1) row show ?thesis by (auto simp: grid_def)
    next
      assume "plane = (m ! pr)[i := (m ! pr ! i)[j := v]]"
      with row have "row \<in> set (m ! pr) \<or> row = (m ! pr ! i)[j := v]"
        by (meson insertE set_update_subset_insert subsetD)
      moreover have "m ! pr \<in> set m" using len by simp
      moreover have "m ! pr ! i \<in> set (m ! pr)" using len by simp
      ultimately show ?thesis using assms(1) by (auto simp: grid_def)
    qed
  qed
  with len show ?thesis by (simp add: set_block_def)
qed

lemma fill_block_map_grid:
  assumes p: "0 < p" and blk: "0 < blk0" "0 < blk1"
      and b0: "\<forall>pr < p. (if f0 then extent_len (fst (extents pr)) div blk0 div p
                         else extent_len (fst (extents pr)) div blk0) \<le> d0"
      and b1: "\<forall>pr < p. (if f1 then extent_len (snd (extents pr)) div blk1 div p
                         else extent_len (snd (extents pr)) div blk1) \<le> d1"
  shows "\<exists>m. fill_block_map p extents f0 f1 blk0 blk1 (block_map_zeros p d0 d1) = Inr m
             \<and> grid m p d0 d1"
  unfolding fill_block_map_def
proof (rule for_each_invariant [where I = "\<lambda>m. grid m p d0 d1"])
  show "grid (block_map_zeros p d0 d1) p d0 d1" by (rule grid_zeros)
next
  fix pr m
  assume pr: "pr \<in> set [0..<p]" and g: "grid m p d0 d1"
  then have prp: "pr < p" by simp
  let ?n0 = "if f0 then extent_len (fst (extents pr)) div blk0 div p
             else extent_len (fst (extents pr)) div blk0"
  let ?n1 = "if f1 then extent_len (snd (extents pr)) div blk1 div p
             else extent_len (snd (extents pr)) div blk1"
  have c0: "block_count f0 (extent_len (fst (extents pr))) blk0 p = Inr ?n0"
    using p blk by (simp add: block_count_cases)
  have c1: "block_count f1 (extent_len (snd (extents pr))) blk1 p = Inr ?n1"
    using p blk by (simp add: block_count_cases)
  from b0 prp have n0: "?n0 \<le> d0" by blast
  from b1 prp have n1: "?n1 \<le> d1" by blast
  have "\<exists>m'. for_each [0..<?n0] (\<lambda>dim0 m.
          bind_err (block_count f1 (extent_len (snd (extents pr))) blk1 p) (\<lambda>n1.
          for_each [0..<n1] (\<lambda>dim1 m. set_block m pr dim0 dim1 (dim0 * blk0, dim1 * blk1)) m))
        m = Inr m' \<and> grid m' p d0 d1"
  proof (rule for_each_invariant [where I = "\<lambda>m. grid m p d0 d1", OF g])
    fix dim0 m1
    assume d0: "dim0 \<in> set [0..<?n0]" and g1: "grid m1 p d0 d1"
    with n0 have d0': "dim0 < d0" by simp
    have "\<exists>m'. for_each [0..<?n1]
            (\<lambda>dim1 m. set_block m pr dim0 dim1 (dim0 * blk0, dim1 * blk1)) m1 = Inr m'
          \<and> grid m' p d0 d1"
    proof (rule for_each_invariant [where I = "\<lambda>m. grid m p d0 d1", OF g1])
      fix dim1 m2
      assume "dim1 \<in> set [0..<?n1]" and g2: "grid m2 p d0 d1"
      with n1 have "dim1 < d1" by simp
      from set_block_grid [OF g2 prp d0' this]
      show "\<exists>m'. set_block m2 pr dim0 dim1 (dim0 * blk0, dim1 * blk1) = Inr m' \<and> grid m' p d0 d1" .
    qed
    then show "\<exists>m'. bind_err (block_count f1 (extent_len (snd (extents pr))) blk1 p) (\<lambda>n1.
          for_each [0..<n1] (\<lambda>dim1 m. set_block m pr dim0 dim1 (dim0 * blk0, dim1 * blk1)) m1)
        = Inr m' \<and> grid m' p d0 d1"
      by (simp only: c1 bind_err_Inr)
  qed
  then show "\<exists>m'. bind_err (block_count f0 (extent_len (fst (extents pr))) blk0 p) (\<lambda>n0.
       for_each [0..<n0] (\<lambda>dim0 m.
         bind_err (block_count f1 (extent_len (snd (extents pr))) blk1 p) (\<lambda>n1.
         for_each [0..<n1] (\<lambda>dim1 m. set_block m pr dim0 dim1 (dim0 * blk0, dim1 * blk1)) m))
       m) = Inr m' \<and> grid m' p d0 d1"
    by (simp only: c0 bind_err_Inr)
qed

text \<open>
  The number of blocks of a rank along a split dimension of size \<open>G\<close> never exceeds the
  extent of the grid, and the grid is not empty, as long as the smallest shard (of size
  \<open>G div p\<close>) is not empty.
\<close>

lemma split_dim_count_bound:
  assumes p: "0 < p" and q: "0 < G div p" and r: "r < p"
  shows "(if any_eq_1 (map (\<lambda>r. extent_len (chunk_extent G p r)) [0..<p])
          then extent_len (chunk_extent G p r) div (G div p) div p
          else extent_len (chunk_extent G p r) div (G div p)) \<le> G div (G div p) div p"
    and "1 \<le> G div (G div p) div p"
proof -
  let ?q = "G div p"
  let ?ext = "extent_len (chunk_extent G p r)"
  have pq: "p * ?q \<le> G" by simp
  then have "p \<le> G div ?q"
    using q by (simp add: less_eq_div_iff_mult_less_eq)
  then have "p div p \<le> G div ?q div p"
    by (rule div_le_mono)
  with p show one: "1 \<le> G div ?q div p" by simp
  have ext_le: "?ext \<le> ?q + 1"
    by (simp add: chunk_extent_len)
  have ext_G: "?ext \<le> G"
  proof (cases "r < G mod p")
    case True
    then have "1 \<le> G mod p" by simp
    moreover have "?q \<le> p * ?q" using p by simp
    moreover have "G = p * ?q + G mod p" by simp
    ultimately have "?q + 1 \<le> G" by linarith
    with ext_le show ?thesis by simp
  next
    case False
    then have "?ext = ?q" by (simp add: chunk_extent_len)
    then show ?thesis by simp
  qed
  show "(if any_eq_1 (map (\<lambda>r. extent_len (chunk_extent G p r)) [0..<p])
          then ?ext div ?q div p else ?ext div ?q) \<le> G div ?q div p"
  proof (cases "any_eq_1 (map (\<lambda>r. extent_len (chunk_extent G p r)) [0..<p])")
    case True
    from ext_G have "?ext div ?q div p \<le> G div ?q div p"
      by (intro div_le_mono)
    with True show ?thesis by simp
  next
    case False
    from p have "G mod p < p" by simp
    then have "\<not> (p - 1 < G mod p)" by linarith
    then have last: "extent_len (chunk_extent G p (p - 1)) = ?q"
      by (simp add: chunk_extent_len)
    from p have "p - 1 \<in> set [0..<p]" by simp
    then have "extent_len (chunk_extent G p (p - 1))
                 \<in> set (map (\<lambda>r. extent_len (chunk_extent G p r)) [0..<p])"
      by (metis (no_types, lifting) image_eqI set_map)
    with False have "extent_len (chunk_extent G p (p - 1)) \<noteq> 1"
      unfolding any_eq_1_def by blast
    with last q have q2: "2 \<le> ?q" by simp
    from ext_le have "?ext div ?q \<le> (?q + 1) div ?q"
      by (rule div_le_mono)
    also from q2 have "(?q + 1) div ?q = 1"
      by (intro div_nat_eqI) simp_all
    finally have "?ext div ?q \<le> 1" .
    with one False show ?thesis by simp
  qed
qed

lemma grid_bump_dim1: "grid m p d0 d1 \<Longrightarrow> grid (bump_dim1 c m) p d0 d1"
  by (auto simp: grid_def bump_dim1_def)

lemma grid_bump_dim0: "grid m p d0 d1 \<Longrightarrow> grid (bump_dim0 c m) p d0 d1"
  by (auto simp: grid_def bump_dim0_def in_set_enumerate_eq)

lemma grid_shift_blocks:
  assumes "\<And>c m. grid m p d0 d1 \<Longrightarrow> grid (bump c m) p d0 d1"
  shows "grid m p d0 d1 \<Longrightarrow> grid (shift_blocks bump rs cnt m) p d0 d1"
  by (induction rs arbitrary: cnt m) (simp_all add: assms)

lemma standard_extents:
  "split x = Some 0 \<Longrightarrow>
     extent_len (fst (a_extents x pr)) = extent_len (chunk_extent (fst (shape2 x)) (comm_size x) pr)
     \<and> extent_len (snd (a_extents x pr)) = snd (shape2 x)"
  "split x = Some 1 \<Longrightarrow>
     extent_len (fst (a_extents x pr)) = fst (shape2 x)
     \<and> extent_len (snd (a_extents x pr)) = extent_len (chunk_extent (snd (shape2 x)) (comm_size x) pr)"
  by (simp_all add: a_extents_def chunk_def extent_len_def split: prod.splits)

text \<open>
  Filling the block map of one operand. \<open>blk0\<close> and \<open>blk1\<close> are the block sizes of its two
  dimensions: along its split dimension the size of the smallest shard, along the other at
  most the whole extent.
\<close>

lemma operand_block_map_grid:
  assumes p: "0 < comm_size x" and sx: "split x = Some 0 \<or> split x = Some 1"
      and blk: "0 < blk0" "0 < blk1"
      and blk_split: "split x = Some 0 \<Longrightarrow> blk0 = fst (shape2 x) div comm_size x"
                     "split x = Some 1 \<Longrightarrow> blk1 = snd (shape2 x) div comm_size x"
      and blk_whole: "split x = Some 0 \<Longrightarrow> blk1 \<le> snd (shape2 x)"
                     "split x = Some 1 \<Longrightarrow> blk0 \<le> fst (shape2 x)"
      and f0: "f0 = any_eq_1 (map (\<lambda>pr. fst (standard_lshape x pr)) [0..<comm_size x])"
      and f1: "f1 = any_eq_1 (map (\<lambda>pr. snd (standard_lshape x pr)) [0..<comm_size x])"
      and d0: "d0 = (if split x = Some 0 then fst (shape2 x) div blk0 div comm_size x
                     else fst (shape2 x) div blk0)"
      and d1: "d1 = (if split x = Some 0 then snd (shape2 x) div blk1
                     else snd (shape2 x) div blk1 div comm_size x)"
  shows "\<exists>m. fill_block_map (comm_size x) (a_extents x) f0 f1 blk0 blk1
               (block_map_zeros (comm_size x) d0 d1) = Inr m
             \<and> grid m (comm_size x) d0 d1"
    and "0 < d0" and "0 < d1"
proof -
  let ?p = "comm_size x"
  let ?G0 = "fst (shape2 x)" and ?G1 = "snd (shape2 x)"
  from sx show "\<exists>m. fill_block_map ?p (a_extents x) f0 f1 blk0 blk1
               (block_map_zeros ?p d0 d1) = Inr m \<and> grid m ?p d0 d1"
  proof
    assume s: "split x = Some 0"
    with blk blk_split have q: "0 < ?G0 div ?p" and b: "blk0 = ?G0 div ?p" by simp_all
    have f0': "f0 = any_eq_1 (map (\<lambda>r. extent_len (chunk_extent ?G0 ?p r)) [0..<?p])"
      using s by (simp add: f0 standard_lshape_split0)
    show ?thesis
    proof (rule fill_block_map_grid [OF p blk])
      show "\<forall>pr < ?p. (if f0 then extent_len (fst (a_extents x pr)) div blk0 div ?p
                         else extent_len (fst (a_extents x pr)) div blk0) \<le> d0"
      proof (intro allI impI)
        fix pr assume pr: "pr < ?p"
        have e: "extent_len (fst (a_extents x pr)) = extent_len (chunk_extent ?G0 ?p pr)"
          using standard_extents(1) [OF s] by simp
        have d: "d0 = ?G0 div (?G0 div ?p) div ?p"
          using s by (simp add: d0 b)
        show "(if f0 then extent_len (fst (a_extents x pr)) div blk0 div ?p
               else extent_len (fst (a_extents x pr)) div blk0) \<le> d0"
          unfolding e d b f0' by (rule split_dim_count_bound(1) [OF p q pr])
      qed
      show "\<forall>pr < ?p. (if f1 then extent_len (snd (a_extents x pr)) div blk1 div ?p
                         else extent_len (snd (a_extents x pr)) div blk1) \<le> d1"
        using s by (simp add: d1 standard_extents div_le_dividend)
    qed
  next
    assume s: "split x = Some 1"
    with blk blk_split have q: "0 < ?G1 div ?p" and b: "blk1 = ?G1 div ?p" by simp_all
    have f1': "f1 = any_eq_1 (map (\<lambda>r. extent_len (chunk_extent ?G1 ?p r)) [0..<?p])"
      using s by (simp add: f1 standard_lshape_split1)
    show ?thesis
    proof (rule fill_block_map_grid [OF p blk])
      show "\<forall>pr < ?p. (if f0 then extent_len (fst (a_extents x pr)) div blk0 div ?p
                         else extent_len (fst (a_extents x pr)) div blk0) \<le> d0"
        using s by (simp add: d0 standard_extents div_le_dividend)
      show "\<forall>pr < ?p. (if f1 then extent_len (snd (a_extents x pr)) div blk1 div ?p
                         else extent_len (snd (a_extents x pr)) div blk1) \<le> d1"
      proof (intro allI impI)
        fix pr assume pr: "pr < ?p"
        have e: "extent_len (snd (a_extents x pr)) = extent_len (chunk_extent ?G1 ?p pr)"
          using standard_extents(2) [OF s] by simp
        have d: "d1 = ?G1 div (?G1 div ?p) div ?p"
          using s by (simp add: d1 b)
        show "(if f1 then extent_len (snd (a_extents x pr)) div blk1 div ?p
               else extent_len (snd (a_extents x pr)) div blk1) \<le> d1"
          unfolding e d b f1' by (rule split_dim_count_bound(1) [OF p q pr])
      qed
    qed
  qed
  from sx show "0 < d0"
  proof
    assume s: "split x = Some 0"
    with blk blk_split have q: "0 < ?G0 div ?p" and b: "blk0 = ?G0 div ?p" by simp_all
    from split_dim_count_bound(2) [OF p q, of 0] p s show ?thesis
      by (simp add: d0 b)
  next
    assume s: "split x = Some 1"
    with blk_whole blk have "1 \<le> ?G0 div blk0"
      by (simp add: less_eq_div_iff_mult_less_eq)
    with s show ?thesis by (simp add: d0)
  qed
  from sx show "0 < d1"
  proof
    assume s: "split x = Some 0"
    with blk_whole blk have "1 \<le> ?G1 div blk1"
      by (simp add: less_eq_div_iff_mult_less_eq)
    with s show ?thesis by (simp add: d1)
  next
    assume s: "split x = Some 1"
    with blk blk_split have q: "0 < ?G1 div ?p" and b: "blk1 = ?G1 div ?p" by simp_all
    from split_dim_count_bound(2) [OF p q, of 0] p s show ?thesis
      by (simp add: d1 b)
  qed
qed

lemma standard_columns:
  "map (\<lambda>row. fst (fst row)) (standard_lshapes a b)
     = map (\<lambda>pr. fst (standard_lshape a pr)) [0..<comm_size a]"
  "map (\<lambda>row. snd (fst row)) (standard_lshapes a b)
     = map (\<lambda>pr. snd (standard_lshape a pr)) [0..<comm_size a]"
  "map (\<lambda>row. fst (snd row)) (standard_lshapes a b)
     = map (\<lambda>pr. fst (standard_lshape b pr)) [0..<comm_size a]"
  "map (\<lambda>row. snd (snd row)) (standard_lshapes a b)
     = map (\<lambda>pr. snd (standard_lshape b pr)) [0..<comm_size a]"
  by (simp_all add: standard_lshapes_def)

lemma standard_block_sizes:
  assumes std: "standard_operands a b t" and both: "both_split a b"
  shows "min_row_extent t = (if split a = Some 0 then fst (shape2 a) div comm_size a
                             else fst (shape2 a))"
    and "min_col_extent t = (if split b = Some 1 then snd (shape2 b) div comm_size a
                             else snd (shape2 b))"
    and "split a = Some 1 \<or> split b = Some 0
           \<Longrightarrow> min_inner_extent t = snd (shape2 a) div comm_size a"
    and "min_inner_extent t \<le> snd (shape2 a)"
proof -
  from std have p: "0 < comm_size a" "comm_size b = comm_size a"
      and eq: "snd (shape2 a) = fst (shape2 b)" and t: "t = standard_lshapes a b"
    by (simp_all add: standard_operands_def)
  from both have sa: "split a = Some 0 \<or> split a = Some 1"
      and sb: "split b = Some 0 \<or> split b = Some 1"
    by (simp_all add: both_split_def)
  show "min_row_extent t = (if split a = Some 0 then fst (shape2 a) div comm_size a
                            else fst (shape2 a))"
    unfolding min_row_extent_def t by (rule min_rows_standard [OF p(1) sa])
  show "min_col_extent t = (if split b = Some 1 then snd (shape2 b) div comm_size a
                            else snd (shape2 b))"
    unfolding min_col_extent_def t by (rule min_b_cols_standard [OF p sb])
  let ?P = "fst (shape2 b)"
  have m1: "min ?P (?P div comm_size a) = ?P div comm_size a"
    by (simp add: min_absorb2)
  have m2: "min (?P div comm_size a) ?P = ?P div comm_size a"
    by (simp add: min_absorb1)
  note inner = min_inner_standard [OF p sa sb]
  show "min_inner_extent t = snd (shape2 a) div comm_size a"
    if "split a = Some 1 \<or> split b = Some 0"
    using that unfolding t inner eq by (auto simp: m1 m2)
  show "min_inner_extent t \<le> snd (shape2 a)"
    unfolding t inner eq by (simp add: m1 m2)
qed

text \<open>
  The block map of \<open>A\<close> is built without an exception, and it has at least one block in
  each dimension, when the operands are distributed in the standard way and no block size
  is zero.
\<close>

lemma mm_a_block_map_complete:
  assumes std: "standard_operands a b t" and both: "both_split a b"
      and pos: "0 < min_inner_extent t" "0 < min_row_extent t"
  shows "\<exists>m d0 d1. mm_a_block_map a b t (min_inner_extent t) (min_row_extent t) nB = Inr m
           \<and> grid m (comm_size a) d0 d1 \<and> 0 < d0 \<and> 0 < d1"
proof -
  let ?kB = "min_inner_extent t" and ?mB = "min_row_extent t"
  let ?p = "comm_size a"
  from std have p: "0 < ?p" and t: "t = standard_lshapes a b"
    by (simp_all add: standard_operands_def)
  from both have sa: "split a = Some 0 \<or> split a = Some 1"
    by (simp add: both_split_def)
  note sizes = standard_block_sizes [OF std both]
  define d0 where "d0 = (if split a = Some 0 then fst (shape2 a) div ?mB div ?p
                         else fst (shape2 a) div ?mB)"
  define d1 where "d1 = (if split a = Some 0 then snd (shape2 a) div ?kB
                         else snd (shape2 a) div ?kB div ?p)"
  define f0 where "f0 = any_eq_1 (map (\<lambda>row. fst (fst row)) t)"
  define f1 where "f1 = any_eq_1 (map (\<lambda>row. snd (fst row)) t)"
  have shape: "a_block_map_shape a ?mB ?kB = Inr (d0, d1)"
    using pos p by (simp add: a_block_map_shape_def floordiv_def d0_def d1_def)
  have fill: "\<exists>m. fill_block_map ?p (a_extents a) f0 f1 ?mB ?kB (block_map_zeros ?p d0 d1) = Inr m
                \<and> grid m ?p d0 d1"
    and d0_pos: "0 < d0" and d1_pos: "0 < d1"
  proof -
    have b1: "split a = Some 0 \<Longrightarrow> ?mB = fst (shape2 a) div ?p"
      by (simp add: sizes(1))
    have b2: "split a = Some 1 \<Longrightarrow> ?kB = snd (shape2 a) div ?p"
      by (simp add: sizes(3))
    have w1: "split a = Some 0 \<Longrightarrow> ?kB \<le> snd (shape2 a)"
      by (simp add: sizes(4))
    have w2: "split a = Some 1 \<Longrightarrow> ?mB \<le> fst (shape2 a)"
      by (simp add: sizes(1))
    have g0: "f0 = any_eq_1 (map (\<lambda>pr. fst (standard_lshape a pr)) [0..<?p])"
      unfolding f0_def t by (simp only: standard_columns)
    have g1: "f1 = any_eq_1 (map (\<lambda>pr. snd (standard_lshape a pr)) [0..<?p])"
      unfolding f1_def t by (simp only: standard_columns)
    note r = operand_block_map_grid [OF p sa pos(2) pos(1) b1 b2 w1 w2 g0 g1 d0_def d1_def]
    from r(1) show "\<exists>m. fill_block_map ?p (a_extents a) f0 f1 ?mB ?kB
                          (block_map_zeros ?p d0 d1) = Inr m \<and> grid m ?p d0 d1" .
    from r(2) show "0 < d0" .
    from r(3) show "0 < d1" .
  qed
  from fill obtain m where m: "fill_block_map ?p (a_extents a) f0 f1 ?mB ?kB
                                 (block_map_zeros ?p d0 d1) = Inr m"
      and g: "grid m ?p d0 d1"
    by blast
  let ?res = "if split b = Some 0
              then shift_blocks bump_dim1
                     (map (\<lambda>row. fst (snd row)) (mm_rem_map ?kB ?mB nB t)) 0 m
              else m"
  have "mm_a_block_map a b t ?kB ?mB nB = Inr ?res"
    unfolding mm_a_block_map_def shape
    by (simp add: Let_def m [unfolded f0_def f1_def])
  moreover have "grid ?res ?p d0 d1"
    using g by (simp add: grid_shift_blocks grid_bump_dim1)
  ultimately show ?thesis
    using d0_pos d1_pos by blast
qed

lemma mm_b_block_map_complete:
  assumes std: "standard_operands a b t" and both: "both_split a b"
      and pos: "0 < min_inner_extent t" "0 < min_col_extent t"
  shows "\<exists>m d0 d1. mm_b_block_map a b t (min_inner_extent t) mB (min_col_extent t) = Inr m
           \<and> grid m (comm_size b) d0 d1 \<and> 0 < d0 \<and> 0 < d1"
proof -
  let ?kB = "min_inner_extent t" and ?nB = "min_col_extent t"
  let ?p = "comm_size b"
  from std have pa: "0 < comm_size a" and pp: "?p = comm_size a"
      and eq: "snd (shape2 a) = fst (shape2 b)" and t: "t = standard_lshapes a b"
    by (simp_all add: standard_operands_def)
  from pa pp have p: "0 < ?p" by simp
  from both have sb: "split b = Some 0 \<or> split b = Some 1"
    by (simp add: both_split_def)
  note sizes = standard_block_sizes [OF std both]
  define d0 where "d0 = (if split b = Some 0 then fst (shape2 b) div ?kB div ?p
                         else fst (shape2 b) div ?kB)"
  define d1 where "d1 = (if split b = Some 0 then snd (shape2 b) div ?nB
                         else snd (shape2 b) div ?nB div ?p)"
  define f0 where "f0 = any_eq_1 (map (\<lambda>row. fst (snd row)) t)"
  define f1 where "f1 = any_eq_1 (map (\<lambda>row. snd (snd row)) t)"
  have shape: "b_block_map_shape b ?kB ?nB = Inr (d0, d1)"
    using pos p by (simp add: b_block_map_shape_def floordiv_def d0_def d1_def)
  have fill: "\<exists>m. fill_block_map ?p (a_extents b) f0 f1 ?kB ?nB (block_map_zeros ?p d0 d1) = Inr m
                \<and> grid m ?p d0 d1"
    and d0_pos: "0 < d0" and d1_pos: "0 < d1"
  proof -
    have b1: "split b = Some 0 \<Longrightarrow> ?kB = fst (shape2 b) div ?p"
      using sizes(3) eq pp by simp
    have b2: "split b = Some 1 \<Longrightarrow> ?nB = snd (shape2 b) div ?p"
      using sizes(2) pp by simp
    have w1: "split b = Some 0 \<Longrightarrow> ?nB \<le> snd (shape2 b)"
      using sizes(2) by simp
    have w2: "split b = Some 1 \<Longrightarrow> ?kB \<le> fst (shape2 b)"
      using sizes(4) eq by simp
    have g0: "f0 = any_eq_1 (map (\<lambda>pr. fst (standard_lshape b pr)) [0..<?p])"
      unfolding f0_def t pp by (simp only: standard_columns)
    have g1: "f1 = any_eq_1 (map (\<lambda>pr. snd (standard_lshape b pr)) [0..<?p])"
      unfolding f1_def t pp by (simp only: standard_columns)
    note r = operand_block_map_grid [OF p sb pos(1) pos(2) b1 b2 w1 w2 g0 g1 d0_def d1_def]
    from r(1) show "\<exists>m. fill_block_map ?p (a_extents b) f0 f1 ?kB ?nB
                          (block_map_zeros ?p d0 d1) = Inr m \<and> grid m ?p d0 d1" .
    from r(2) show "0 < d0" .
    from r(3) show "0 < d1" .
  qed
  from fill obtain m where m: "fill_block_map ?p (a_extents b) f0 f1 ?kB ?nB
                                 (block_map_zeros ?p d0 d1) = Inr m"
      and g: "grid m ?p d0 d1"
    by blast
  let ?res = "if split a = Some 1
              then shift_blocks bump_dim0
                     (map (\<lambda>row. snd (fst row)) (mm_rem_map ?kB mB ?nB t)) 0 m
              else m"
  have "mm_b_block_map a b t ?kB mB ?nB = Inr ?res"
    unfolding mm_b_block_map_def shape
    by (simp add: Let_def m [unfolded f0_def f1_def])
  moreover have "grid ?res ?p d0 d1"
    using g by (simp add: grid_shift_blocks grid_bump_dim0)
  ultimately show ?thesis
    using d0_pos d1_pos by blast
qed

text \<open>
  Where the construction completes: for two split operands distributed in the standard way with
  no empty shard (no minimum extent is zero), lines 283 to 463 build both block maps
  without an exception, and neither grid is empty; this covers every such case in which a
  shard has size 1.
\<close>

lemma mm_block_maps_complete:
  assumes std: "standard_operands a b t" and both: "both_split a b"
      and pos: "0 < min_inner_extent t" "0 < min_row_extent t" "0 < min_col_extent t"
  shows "\<exists>am bm a0 a1 b0 b1. mm_block_maps a b t = Inr (am, bm)
           \<and> grid am (comm_size a) a0 a1 \<and> 0 < a0 \<and> 0 < a1
           \<and> grid bm (comm_size b) b0 b1 \<and> 0 < b0 \<and> 0 < b1"
proof -
  let ?kB = "min_inner_extent t" and ?mB = "min_row_extent t" and ?nB = "min_col_extent t"
  from mm_block_sizes_standard [OF std both] pos
  have sizes: "mm_block_sizes a b t = Inr (?kB, ?mB, ?nB)" by simp
  from mm_a_block_map_complete [OF std both pos(1,2), of ?nB]
  obtain am a0 a1 where am: "mm_a_block_map a b t ?kB ?mB ?nB = Inr am"
      and ga: "grid am (comm_size a) a0 a1" "0 < a0" "0 < a1"
    by blast
  from mm_b_block_map_complete [OF std both pos(1,3), of ?mB]
  obtain bm b0 b1 where bm: "mm_b_block_map a b t ?kB ?mB ?nB = Inr bm"
      and gb: "grid bm (comm_size b) b0 b1" "0 < b0" "0 < b1"
    by blast
  have "mm_block_maps a b t = Inr (am, bm)"
    by (simp add: mm_block_maps_def sizes am bm)
  with ga gb show ?thesis by blast
qed

section \<open>The product matmul computes with two split operands\<close>

text \<open>
  Where no extent is 1, the loops compute the product: two 4 by 4 matrices, both split
  along axis 0 over two processes. Every rank ends with its two rows of the product.
\<close>

lemma matmul_split_0_four_by_four:
  "torch_matmul a44 b44
     = Inr \<lparr>tshape = [4, 4],
            telems = [10, 14, 5, 8, 26, 30, 17, 20, 42, 46, 29, 32, 58, 62, 41, 44]\<rparr>
   \<and> ring_matmul a44 b44 0 0 2 0 = Inr \<lparr>tshape = [2, 4], telems = [10, 14, 5, 8, 26, 30, 17, 20]\<rparr>
   \<and> ring_matmul a44 b44 0 0 2 1 = Inr \<lparr>tshape = [2, 4], telems = [42, 46, 29, 32, 58, 62, 41, 44]\<rparr>"
proof -
  have "torch_matmul a44 b44
     = Inr \<lparr>tshape = [4, 4],
            telems = [10, 14, 5, 8, 26, 30, 17, 20, 42, 46, 29, 32, 58, 62, 41, 44]\<rparr>"
    by code_simp
  moreover have "ring_matmul a44 b44 0 0 2 0
     = Inr \<lparr>tshape = [2, 4], telems = [10, 14, 5, 8, 26, 30, 17, 20]\<rparr>"
    by code_simp
  moreover have "ring_matmul a44 b44 0 0 2 1
     = Inr \<lparr>tshape = [2, 4], telems = [42, 46, 29, 32, 58, 62, 41, 44]\<rparr>"
    by code_simp
  ultimately show ?thesis by (intro conjI)
qed

text \<open>
  C1. \<^verbatim>\<open>matmul\<close> on two processes, both operands split along axis 0, with \<open>A\<close> the 2 by 2
  matrix of rows \<open>(1, 2)\<close> and \<open>(3, 4)\<close> and \<open>B\<close> the 2 by 2 identity, over the integers. The
  dense product is \<open>A\<close>, of which rank 0 should hold the row \<open>(1, 2)\<close> and rank 1 the row
  \<open>(3, 4)\<close>. The call returns on both ranks, with the row \<open>(1, 1)\<close> on rank 0 and the row
  \<open>(3, 3)\<close> on rank 1: every shard has one row, so the number of blocks of \<^verbatim>\<open>a_block_map\<close> in
  dimension 0 is divided by the number of processes and is zero, the map is left as it was
  created, all zeros, and \<^verbatim>\<open>__mm_c_block_setter\<close> multiplies column 0 of the shard of \<open>A\<close> with
  both rows of \<open>B\<close>.
\<close>

theorem matmul_split_0_two_by_two_wrong_product:
  "torch_matmul ring_a ring_b = Inr \<lparr>tshape = [2, 2], telems = [1, 2, 3, 4]\<rparr>
   \<and> array (shard \<lparr>tshape = [2, 2], telems = [1, 2, 3, 4]\<rparr> 0 2 0) = \<lparr>tshape = [1, 2], telems = [1, 2]\<rparr>
   \<and> array (shard \<lparr>tshape = [2, 2], telems = [1, 2, 3, 4]\<rparr> 0 2 1) = \<lparr>tshape = [1, 2], telems = [3, 4]\<rparr>
   \<and> mm_a_block_map (shard ring_a 0 2 0) (shard ring_b 0 2 0)
        [((1, 2), (1, 2)), ((1, 2), (1, 2))] 1 1 2 = Inr [[[(0, 0), (0, 0)]], [[(0, 0), (0, 0)]]]
   \<and> fst (matmul (ring_env ring_a ring_b 0 0 2) (ring_world ring_a ring_b 0 0 2 0) 0 1 False) = Inr 2
   \<and> ring_matmul ring_a ring_b 0 0 2 0 = Inr \<lparr>tshape = [1, 2], telems = [1, 1]\<rparr>
   \<and> ring_matmul ring_a ring_b 0 0 2 1 = Inr \<lparr>tshape = [1, 2], telems = [3, 3]\<rparr>"
proof -
  have "torch_matmul ring_a ring_b = Inr \<lparr>tshape = [2, 2], telems = [1, 2, 3, 4]\<rparr>"
    by code_simp
  moreover have "array (shard \<lparr>tshape = [2, 2], telems = [1, 2, 3, 4]\<rparr> 0 2 0)
                  = \<lparr>tshape = [1, 2], telems = [1, 2]\<rparr>"
    by code_simp
  moreover have "array (shard \<lparr>tshape = [2, 2], telems = [1, 2, 3, 4]\<rparr> 0 2 1)
                  = \<lparr>tshape = [1, 2], telems = [3, 4]\<rparr>"
    by code_simp
  moreover have "mm_a_block_map (shard ring_a 0 2 0) (shard ring_b 0 2 0)
        [((1, 2), (1, 2)), ((1, 2), (1, 2))] 1 1 2 = Inr [[[(0, 0), (0, 0)]], [[(0, 0), (0, 0)]]]"
    by code_simp
  moreover have "fst (matmul (ring_env ring_a ring_b 0 0 2) (ring_world ring_a ring_b 0 0 2 0) 0 1 False)
                  = Inr 2"
    by code_simp
  moreover have "ring_matmul ring_a ring_b 0 0 2 0 = Inr \<lparr>tshape = [1, 2], telems = [1, 1]\<rparr>"
    by code_simp
  moreover have "ring_matmul ring_a ring_b 0 0 2 1 = Inr \<lparr>tshape = [1, 2], telems = [3, 3]\<rparr>"
    by code_simp
  ultimately show ?thesis by (intro conjI)
qed

end
